(* ===== verification/Cena_Prelude.thy ===== *)
theory Cena_Prelude
  imports Complex_Main "HOL-Library.Sublist" "HOL-Library.Multiset"
begin

text \<open>
  Shared vocabulary of the development. JavaScript strings are sequences of
  UTF-16 code units; every character the program handles lies in the Basic
  Multilingual Plane, so a string is modelled as the list of its code points
  (\<open>jstr\<close>). JavaScript numbers used as ids, seats and counters stay far below
  \<open>2^53\<close>, so they are modelled as \<open>nat\<close>. A runtime exception that the code
  does not catch locally (reading a property of \<open>undefined\<close>) is the value
  \<open>Inl TypeError\<close> of a sum type.
\<close>

named_theorems js_text_simps "evaluation facts of the JavaScript string builtins"
named_theorems draw_simps "unfolding facts of the seat assignment loop"

type_synonym jstr = "nat list"

datatype js_error = TypeError

text \<open>An ASCII literal, read as the list of its code points.\<close>

definition js_lit :: "string \<Rightarrow> jstr" where
  "js_lit s = map of_char s"

lemma js_lit_append [simp]: "js_lit (s @ t) = js_lit s @ js_lit t"
  by (simp add: js_lit_def)

lemma js_lit_Cons [simp]: "js_lit (c # s) = of_char c # js_lit s"
  by (simp add: js_lit_def)

lemma js_lit_Nil [simp]: "js_lit [] = []"
  by (simp add: js_lit_def)

subsection \<open>List facts shared by the components\<close>

lemma takeWhile_append_not_first:
  "(\<forall>c\<in>set d. P c) \<Longrightarrow> (ys = [] \<or> \<not> P (hd ys)) \<Longrightarrow> takeWhile P (d @ ys) = d"
  by (induction d) (auto simp: takeWhile_eq_Nil_iff neq_Nil_conv)

lemma same_suffix_split:
  assumes "\<forall>c\<in>set d1. P c" and "\<forall>c\<in>set d2. P c"
    and "p1 = [] \<or> \<not> P (last p1)" and "p2 = [] \<or> \<not> P (last p2)"
    and "p1 @ d1 = p2 @ d2"
  shows "d1 = d2"
proof -
  have h1: "rev p1 = [] \<or> \<not> P (hd (rev p1))" using assms(3) by (auto simp: hd_rev)
  have h2: "rev p2 = [] \<or> \<not> P (hd (rev p2))" using assms(4) by (auto simp: hd_rev)
  have "takeWhile P (rev d1 @ rev p1) = rev d1"
    using assms(1) h1 by (intro takeWhile_append_not_first) auto
  moreover have "takeWhile P (rev d2 @ rev p2) = rev d2"
    using assms(2) h2 by (intro takeWhile_append_not_first) auto
  moreover have "rev d1 @ rev p1 = rev d2 @ rev p2"
    using arg_cong [OF assms(5), of rev] by simp
  ultimately show ?thesis by simp
qed

lemma dropWhile_none: "\<forall>x\<in>set xs. \<not> P x \<Longrightarrow> dropWhile P xs = xs"
  by (induction xs) auto

lemma distinct_map_via:
  "distinct (map f xs) \<Longrightarrow> (\<forall>x\<in>set xs. \<forall>y\<in>set xs. g x = g y \<longrightarrow> f x = f y)
    \<Longrightarrow> distinct (map g xs)"
proof -
  assume d: "distinct (map f xs)" and h: "\<forall>x\<in>set xs. \<forall>y\<in>set xs. g x = g y \<longrightarrow> f x = f y"
  from d have "distinct xs" and "inj_on f (set xs)" by (simp_all add: distinct_map)
  have "inj_on g (set xs)"
  proof (rule inj_onI)
    fix x y assume x: "x \<in> set xs" and y: "y \<in> set xs" and "g x = g y"
    with h have "f x = f y" by blast
    with \<open>inj_on f (set xs)\<close> x y show "x = y" by (blast dest: inj_onD)
  qed
  with \<open>distinct xs\<close> show ?thesis by (simp add: distinct_map)
qed

lemma count_list_filter_eq: "count_list xs x = length (filter ((=) x) xs)"
  by (induction xs) auto

lemma find_SomeD: "find P xs = Some x \<Longrightarrow> x \<in> set xs \<and> P x"
  by (induction xs) (auto split: if_splits)

text \<open>A unique witness of the predicate is what \<open>find\<close> returns. The uniqueness
  premise is kept away from the simplifier, where \<open>y = x\<close> would rewrite every term.\<close>

lemma find_unique:
  "x \<in> set xs \<Longrightarrow> P x \<Longrightarrow> (\<forall>y\<in>set xs. P y \<longrightarrow> y = x) \<Longrightarrow> find P xs = Some x"
proof (induction xs)
  case Nil then show ?case by simp
next
  case (Cons a xs)
  show ?case
  proof (cases "P a")
    case True
    then have "a = x" using Cons.prems(3) by simp
    then show ?thesis using True by simp
  next
    case False
    then have xs: "x \<in> set xs" using Cons.prems(1,2) by auto
    have all: "\<forall>y\<in>set xs. P y \<longrightarrow> y = x" using Cons.prems(3) by (meson list.set_intros(2))
    have "find P xs = Some x" by (rule Cons.IH [OF xs Cons.prems(2) all])
    then show ?thesis using False by (simp only: find.simps if_False)
  qed
qed

lemma foldl_append_concat: "foldl (\<lambda>acc x. acc @ f x) a xs = a @ concat (map f xs)"
  by (induction xs arbitrary: a) simp_all

lemma concat_map_grid:
  "concat (map (\<lambda>r. concat (map (\<lambda>c. g (r * k + c + 1)) [0..<k])) [0..<n]) = concat (map g [1..<n * k + 1])"
proof (induction n)
  case 0 then show ?case by simp
next
  case (Suc n)
  have "map (\<lambda>c. g (n * k + c + 1)) [0..<k] = map g [n * k + 1..<Suc n * k + 1]"
  proof -
    have "map (\<lambda>c. n * k + c + 1) [0..<k] = map (\<lambda>c. c + (n * k + 1)) [0..<k]"
      by (simp add: algebra_simps)
    also have "\<dots> = [n * k + 1..<k + (n * k + 1)]" by (rule map_add_upt)
    finally have e: "map (\<lambda>c. n * k + c + 1) [0..<k] = [n * k + 1..<Suc n * k + 1]"
      by (simp add: algebra_simps del: upt_Suc)
    have "map (\<lambda>c. g (n * k + c + 1)) [0..<k] = map g (map (\<lambda>c. n * k + c + 1) [0..<k])"
      by (simp only: map_map comp_def)
    then show ?thesis by (simp only: e)
  qed
  moreover have "[1..<Suc n * k + 1] = [1..<n * k + 1] @ [n * k + 1..<Suc n * k + 1]"
  proof -
    have s: "Suc n * k + 1 = n * k + 1 + k" by simp
    have "[1..<n * k + 1 + k] = [1..<n * k + 1] @ [n * k + 1..<n * k + 1 + k]"
      by (rule upt_add_eq_append) simp
    then show ?thesis by (simp only: s)
  qed
  ultimately show ?case using Suc.IH by simp
qed

lemma length_filter_otros:
  assumes "distinct (map f xs)" and "x \<in> set xs"
  shows "length (filter (\<lambda>y. f y \<noteq> f x) xs) = length xs - 1"
  using assms
proof (induction xs)
  case Nil
  then show ?case by simp
next
  case (Cons a xs)
  show ?case
  proof (cases "a = x")
    case True
    with Cons.prems(1) have "filter (\<lambda>y. f y \<noteq> f x) xs = xs"
      by (auto simp: filter_id_conv) (metis imageI)
    with True show ?thesis by simp
  next
    case False
    with Cons.prems have x: "x \<in> set xs" and fa: "f a \<noteq> f x" by auto
    have "length (filter (\<lambda>y. f y \<noteq> f x) xs) = length xs - 1" using Cons.IH Cons.prems(1) x by simp
    with fa x show ?thesis by (cases xs) auto
  qed
qed

lemma filter_unico:
  "distinct xs \<Longrightarrow> x \<in> set xs \<Longrightarrow> filter (\<lambda>y. y = x) xs = [x]"
  by (induction xs) (auto simp: filter_empty_conv)

lemma list_all_update_ok: "list_all P xs \<Longrightarrow> P x \<Longrightarrow> list_all P (xs[i := x])"
  by (simp add: list_all_iff) (metis insert_iff set_update_subset_insert subsetD)

end
