(* ===== verification/Js_Text.thy ===== *)
theory Js_Text
  imports Cena_Prelude
begin

text \<open>
  The JavaScript string builtins the program calls, restricted to the code
  points it meets (Basic Latin, the Latin-1 Supplement and the combining
  diacritical marks): \<open>toLowerCase\<close>, \<open>trim\<close>, \<open>normalize("NFD")\<close>, the
  mark-stripping \<open>replace\<close> of the code points U+0300 to U+036F, \<open>includes\<close> and the
  decimal printing of a number inside a template literal. On top of them,
  \<open>normalizarTexto\<close> of \<open>src/src/lib/data.ts\<close>. Outside the Latin-1 range the
  case mapping and the decomposition are the identity, which is what the real
  builtins do for every character of the program's corpus.
\<close>

subsection \<open>Case mapping\<close>

definition js_is_upper :: "nat \<Rightarrow> bool" where
  "js_is_upper c \<longleftrightarrow> (65 \<le> c \<and> c \<le> 90) \<or> (0xC0 \<le> c \<and> c \<le> 0xDE \<and> c \<noteq> 0xD7)"

definition js_lower_char :: "nat \<Rightarrow> nat" where
  "js_lower_char c = (if js_is_upper c then c + 32 else c)"

definition js_toLowerCase :: "jstr \<Rightarrow> jstr" where
  "js_toLowerCase s = map js_lower_char s"

subsection \<open>Trimming\<close>

text \<open>The ECMAScript WhiteSpace and LineTerminator code points.\<close>

definition js_is_space :: "nat \<Rightarrow> bool" where
  "js_is_space c \<longleftrightarrow>
     c \<in> {9, 10, 11, 12, 13, 32, 0xA0, 0x1680, 0x2028, 0x2029, 0x202F, 0x205F, 0x3000, 0xFEFF}
     \<or> (0x2000 \<le> c \<and> c \<le> 0x200A)"

definition js_trim :: "jstr \<Rightarrow> jstr" where
  "js_trim s = rev (dropWhile js_is_space (rev (dropWhile js_is_space s)))"

subsection \<open>Canonical decomposition and mark stripping\<close>

text \<open>
  The canonical decompositions of the Latin-1 Supplement: a precomposed letter
  is its base letter followed by one combining mark (grave 0x300, acute 0x301,
  circumflex 0x302, tilde 0x303, diaeresis 0x308, ring 0x30A, cedilla 0x327).
\<close>

definition latin1_nfd_table :: "(nat \<times> nat \<times> nat) list" where
  "latin1_nfd_table =
    [(0xC0, 65, 0x300), (0xC1, 65, 0x301), (0xC2, 65, 0x302), (0xC3, 65, 0x303),
     (0xC4, 65, 0x308), (0xC5, 65, 0x30A), (0xC7, 67, 0x327),
     (0xC8, 69, 0x300), (0xC9, 69, 0x301), (0xCA, 69, 0x302), (0xCB, 69, 0x308),
     (0xCC, 73, 0x300), (0xCD, 73, 0x301), (0xCE, 73, 0x302), (0xCF, 73, 0x308),
     (0xD1, 78, 0x303),
     (0xD2, 79, 0x300), (0xD3, 79, 0x301), (0xD4, 79, 0x302), (0xD5, 79, 0x303), (0xD6, 79, 0x308),
     (0xD9, 85, 0x300), (0xDA, 85, 0x301), (0xDB, 85, 0x302), (0xDC, 85, 0x308),
     (0xDD, 89, 0x301),
     (0xE0, 97, 0x300), (0xE1, 97, 0x301), (0xE2, 97, 0x302), (0xE3, 97, 0x303),
     (0xE4, 97, 0x308), (0xE5, 97, 0x30A), (0xE7, 99, 0x327),
     (0xE8, 101, 0x300), (0xE9, 101, 0x301), (0xEA, 101, 0x302), (0xEB, 101, 0x308),
     (0xEC, 105, 0x300), (0xED, 105, 0x301), (0xEE, 105, 0x302), (0xEF, 105, 0x308),
     (0xF1, 110, 0x303),
     (0xF2, 111, 0x300), (0xF3, 111, 0x301), (0xF4, 111, 0x302), (0xF5, 111, 0x303), (0xF6, 111, 0x308),
     (0xF9, 117, 0x300), (0xFA, 117, 0x301), (0xFB, 117, 0x302), (0xFC, 117, 0x308),
     (0xFD, 121, 0x301), (0xFF, 121, 0x308)]"

definition nfd_char :: "nat \<Rightarrow> jstr" where
  "nfd_char c = (case map_of latin1_nfd_table c of None \<Rightarrow> [c] | Some (b, m) \<Rightarrow> [b, m])"

definition js_normalize_NFD :: "jstr \<Rightarrow> jstr" where
  "js_normalize_NFD s = concat (map nfd_char s)"

definition is_combining_mark :: "nat \<Rightarrow> bool" where
  "is_combining_mark c \<longleftrightarrow> 0x300 \<le> c \<and> c \<le> 0x36F"

definition strip_marks :: "jstr \<Rightarrow> jstr" where
  "strip_marks s = filter (\<lambda>c. \<not> is_combining_mark c) s"

subsection \<open>normalizarTexto\<close>

definition normalizarTexto :: "jstr \<Rightarrow> jstr" where
  "normalizarTexto texto = strip_marks (js_normalize_NFD (js_trim (js_toLowerCase texto)))"

subsection \<open>Substring search and number printing\<close>

text \<open>\<open>s.includes(t)\<close>: \<open>t\<close> occurs at some position of \<open>s\<close>.\<close>

fun js_includes :: "jstr \<Rightarrow> jstr \<Rightarrow> bool" where
  "js_includes [] t \<longleftrightarrow> t = []"
| "js_includes (c # s) t \<longleftrightarrow> prefix t (c # s) \<or> js_includes s t"

text \<open>The decimal digits of a number, as a template literal prints it.\<close>

fun js_nat_str :: "nat \<Rightarrow> jstr" where
  "js_nat_str n = (if n < 10 then [48 + n] else js_nat_str (n div 10) @ [48 + n mod 10])"

declare js_nat_str.simps [simp del]

definition is_digit :: "nat \<Rightarrow> bool" where
  "is_digit c \<longleftrightarrow> 48 \<le> c \<and> c \<le> 57"

definition parse_decimal :: "jstr \<Rightarrow> nat" where
  "parse_decimal s = foldl (\<lambda>n d. 10 * n + (d - 48)) 0 s"

subsection \<open>Properties of the builtins\<close>

lemma js_includes_sublist: "js_includes s t \<longleftrightarrow> sublist t s"
  by (induction s) (auto simp: sublist_Cons_right)

lemma js_nat_str_digits: "\<forall>c\<in>set (js_nat_str n). is_digit c"
proof (induction n rule: js_nat_str.induct)
  case (1 n)
  then show ?case by (subst js_nat_str.simps) (auto simp: is_digit_def)
qed

lemma js_nat_str_nonempty: "js_nat_str n \<noteq> []"
  by (subst js_nat_str.simps) simp

lemma parse_decimal_snoc: "parse_decimal (s @ [d]) = 10 * parse_decimal s + (d - 48)"
  by (simp add: parse_decimal_def)

lemma parse_js_nat_str: "parse_decimal (js_nat_str n) = n"
proof (induction n rule: js_nat_str.induct)
  case (1 n)
  show ?case
  proof (cases "n < 10")
    case True
    then show ?thesis by (subst js_nat_str.simps) (simp add: parse_decimal_def)
  next
    case False
    with "1.IH" show ?thesis
      by (subst js_nat_str.simps) (simp add: parse_decimal_snoc)
  qed
qed

lemma js_nat_str_inj: "js_nat_str m = js_nat_str n \<Longrightarrow> m = n"
  by (metis parse_js_nat_str)

lemma js_toLowerCase_append [js_text_simps]:
  "js_toLowerCase (s @ t) = js_toLowerCase s @ js_toLowerCase t"
  by (simp add: js_toLowerCase_def)

lemma js_normalize_NFD_append [js_text_simps]:
  "js_normalize_NFD (s @ t) = js_normalize_NFD s @ js_normalize_NFD t"
  by (simp add: js_normalize_NFD_def)

lemma strip_marks_append [js_text_simps]:
  "strip_marks (s @ t) = strip_marks s @ strip_marks t"
  by (simp add: strip_marks_def)

lemma nfd_char_below_latin1: "c < 0xC0 \<Longrightarrow> nfd_char c = [c]"
proof -
  assume "c < 0xC0"
  then have "map_of latin1_nfd_table c = None"
    by (simp add: latin1_nfd_table_def)
  then show ?thesis by (simp add: nfd_char_def)
qed

lemma nfd_char_e_acute: "nfd_char 0xE9 = [101, 0x301]"
  by (simp add: nfd_char_def latin1_nfd_table_def)

text \<open>The definitions that evaluate \<open>normalizarTexto\<close> on a concrete string whose
  accented letters have their own decomposition lemma.\<close>

lemmas normalizar_eval = normalizarTexto_def js_toLowerCase_def js_lower_char_def js_is_upper_def
  js_trim_def js_is_space_def js_normalize_NFD_def strip_marks_def is_combining_mark_def
  nfd_char_below_latin1

lemma nfd_char_digit: "d \<in> set (nfd_char c) \<Longrightarrow> is_digit d \<Longrightarrow> is_digit c"
  by (auto simp: nfd_char_def is_digit_def latin1_nfd_table_def split: option.splits if_splits
      dest!: map_of_SomeD)

lemma lower_char_digit: "is_digit (js_lower_char c) \<longleftrightarrow> is_digit c"
  by (auto simp: js_lower_char_def js_is_upper_def is_digit_def)

text \<open>
  A string of ASCII code points with no upper-case letter and no white space is
  left unchanged by every step of the normalisation.
\<close>

definition ascii_clean :: "jstr \<Rightarrow> bool" where
  "ascii_clean s \<longleftrightarrow> (\<forall>c\<in>set s. c < 128 \<and> \<not> js_is_upper c \<and> \<not> js_is_space c)"

lemma ascii_clean_append [simp]: "ascii_clean (s @ t) \<longleftrightarrow> ascii_clean s \<and> ascii_clean t"
  by (auto simp: ascii_clean_def)

lemma ascii_clean_lower: "ascii_clean s \<Longrightarrow> js_toLowerCase s = s"
  by (induction s) (auto simp: ascii_clean_def js_toLowerCase_def js_lower_char_def)

lemma ascii_clean_nfd_strip: "ascii_clean s \<Longrightarrow> strip_marks (js_normalize_NFD s) = s"
  by (induction s) (auto simp: ascii_clean_def js_normalize_NFD_def strip_marks_def
      nfd_char_below_latin1 is_combining_mark_def)

lemma ascii_clean_trim: "ascii_clean s \<Longrightarrow> js_trim s = s"
proof -
  assume c: "ascii_clean s"
  then have "\<forall>c\<in>set (rev s). \<not> js_is_space c" and "\<forall>c\<in>set s. \<not> js_is_space c"
    by (auto simp: ascii_clean_def)
  then have "dropWhile js_is_space s = s" and "dropWhile js_is_space (rev s) = rev s"
    by (simp_all add: dropWhile_none)
  then show ?thesis by (simp add: js_trim_def)
qed

lemma normalizarTexto_ascii_clean: "ascii_clean s \<Longrightarrow> normalizarTexto s = s"
  by (simp add: normalizarTexto_def ascii_clean_lower ascii_clean_trim ascii_clean_nfd_strip)

lemma ascii_clean_js_nat_str: "ascii_clean (js_nat_str n)"
  using js_nat_str_digits [of n]
  by (auto simp: ascii_clean_def is_digit_def js_is_upper_def js_is_space_def)

lemma js_is_space_range: "js_is_space c \<Longrightarrow> c \<le> 32 \<or> 160 \<le> c"
  unfolding js_is_space_def by (elim disjE insertE; simp)
lemma lower_letter_clean:
  assumes "97 \<le> c" and "c \<le> 122" shows "ascii_clean [c]"
proof -
  have "\<not> js_is_upper c" unfolding js_is_upper_def using assms by simp
  moreover have "\<not> js_is_space c" using js_is_space_range [of c] assms by linarith
  ultimately show ?thesis using assms by (simp add: ascii_clean_def)
qed

lemma js_lower_char_idem: "js_lower_char (js_lower_char c) = js_lower_char c"
  by (simp add: js_lower_char_def js_is_upper_def)

lemma js_toLowerCase_idem [simp]: "js_toLowerCase (js_toLowerCase s) = js_toLowerCase s"
  by (simp add: js_toLowerCase_def comp_def js_lower_char_idem)

end
