(* ===== verification/Cena_Types.thy ===== *)
theory Cena_Types
  imports Js_Text
begin

text \<open>
  The records of \<open>src/src/types/index.ts\<close>: an attendee (\<open>Comensal\<close>), a table
  (\<open>Mesa\<close>), the triple the search returns (\<open>AsignacionMesa\<close>), the
  search form (\<open>BusquedaFormData\<close>) and the draw's answer (\<open>SorteoResult\<close>). The field
  \<open>id\<close> of both interfaces is \<open>id_comensal\<close> and \<open>id_mesa\<close> here, since HOL
  already has a constant \<open>id\<close> and record fields share one name space. A
  nullable number is an \<open>option\<close>.
\<close>

record comensal =
  id_comensal :: nat
  nombre :: jstr
  apellido :: jstr
  email :: jstr
  mesa_id :: "nat option"
  asiento :: "nat option"
  created_at :: jstr

record mesa =
  id_mesa :: nat
  numero :: nat
  capacidad :: nat
  posicion_x :: nat
  posicion_y :: nat

record asignacion_mesa =
  am_comensal :: comensal
  am_mesa :: mesa
  am_companeros :: "comensal list"

text \<open>The search form's data (the body the page posts) and the body of a
  successful draw response; an optional field is an \<open>option\<close>.\<close>

record busqueda_form_data =
  form_nombre :: jstr
  form_email :: jstr

record sorteo_result =
  success :: bool
  message :: jstr
  asignaciones :: "nat option"

text \<open>
  The fields of an attendee that the draw leaves alone: everything but the
  table and the seat.
\<close>

definition sin_asiento :: "comensal \<Rightarrow> comensal" where
  "sin_asiento c = c\<lparr>mesa_id := None, asiento := None\<rparr>"

lemma sin_asiento_update [simp]:
  "sin_asiento (c\<lparr>mesa_id := t, asiento := s\<rparr>) = sin_asiento c"
  by (simp add: sin_asiento_def)

lemma sin_asiento_fields [simp]:
  "id_comensal (sin_asiento c) = id_comensal c"
  "email (sin_asiento c) = email c"
  "nombre (sin_asiento c) = nombre c"
  "apellido (sin_asiento c) = apellido c"
  by (simp_all add: sin_asiento_def)

end
