(* ===== verification/Catalog.thy ===== *)
theory Catalog
  imports Cena_Types
begin

text \<open>
  The Catalog Generator of \<open>src/src/lib/data.ts\<close>: the two name corpora, the
  nested loops of \<open>generarComensales\<close> and the loop of \<open>generarMesas\<close>. The
  target count 400 of the source is a parameter \<open>limite\<close> of
  \<open>generarComensales_con\<close>, and \<open>generarComensales\<close> fixes it to 400. The
  timestamp \<open>new Date().toISOString()\<close> is read once per pushed attendee; it
  is the argument \<open>clk\<close>, the clock reading at each value of the counter.
\<close>

type_synonym clock = "nat \<Rightarrow> jstr"

subsection \<open>The corpora\<close>

text \<open>The accented letters of the corpora, by code point.\<close>

abbreviation A_acute :: nat where "A_acute \<equiv> 0xC1"
abbreviation O_acute :: nat where "O_acute \<equiv> 0xD3"
abbreviation a_acute :: nat where "a_acute \<equiv> 0xE1"
abbreviation e_acute :: nat where "e_acute \<equiv> 0xE9"
abbreviation i_acute :: nat where "i_acute \<equiv> 0xED"
abbreviation n_tilde :: nat where "n_tilde \<equiv> 0xF1"
abbreviation o_acute :: nat where "o_acute \<equiv> 0xF3"
abbreviation u_acute :: nat where "u_acute \<equiv> 0xFA"

definition nombres :: "jstr list" where
  "nombres =
    [js_lit ''Mar'' @ [i_acute] @ js_lit ''a'', js_lit ''Jos'' @ [e_acute], js_lit ''Antonio'', js_lit ''Ana'',
     js_lit ''Juan'', js_lit ''Carmen'', js_lit ''Francisco'', js_lit ''Isabel'',
     js_lit ''Manuel'', js_lit ''Dolores'', js_lit ''Pedro'', js_lit ''Rosa'',
     js_lit ''Miguel'', js_lit ''Pilar'', js_lit ''Carlos'', js_lit ''Teresa'',
     js_lit ''Luis'', js_lit ''Josefa'', js_lit ''Javier'', js_lit ''Lucia'',
     js_lit ''Rafael'', js_lit ''Elena'', js_lit ''Fernando'', js_lit ''Paula'',
     js_lit ''Daniel'', js_lit ''Laura'', js_lit ''Alejandro'', js_lit ''Cristina'',
     js_lit ''Pablo'', js_lit ''Marta'', js_lit ''David'', js_lit ''Sara'',
     js_lit ''Jorge'', js_lit ''Patricia'', js_lit ''Alberto'', js_lit ''Raquel'',
     js_lit ''Sergio'', js_lit ''Beatriz'', js_lit ''Andr'' @ [e_acute] @ js_lit ''s'', js_lit ''Silvia'',
     js_lit ''Diego'', js_lit ''Andrea'', js_lit ''Adri'' @ [a_acute] @ js_lit ''n'', js_lit ''M'' @ [o_acute] @ js_lit ''nica'',
     js_lit ''Rub'' @ [e_acute] @ js_lit ''n'', js_lit ''Sandra'', [A_acute] @ js_lit ''lvaro'', js_lit ''Natalia'',
     js_lit ''V'' @ [i_acute] @ js_lit ''ctor'', js_lit ''Irene'', [O_acute] @ js_lit ''scar'', js_lit ''Eva'',
     js_lit ''Roberto'', js_lit ''Alicia'', js_lit ''Enrique'', js_lit ''Clara'',
     js_lit ''Marcos'', js_lit ''Roc'' @ [i_acute] @ js_lit ''o'', js_lit ''Iv'' @ [a_acute] @ js_lit ''n'', js_lit ''Marina'',
     js_lit ''Guillermo'', js_lit ''Diana'', js_lit ''Hugo'', js_lit ''Nuria'']"

definition apellidos :: "jstr list" where
  "apellidos =
    [js_lit ''Garc'' @ [i_acute] @ js_lit ''a'', js_lit ''Rodr'' @ [i_acute] @ js_lit ''guez'', js_lit ''Mart'' @ [i_acute] @ js_lit ''nez'', js_lit ''L'' @ [o_acute] @ js_lit ''pez'',
     js_lit ''Gonz'' @ [a_acute] @ js_lit ''lez'', js_lit ''Hern'' @ [a_acute] @ js_lit ''ndez'', js_lit ''P'' @ [e_acute] @ js_lit ''rez'', js_lit ''S'' @ [a_acute] @ js_lit ''nchez'',
     js_lit ''Ram'' @ [i_acute] @ js_lit ''rez'', js_lit ''Torres'', js_lit ''Flores'', js_lit ''Rivera'',
     js_lit ''G'' @ [o_acute] @ js_lit ''mez'', js_lit ''D'' @ [i_acute] @ js_lit ''az'', js_lit ''Reyes'', js_lit ''Morales'',
     js_lit ''Jim'' @ [e_acute] @ js_lit ''nez'', js_lit ''Ruiz'', [A_acute] @ js_lit ''lvarez'', js_lit ''Romero'',
     js_lit ''Serrano'', js_lit ''Blanco'', js_lit ''Su'' @ [a_acute] @ js_lit ''rez'', js_lit ''Iglesias'',
     js_lit ''Medina'', js_lit ''Garrido'', js_lit ''Cort'' @ [e_acute] @ js_lit ''s'', js_lit ''Castillo'',
     js_lit ''Santos'', js_lit ''Guerrero'', js_lit ''Ortega'', js_lit ''Rubio'',
     js_lit ''Mar'' @ [i_acute] @ js_lit ''n'', js_lit ''Sanz'', js_lit ''N'' @ [u_acute] @ [n_tilde] @ js_lit ''ez'', js_lit ''Castro'',
     js_lit ''Ib'' @ [a_acute] @ [n_tilde] @ js_lit ''ez'', js_lit ''Crespo'', js_lit ''Ortiz'', js_lit ''Mu'' @ [n_tilde] @ js_lit ''oz'',
     js_lit ''Dom'' @ [i_acute] @ js_lit ''nguez'', js_lit ''V'' @ [a_acute] @ js_lit ''zquez'', js_lit ''Ramos'', js_lit ''Gil'',
     js_lit ''Molina'', js_lit ''Delgado'', js_lit ''Cabrera'', js_lit ''Moreno'',
     js_lit ''Pascual'', js_lit ''Herrero'', js_lit ''Aguilar'', js_lit ''Nieto'',
     js_lit ''Gallego'', js_lit ''Le'' @ [o_acute] @ js_lit ''n'', js_lit ''Prieto'', js_lit ''M'' @ [e_acute] @ js_lit ''ndez'']"

subsection \<open>generarComensales\<close>

text \<open>
  One iteration of the inner loop body: the email template
  \<open>nombre.toLowerCase().apellido.toLowerCase()contador@email.com\<close>, decomposed
  and stripped of its marks, and the pushed record.
\<close>

definition email_de :: "jstr \<Rightarrow> jstr \<Rightarrow> nat \<Rightarrow> jstr" where
  "email_de nom ape contador =
     strip_marks (js_normalize_NFD
       (js_toLowerCase nom @ js_lit ''.'' @ js_toLowerCase ape @ js_nat_str contador
        @ js_lit ''@email.com''))"

definition nuevo_comensal :: "clock \<Rightarrow> jstr \<Rightarrow> jstr \<Rightarrow> nat \<Rightarrow> comensal" where
  "nuevo_comensal clk nom ape contador =
     \<lparr>id_comensal = contador, nombre = nom, apellido = ape,
      email = email_de nom ape contador, mesa_id = None, asiento = None,
      created_at = clk contador\<rparr>"

text \<open>
  The inner loop over the surnames and the outer loop over the first names.
  The state is the counter and the array pushed so far; each loop checks
  \<open>contador <= 400\<close> before every iteration.
\<close>

fun gen_apellidos ::
  "clock \<Rightarrow> nat \<Rightarrow> jstr \<Rightarrow> jstr list \<Rightarrow> nat \<times> comensal list \<Rightarrow> nat \<times> comensal list" where
  "gen_apellidos clk limite nom [] st = st"
| "gen_apellidos clk limite nom (ape # as) (contador, acc) =
     (if contador \<le> limite
      then gen_apellidos clk limite nom as
             (Suc contador, acc @ [nuevo_comensal clk nom ape contador])
      else (contador, acc))"

fun gen_nombres ::
  "clock \<Rightarrow> nat \<Rightarrow> jstr list \<Rightarrow> jstr list \<Rightarrow> nat \<times> comensal list \<Rightarrow> nat \<times> comensal list" where
  "gen_nombres clk limite [] aps st = st"
| "gen_nombres clk limite (nom # ns) aps (contador, acc) =
     (if contador \<le> limite
      then gen_nombres clk limite ns aps (gen_apellidos clk limite nom aps (contador, acc))
      else (contador, acc))"

definition generarComensales_con :: "jstr list \<Rightarrow> jstr list \<Rightarrow> nat \<Rightarrow> clock \<Rightarrow> comensal list" where
  "generarComensales_con ns aps limite clk = snd (gen_nombres clk limite ns aps (1, []))"

definition generarComensales :: "clock \<Rightarrow> comensal list" where
  "generarComensales clk = generarComensales_con nombres apellidos 400 clk"

subsection \<open>generarMesas\<close>

definition nueva_mesa :: "nat \<Rightarrow> mesa" where
  "nueva_mesa i =
     \<lparr>id_mesa = i, numero = i, capacidad = 10,
      posicion_x = ((i - 1) mod 8) + 1, posicion_y = (i - 1) div 8 + 1\<rparr>"

function gen_mesas :: "nat \<Rightarrow> mesa list \<Rightarrow> mesa list" where
  "gen_mesas i acc = (if i \<le> 40 then gen_mesas (Suc i) (acc @ [nueva_mesa i]) else acc)"
  by pat_completeness auto
termination
  by (relation "measure (\<lambda>(i, acc). 41 - i)") auto

declare gen_mesas.simps [simp del]

definition generarMesas :: "mesa list" where
  "generarMesas = gen_mesas 1 []"

text \<open>The letters the corpora are written in.\<close>

definition corpus_letter :: "nat \<Rightarrow> bool" where
  "corpus_letter c \<longleftrightarrow> (65 \<le> c \<and> c \<le> 90) \<or> (97 \<le> c \<and> c \<le> 122)
     \<or> c \<in> {A_acute, O_acute, a_acute, e_acute, i_acute, n_tilde, o_acute, u_acute}"

subsection \<open>Properties of generarComensales\<close>

definition mk_comensal :: "clock \<Rightarrow> nat \<times> jstr \<times> jstr \<Rightarrow> comensal" where
  "mk_comensal clk p = (case p of (j, nom, ape) \<Rightarrow> nuevo_comensal clk nom ape j)"

lemma enumerate_map_Pair:
  "map (\<lambda>(j, a). nuevo_comensal clk n a j) (enumerate k xs)
     = map (mk_comensal clk) (enumerate k (map (Pair n) xs))"
  by (induction xs arbitrary: k) (auto simp: mk_comensal_def)

lemma gen_apellidos_eq:
  "gen_apellidos clk limite nom as (k, acc) =
     (let xs = take (Suc limite - k) as
      in (k + length xs, acc @ map (\<lambda>(j, a). nuevo_comensal clk nom a j) (enumerate k xs)))"
proof (induction as arbitrary: k acc)
  case Nil
  then show ?case by simp
next
  case (Cons a as)
  show ?case
  proof (cases "k \<le> limite")
    case True
    then have "Suc limite - k = Suc (limite - k)" by simp
    with True Cons.IH [of "Suc k"] show ?thesis by (simp add: Let_def)
  next
    case False
    then show ?thesis by simp
  qed
qed

lemma gen_nombres_eq:
  "gen_nombres clk limite ns aps (k, acc) =
     (let xs = take (Suc limite - k) (List.product ns aps)
      in (k + length xs, acc @ map (mk_comensal clk) (enumerate k xs)))"
proof (induction ns arbitrary: k acc)
  case Nil
  then show ?case by simp
next
  case (Cons n ns)
  show ?case
  proof (cases "k \<le> limite")
    case True
    let ?L = "Suc limite - k"
    let ?xs1 = "take ?L aps"
    have eq: "Suc limite - (k + min (length aps) ?L) = Suc limite - (k + length aps)"
      by (simp add: min_def)
    have "take ?L (List.product (n # ns) aps)
        = map (Pair n) ?xs1 @ take (Suc limite - (k + length ?xs1)) (List.product ns aps)"
      by (simp add: take_map eq)
    then show ?thesis
      using True Cons.IH [of "k + length ?xs1"]
      by (simp add: gen_apellidos_eq Let_def enumerate_append_eq enumerate_map_Pair)
  next
    case False
    then show ?thesis by simp
  qed
qed


lemma generarComensales_con_eq:
  "generarComensales_con ns aps limite clk = map (mk_comensal clk) (enumerate 1 (take limite (List.product ns aps)))"
  by (simp add: generarComensales_con_def gen_nombres_eq)

lemma ids_mk_comensal:
  "map id_comensal (map (mk_comensal clk) (enumerate k xs)) = [k..<k + length xs]"
proof (induction xs arbitrary: k)
  case Nil
  then show ?case by simp
next
  case (Cons x xs)
  then show ?case
    by (cases x) (simp add: mk_comensal_def nuevo_comensal_def upt_rec)
qed

lemma generarComensales_con_ids:
  "map id_comensal (generarComensales_con ns aps limite clk) = [1..<Suc (min limite (length ns * length aps))]"
proof -
  have "map id_comensal (generarComensales_con ns aps limite clk)
      = [1..<1 + length (take limite (List.product ns aps))]"
    by (simp only: generarComensales_con_eq ids_mk_comensal)
  then show ?thesis by (simp add: length_product min.commute del: upt_Suc)
qed

lemma mem_generarComensales_con:
  "c \<in> set (generarComensales_con ns aps limite clk) \<Longrightarrow>
     \<exists>j nom ape. c = nuevo_comensal clk nom ape j \<and> nom \<in> set ns \<and> ape \<in> set aps"
  by (auto simp: generarComensales_con_eq mk_comensal_def enumerate_eq_zip
      dest!: set_zip_rightD in_set_takeD) blast

lemma ascii_clean_email_suffix: "ascii_clean (js_lit ''@email.com'')"
  by (simp add: ascii_clean_def js_is_upper_def js_is_space_def)

lemma ascii_clean_norm_id:
  "ascii_clean s \<Longrightarrow> strip_marks (js_normalize_NFD (js_toLowerCase s)) = s"
  by (simp add: ascii_clean_lower ascii_clean_nfd_strip)

lemma email_de_split:
  "email_de nom ape k =
     strip_marks (js_normalize_NFD (js_toLowerCase nom @ js_lit ''.'' @ js_toLowerCase ape))
     @ js_nat_str k @ js_lit ''@email.com''"
proof -
  have "email_de nom ape k =
     strip_marks (js_normalize_NFD (js_toLowerCase nom @ js_lit ''.'' @ js_toLowerCase ape))
     @ strip_marks (js_normalize_NFD (js_toLowerCase (js_nat_str k)))
     @ strip_marks (js_normalize_NFD (js_toLowerCase (js_lit ''@email.com'')))"
    unfolding email_de_def
    by (simp only: js_toLowerCase_append js_normalize_NFD_append strip_marks_append
        ascii_clean_lower [OF ascii_clean_js_nat_str] ascii_clean_lower [OF ascii_clean_email_suffix]
        append_assoc)
  then show ?thesis
    by (simp only: ascii_clean_norm_id ascii_clean_js_nat_str ascii_clean_email_suffix)
qed

lemma norm_char_no_digit:
  "\<not> is_digit c \<Longrightarrow> d \<in> set (nfd_char (js_lower_char c)) \<Longrightarrow> \<not> is_digit d"
  by (metis nfd_char_digit lower_char_digit)

lemma norm_no_digit:
  "\<forall>c\<in>set a. \<not> is_digit c \<Longrightarrow> \<forall>c\<in>set (strip_marks (js_normalize_NFD (js_toLowerCase a))). \<not> is_digit c"
  by (auto simp: strip_marks_def js_normalize_NFD_def js_toLowerCase_def dest: norm_char_no_digit)


lemma email_prefix_last:
  fixes nom ape :: jstr
  assumes "\<forall>c\<in>set ape. \<not> is_digit c"
  defines "p \<equiv> strip_marks (js_normalize_NFD (js_toLowerCase nom @ js_lit ''.'' @ js_toLowerCase ape))"
  shows "p = [] \<or> \<not> is_digit (last p)"
proof -
  let ?y = "strip_marks (js_normalize_NFD (js_toLowerCase ape))"
  have "p = strip_marks (js_normalize_NFD (js_toLowerCase nom)) @ 46 # ?y"
    by (simp add: p_def js_text_simps js_toLowerCase_def js_normalize_NFD_def strip_marks_def
        js_lower_char_def js_is_upper_def nfd_char_below_latin1 is_combining_mark_def)
  moreover have "?y \<noteq> [] \<Longrightarrow> \<not> is_digit (last ?y)"
    using norm_no_digit [OF assms(1)] last_in_set by blast
  ultimately show ?thesis by (auto simp: is_digit_def)
qed

lemma email_de_inj:
  assumes "\<forall>c\<in>set a1. \<not> is_digit c" and "\<forall>c\<in>set a2. \<not> is_digit c"
    and "email_de n1 a1 k1 = email_de n2 a2 k2"
  shows "k1 = k2"
proof -
  let ?p1 = "strip_marks (js_normalize_NFD (js_toLowerCase n1 @ js_lit ''.'' @ js_toLowerCase a1))"
  let ?p2 = "strip_marks (js_normalize_NFD (js_toLowerCase n2 @ js_lit ''.'' @ js_toLowerCase a2))"
  from assms(3) have eq: "?p1 @ js_nat_str k1 = ?p2 @ js_nat_str k2"
    by (simp only: email_de_split append_assoc [symmetric] append_same_eq)
  have "js_nat_str k1 = js_nat_str k2"
    using js_nat_str_digits [of k1] js_nat_str_digits [of k2]
      email_prefix_last [of a1 n1, OF assms(1)] email_prefix_last [of a2 n2, OF assms(2)] eq
    by (rule same_suffix_split)
  then show ?thesis by (rule js_nat_str_inj)
qed

lemma generarComensales_con_emails_distinct:
  assumes "\<forall>a\<in>set aps. \<forall>c\<in>set a. \<not> is_digit c"
  shows "distinct (map email (generarComensales_con ns aps limite clk))"
proof (rule distinct_map_via [where f = id_comensal])
  show "distinct (map id_comensal (generarComensales_con ns aps limite clk))"
    by (simp add: generarComensales_con_ids del: upt_Suc)
  show "\<forall>x\<in>set (generarComensales_con ns aps limite clk). \<forall>y\<in>set (generarComensales_con ns aps limite clk).
      email x = email y \<longrightarrow> id_comensal x = id_comensal y"
    using assms by (fastforce simp: nuevo_comensal_def dest!: mem_generarComensales_con intro: email_de_inj)
qed

lemma apellidos_no_digit: "\<forall>a\<in>set apellidos. \<forall>c\<in>set a. \<not> is_digit c"
  unfolding apellidos_def is_digit_def by code_simp

lemma length_corpus: "length nombres = 64" "length apellidos = 56"
  by (simp_all add: nombres_def apellidos_def)

subsection \<open>Properties of generarMesas\<close>

lemma gen_mesas_eq: "gen_mesas i acc = acc @ map nueva_mesa [i..<41]"
proof (induction i acc rule: gen_mesas.induct)
  case (1 i acc)
  show ?case
  proof (cases "i \<le> 40")
    case True
    with "1.IH" show ?thesis by (simp add: gen_mesas.simps [of i acc] upt_conv_Cons)
  next
    case False
    then show ?thesis by (simp add: gen_mesas.simps [of i acc])
  qed
qed

lemma generarMesas_eq: "generarMesas = map nueva_mesa [1..<41]"
  by (simp add: generarMesas_def gen_mesas_eq del: upt_Suc)

lemma nueva_mesa_pos_inj:
  assumes "1 \<le> i" and "1 \<le> j"
    and "(posicion_x (nueva_mesa i), posicion_y (nueva_mesa i)) = (posicion_x (nueva_mesa j), posicion_y (nueva_mesa j))"
  shows "i = j"
proof -
  from assms(3) have "(i - 1) mod 8 = (j - 1) mod 8" and "(i - 1) div 8 = (j - 1) div 8"
    by (simp_all add: nueva_mesa_def)
  then have "i - 1 = j - 1" by (metis div_mult_mod_eq)
  with assms(1,2) show ?thesis by simp
qed

lemma corpus_letter_clean:
  assumes "corpus_letter c"
  shows "ascii_clean (strip_marks (nfd_char (js_lower_char c)))"
proof -
  consider "65 \<le> c \<and> c \<le> 90" | "97 \<le> c \<and> c \<le> 122"
    | "c \<in> {A_acute, O_acute, a_acute, e_acute, i_acute, n_tilde, o_acute, u_acute}"
    using assms by (auto simp: corpus_letter_def)
  then show ?thesis
  proof cases
    case 1
    then have "js_lower_char c = c + 32" by (simp add: js_lower_char_def js_is_upper_def)
    with 1 show ?thesis
      by (simp add: nfd_char_below_latin1 strip_marks_def is_combining_mark_def lower_letter_clean)
  next
    case 2
    then have "js_lower_char c = c" by (simp add: js_lower_char_def js_is_upper_def)
    with 2 show ?thesis
      by (simp add: nfd_char_below_latin1 strip_marks_def is_combining_mark_def lower_letter_clean)
  next
    case 3
    then show ?thesis
      by (elim insertE emptyE; simp add: js_lower_char_def js_is_upper_def nfd_char_def
          latin1_nfd_table_def strip_marks_def is_combining_mark_def lower_letter_clean)
  qed
qed

lemma corpus_letters:
  "\<forall>n\<in>set nombres. \<forall>c\<in>set n. corpus_letter c" "\<forall>a\<in>set apellidos. \<forall>c\<in>set a. corpus_letter c"
  unfolding nombres_def apellidos_def corpus_letter_def by code_simp+

lemma norm_concat:
  "strip_marks (js_normalize_NFD (js_toLowerCase s)) = concat (map (\<lambda>c. strip_marks (nfd_char (js_lower_char c))) s)"
  by (induction s) (simp_all add: js_toLowerCase_def js_normalize_NFD_def strip_marks_def)

lemma ascii_clean_concat: "ascii_clean (concat xss) \<longleftrightarrow> (\<forall>xs\<in>set xss. ascii_clean xs)"
  by (auto simp: ascii_clean_def)

lemma ascii_clean_dot: "ascii_clean (js_lit ''.'')"
  by (simp add: ascii_clean_def js_is_upper_def js_is_space_def)

lemma norm_corpus_clean:
  "\<forall>c\<in>set s. corpus_letter c \<Longrightarrow> ascii_clean (strip_marks (js_normalize_NFD (js_toLowerCase s)))"
  by (auto simp: norm_concat ascii_clean_concat intro: corpus_letter_clean)

lemma email_de_ascii_clean:
  assumes "\<forall>c\<in>set nom. corpus_letter c" and "\<forall>c\<in>set ape. corpus_letter c"
  shows "ascii_clean (email_de nom ape k)"
proof -
  have "strip_marks (js_normalize_NFD (js_toLowerCase nom @ js_lit ''.'' @ js_toLowerCase ape))
      = strip_marks (js_normalize_NFD (js_toLowerCase nom)) @ js_lit ''.''
        @ strip_marks (js_normalize_NFD (js_toLowerCase ape))"
    by (simp only: js_toLowerCase_append js_normalize_NFD_append strip_marks_append
        ascii_clean_nfd_strip [OF ascii_clean_dot] ascii_clean_lower [OF ascii_clean_dot])
  then show ?thesis
    using norm_corpus_clean [OF assms(1)] norm_corpus_clean [OF assms(2)] ascii_clean_dot
    by (simp only: email_de_split ascii_clean_append ascii_clean_js_nat_str ascii_clean_email_suffix
        simp_thms)
qed

lemma generarMesas_ids: "map id_mesa generarMesas = [1..<41]"
  by (simp add: generarMesas_eq nueva_mesa_def comp_def del: upt_Suc)

lemma generarMesas_capacidad: "\<forall>m\<in>set generarMesas. capacidad m = 10"
  by (auto simp: generarMesas_eq nueva_mesa_def)

lemma generarComensales_ids: "map id_comensal (generarComensales clk) = [1..<401]"
  by (simp add: generarComensales_def generarComensales_con_ids length_corpus del: upt_Suc)

lemma generarComensales_length: "length (generarComensales clk) = 400"
  using arg_cong [OF generarComensales_ids, of length] by simp

subsection \<open>Properties of the catalog\<close>

lemma generarComensales_unseated:
  "\<forall>c\<in>set (generarComensales clk). mesa_id c = None \<and> asiento c = None"
  by (auto simp: generarComensales_def nuevo_comensal_def dest!: mem_generarComensales_con)

lemma generarComensales_emails_distinct: "distinct (map email (generarComensales clk))"
  unfolding generarComensales_def using apellidos_no_digit by (rule generarComensales_con_emails_distinct)

lemma generarComensales_emails_normal:
  "\<forall>c\<in>set (generarComensales clk). normalizarTexto (email c) = email c"
  using corpus_letters
  by (auto simp: generarComensales_def nuevo_comensal_def normalizarTexto_ascii_clean
      email_de_ascii_clean dest!: mem_generarComensales_con)

text \<open>C9 (refinement). The two nested loops of \<open>generarComensales\<close> enumerate
  the first names (outer) against the surnames (inner) in order, numbering the
  attendees from 1 and stopping after \<open>limite\<close> of them.\<close>

theorem generarComensales_con_enumerates:
  "generarComensales_con ns aps limite clk
     = map (mk_comensal clk) (enumerate 1 (take limite (List.product ns aps)))"
  by (rule generarComensales_con_eq)

text \<open>C10 (functional). For a target count no larger than the number of name
  pairs, the generator returns exactly that many attendees, with the ids
  1 to the target count in order, none of them seated.\<close>

theorem generarComensales_con_count:
  assumes "limite \<le> length ns * length aps"
  shows "length (generarComensales_con ns aps limite clk) = limite \<and>
         map id_comensal (generarComensales_con ns aps limite clk) = [1..<Suc limite] \<and>
         (\<forall>c\<in>set (generarComensales_con ns aps limite clk). mesa_id c = None \<and> asiento c = None)"
proof -
  have ids: "map id_comensal (generarComensales_con ns aps limite clk) = [1..<Suc limite]"
    using assms generarComensales_con_ids [of ns aps limite clk] by (simp add: min_def del: upt_Suc)
  then have "length (generarComensales_con ns aps limite clk) = limite"
    by (metis diff_Suc_1 length_map length_upt)
  moreover have "\<forall>c\<in>set (generarComensales_con ns aps limite clk). mesa_id c = None \<and> asiento c = None"
    by (auto dest!: mem_generarComensales_con simp: nuevo_comensal_def)
  ultimately show ?thesis using ids by simp
qed

theorem generarComensales_con_count_witness:
  "length (generarComensales_con [js_lit ''Ana'', js_lit ''Eva''] [js_lit ''Gil'', js_lit ''Ruiz''] 3 (\<lambda>_. [])) = 3 \<and>
   map id_comensal (generarComensales_con [js_lit ''Ana'', js_lit ''Eva''] [js_lit ''Gil'', js_lit ''Ruiz''] 3 (\<lambda>_. []))
     = [1, 2, 3]"
proof -
  have h: "3 \<le> length [js_lit ''Ana'', js_lit ''Eva''] * length [js_lit ''Gil'', js_lit ''Ruiz'']" by simp
  show ?thesis using generarComensales_con_count [OF h, of "\<lambda>_. []"] by (simp add: upt_rec)
qed

text \<open>C11 (safety). When no surname contains a decimal digit, the generated
  emails are pairwise distinct: the number embedded before the domain is the
  attendee's id, and it can be read back from the address.\<close>

theorem generarComensales_con_emails_unique:
  assumes "\<forall>a\<in>set aps. \<forall>c\<in>set a. \<not> is_digit c"
  shows "distinct (map email (generarComensales_con ns aps limite clk))"
  using assms by (rule generarComensales_con_emails_distinct)

theorem generarComensales_con_emails_unique_witness:
  "distinct (map email (generarComensales_con [js_lit ''Ana''] [js_lit ''Gil'', js_lit ''Ruiz''] 2 (\<lambda>_. [])))"
proof -
  have h: "\<forall>a\<in>set [js_lit ''Gil'', js_lit ''Ruiz'']. \<forall>c\<in>set a. \<not> is_digit c"
    by (simp add: is_digit_def)
  show ?thesis using generarComensales_con_emails_unique [OF h] by blast
qed

text \<open>C12 (functional). The reference catalog: 400 attendees with ids 1 to
  400, none seated, pairwise distinct emails, and every email already in the
  form \<open>normalizarTexto\<close> produces (lower case, ASCII, no marks).\<close>

theorem generarComensales_reference:
  "map id_comensal (generarComensales clk) = [1..<401] \<and>
   (\<forall>c\<in>set (generarComensales clk). mesa_id c = None \<and> asiento c = None) \<and>
   distinct (map email (generarComensales clk)) \<and>
   (\<forall>c\<in>set (generarComensales clk). normalizarTexto (email c) = email c)"
  by (intro conjI generarComensales_ids generarComensales_unseated
      generarComensales_emails_distinct generarComensales_emails_normal)

theorem generarComensales_reference_witness:
  "map id_comensal (generarComensales (\<lambda>_. [])) = [1..<401] \<and> distinct (map email (generarComensales (\<lambda>_. [])))"
  using generarComensales_reference [of "\<lambda>_. []"] by blast

text \<open>C13 (functional). The reference tables: ids and numbers 1 to 40, each of
  capacity 10, laid out on a grid of 8 columns and 5 rows with no two tables
  on the same cell.\<close>

theorem generarMesas_layout:
  "map id_mesa generarMesas = [1..<41] \<and>
   (\<forall>m\<in>set generarMesas. numero m = id_mesa m \<and> capacidad m = 10 \<and>
      1 \<le> posicion_x m \<and> posicion_x m \<le> 8 \<and> 1 \<le> posicion_y m \<and> posicion_y m \<le> 5) \<and>
   distinct (map (\<lambda>m. (posicion_x m, posicion_y m)) generarMesas)"
proof (intro conjI)
  show "map id_mesa generarMesas = [1..<41]"
    by (rule generarMesas_ids)
  show "\<forall>m\<in>set generarMesas. numero m = id_mesa m \<and> capacidad m = 10 \<and>
      1 \<le> posicion_x m \<and> posicion_x m \<le> 8 \<and> 1 \<le> posicion_y m \<and> posicion_y m \<le> 5"
    by (auto simp: generarMesas_eq nueva_mesa_def)
  show "distinct (map (\<lambda>m. (posicion_x m, posicion_y m)) generarMesas)"
  proof -
    have "inj_on (\<lambda>i. (posicion_x (nueva_mesa i), posicion_y (nueva_mesa i))) (set [1..<41])"
      by (rule inj_onI) (rule nueva_mesa_pos_inj, auto)
    then show ?thesis by (simp add: generarMesas_eq distinct_map comp_def del: upt_Suc)
  qed
qed

theorem generarMesas_layout_witness:
  "map id_mesa generarMesas = [1..<41] \<and> distinct (map (\<lambda>m. (posicion_x m, posicion_y m)) generarMesas)"
  using generarMesas_layout by blast

text \<open>The clock is read only for \<open>created_at\<close>: two runs of
  the generator agree on every other field of every attendee.\<close>

theorem generarComensales_clock_independent:
  "map (\<lambda>c. c\<lparr>created_at := []\<rparr>) (generarComensales clk1)
     = map (\<lambda>c. c\<lparr>created_at := []\<rparr>) (generarComensales clk2)"
  by (simp add: generarComensales_def generarComensales_con_eq mk_comensal_def nuevo_comensal_def
      case_prod_beta)

lemma nombres_no_vacios: "[] \<notin> set nombres"
  by (simp add: nombres_def)

lemma generarComensales_no_vacios:
  assumes "c \<in> set (generarComensales clk)"
  shows "nombre c \<noteq> [] \<and> email c \<noteq> []"
  using mem_generarComensales_con [OF assms [unfolded generarComensales_def]] nombres_no_vacios
  by (auto simp: nuevo_comensal_def email_de_split)

end
