(* ===== verification/Draw.thy ===== *)
theory Draw
  imports Cena_Types
begin

text \<open>
  The Draw Engine, \<open>realizarSorteo\<close> of \<open>src/src/lib/data.ts\<close>: a Fisher-Yates
  shuffle of a copy of the attendees, then a walk that seats them table by
  table. \<open>Math.random()\<close> is the random source \<open>rnd\<close>: \<open>rnd i\<close> is the value
  the call in the iteration with loop index \<open>i\<close> returned (one call per
  iteration). The seating loop reads \<open>mesas[mesaActual].capacidad\<close> and
  \<open>mesas[mesaActual].id\<close>; past the last table the element is \<open>undefined\<close> and
  the read throws, which is \<open>Inl TypeError\<close> here; \<open>Array.map\<close> then aborts.
\<close>

type_synonym random_source = "nat \<Rightarrow> real"

text \<open>The contract of \<open>Math.random()\<close>: every value lies in \<open>[0, 1)\<close>.\<close>

definition math_random_ok :: "random_source \<Rightarrow> bool" where
  "math_random_ok rnd \<longleftrightarrow> (\<forall>i. 0 \<le> rnd i \<and> rnd i < 1)"

subsection \<open>The shuffle\<close>

text \<open>\<open>Math.floor(Math.random() * (i + 1))\<close>\<close>

definition fy_index :: "random_source \<Rightarrow> nat \<Rightarrow> nat" where
  "fy_index rnd i = nat \<lfloor>rnd i * real (i + 1)\<rfloor>"

text \<open>\<open>[mezclados[i], mezclados[j]] = [mezclados[j], mezclados[i]]\<close>: the right
  side is read first, then \<open>i\<close> is written, then \<open>j\<close>.\<close>

definition swap :: "'a list \<Rightarrow> nat \<Rightarrow> nat \<Rightarrow> 'a list" where
  "swap xs i j = xs[i := xs ! j, j := xs ! i]"

text \<open>The loop \<open>for (let i = mezclados.length - 1; i > 0; i--)\<close>, its index as
  the recursion argument.\<close>

fun fisher_yates :: "random_source \<Rightarrow> nat \<Rightarrow> 'a list \<Rightarrow> 'a list" where
  "fisher_yates rnd 0 xs = xs"
| "fisher_yates rnd (Suc i) xs = fisher_yates rnd i (swap xs (Suc i) (fy_index rnd (Suc i)))"

definition mezclar :: "random_source \<Rightarrow> 'a list \<Rightarrow> 'a list" where
  "mezclar rnd xs = fisher_yates rnd (length xs - 1) xs"

subsection \<open>The seating walk\<close>

text \<open>
  The callback of \<open>mezclados.map\<close> with the two mutable counters
  \<open>mesaActual\<close> (an index into \<open>mesas\<close>) and \<open>asientoActual\<close> threaded
  through the recursion.
\<close>

fun asignar :: "mesa list \<Rightarrow> nat \<Rightarrow> nat \<Rightarrow> comensal list \<Rightarrow> js_error + comensal list" where
  "asignar mesas mesaActual asientoActual [] = Inr []"
| "asignar mesas mesaActual asientoActual (c # cs) =
     (if length mesas \<le> mesaActual then Inl TypeError
      else
        let (m, a) = (if capacidad (mesas ! mesaActual) < asientoActual
                      then (Suc mesaActual, 1) else (mesaActual, asientoActual))
        in if length mesas \<le> m then Inl TypeError
           else case asignar mesas m (Suc a) cs of
                  Inl e \<Rightarrow> Inl e
                | Inr rs \<Rightarrow> Inr (c\<lparr>mesa_id := Some (id_mesa (mesas ! m)), asiento := Some a\<rparr> # rs))"

definition realizarSorteo :: "random_source \<Rightarrow> comensal list \<Rightarrow> mesa list \<Rightarrow> js_error + comensal list" where
  "realizarSorteo rnd comensales mesas = asignar mesas 0 1 (mezclar rnd comensales)"

subsection \<open>The contract of the seating walk\<close>

text \<open>
  What the walk promises: the seats of the tables in table order, seat 1 to
  the capacity of each, handed out to the attendees in list order; an
  error when there are more attendees than seats.
\<close>

definition plazas_mesa :: "mesa \<Rightarrow> (nat \<times> nat) list" where
  "plazas_mesa m = map (\<lambda>s. (id_mesa m, s)) [1..<Suc (capacidad m)]"

definition plazas :: "mesa list \<Rightarrow> (nat \<times> nat) list" where
  "plazas mesas = concat (map plazas_mesa mesas)"

definition sentar :: "comensal \<Rightarrow> nat \<times> nat \<Rightarrow> comensal" where
  "sentar c p = c\<lparr>mesa_id := Some (fst p), asiento := Some (snd p)\<rparr>"

definition reparto :: "mesa list \<Rightarrow> comensal list \<Rightarrow> js_error + comensal list" where
  "reparto mesas cs =
     (if length cs \<le> length (plazas mesas) then Inr (map2 sentar cs (plazas mesas)) else Inl TypeError)"

definition capacidades_positivas :: "mesa list \<Rightarrow> bool" where
  "capacidades_positivas mesas \<longleftrightarrow> (\<forall>m\<in>set mesas. 0 < capacidad m)"

subsection \<open>Sample data for the witnesses\<close>

definition mesa_demo :: "nat \<Rightarrow> nat \<Rightarrow> mesa" where
  "mesa_demo i cap = \<lparr>id_mesa = i, numero = i, capacidad = cap, posicion_x = i, posicion_y = 1\<rparr>"

definition comensal_demo :: "nat \<Rightarrow> comensal" where
  "comensal_demo k =
     \<lparr>id_comensal = k, nombre = [], apellido = [], email = js_nat_str k,
      mesa_id = None, asiento = None, created_at = []\<rparr>"

subsection \<open>Properties of the seat list and the shuffle\<close>

lemma plazas_Cons [simp]: "plazas (m # ms) = plazas_mesa m @ plazas ms"
  by (simp add: plazas_def)
lemma plazas_Nil [simp]: "plazas [] = []"
  by (simp add: plazas_def)
lemma plazas_drop:
  "k < length mesas \<Longrightarrow> plazas (drop k mesas) = plazas_mesa (mesas ! k) @ plazas (drop (Suc k) mesas)"
  by (simp add: Cons_nth_drop_Suc [symmetric])
lemma length_plazas_mesa [simp]: "length (plazas_mesa m) = capacidad m"
  by (simp add: plazas_mesa_def)

lemma nth_plazas_mesa: "k < capacidad m \<Longrightarrow> plazas_mesa m ! k = (id_mesa m, Suc k)"
  by (simp add: plazas_mesa_def del: upt_Suc)

lemma drop_plazas_mesa_seat:
  "0 < a \<Longrightarrow> a \<le> capacidad m \<Longrightarrow>
     drop (a - 1) (plazas_mesa m) = (id_mesa m, a) # drop a (plazas_mesa m)"
  using Cons_nth_drop_Suc [of "a - 1" "plazas_mesa m"] by (simp add: nth_plazas_mesa)

lemma drop_plazas_mesa_full: "capacidad m < a \<Longrightarrow> drop (a - 1) (plazas_mesa m) = []"
  by simp

lemma asignar_reparto_from:
  assumes "capacidades_positivas mesas" and "ma < length mesas"
    and "0 < aa" and "aa \<le> Suc (capacidad (mesas ! ma))"
  shows "asignar mesas ma aa cs =
    (let ps = drop (aa - 1) (plazas_mesa (mesas ! ma)) @ plazas (drop (Suc ma) mesas)
     in if length cs \<le> length ps then Inr (map2 sentar cs ps) else Inl TypeError)"
  using assms(2-)
proof (induction cs arbitrary: ma aa)
  case Nil
  then show ?case by simp
next
  case (Cons c cs)
  show ?case
  proof (cases "capacidad (mesas ! ma) < aa")
    case full: True
    then have none: "drop (aa - 1) (plazas_mesa (mesas ! ma)) = []"
      by (rule drop_plazas_mesa_full)
    show ?thesis
    proof (cases "Suc ma < length mesas")
      case True
      let ?m = "mesas ! Suc ma"
      have pos: "0 < capacidad ?m"
        using assms(1) True by (simp add: capacidades_positivas_def)
      have "plazas (drop (Suc ma) mesas) = (id_mesa ?m, 1) # drop 1 (plazas_mesa ?m) @ plazas (drop (Suc (Suc ma)) mesas)"
        using True pos drop_plazas_mesa_seat [of 1 ?m] by (simp add: plazas_drop)
      moreover have "asignar mesas (Suc ma) (Suc (Suc 0)) cs =
        (let ps = drop 1 (plazas_mesa ?m) @ plazas (drop (Suc (Suc ma)) mesas)
         in if length cs \<le> length ps then Inr (map2 sentar cs ps) else Inl TypeError)"
        using Cons.IH [of "Suc ma" "Suc (Suc 0)"] True pos by simp
      ultimately show ?thesis
        using Cons.prems full True none by (simp add: Let_def sentar_def)
    next
      case False
      then have "drop (Suc ma) mesas = []" by simp
      with Cons.prems full False none show ?thesis by simp
    qed
  next
    case room: False
    then have some: "drop (aa - 1) (plazas_mesa (mesas ! ma)) = (id_mesa (mesas ! ma), aa) # drop aa (plazas_mesa (mesas ! ma))"
      using Cons.prems drop_plazas_mesa_seat [of aa "mesas ! ma"] by simp
    have "asignar mesas ma (Suc aa) cs =
        (let ps = drop aa (plazas_mesa (mesas ! ma)) @ plazas (drop (Suc ma) mesas)
         in if length cs \<le> length ps then Inr (map2 sentar cs ps) else Inl TypeError)"
      using Cons.IH [of ma "Suc aa"] Cons.prems room by simp
    then show ?thesis
      using Cons.prems room some by (simp add: Let_def sentar_def)
  qed
qed

theorem asignar_reparto:
  assumes "capacidades_positivas mesas"
  shows "asignar mesas 0 1 cs = reparto mesas cs"
proof (cases mesas)
  case Nil
  then show ?thesis by (cases cs) (simp_all add: reparto_def)
next
  case (Cons m ms)
  have "0 < capacidad m" using assms Cons by (simp add: capacidades_positivas_def)
  then show ?thesis
    using asignar_reparto_from [OF assms, of 0 1 cs] Cons by (simp add: reparto_def Let_def)
qed


subsection \<open>Facts on the seat list\<close>

lemma length_plazas: "length (plazas mesas) = sum_list (map capacidad mesas)"
  by (induction mesas) auto

lemma set_plazas_mesa: "set (plazas_mesa m) = {(id_mesa m, s) | s. 1 \<le> s \<and> s \<le> capacidad m}"
  by (auto simp: plazas_mesa_def)

lemma set_plazas:
  "p \<in> set (plazas mesas) \<longleftrightarrow> (\<exists>m\<in>set mesas. fst p = id_mesa m \<and> 1 \<le> snd p \<and> snd p \<le> capacidad m)"
  by (cases p) (auto simp: plazas_def set_plazas_mesa)

lemma distinct_plazas: "distinct (map id_mesa mesas) \<Longrightarrow> distinct (plazas mesas)"
proof (induction mesas)
  case Nil
  then show ?case by simp
next
  case (Cons m ms)
  have "distinct (plazas_mesa m)"
    by (simp add: plazas_mesa_def distinct_map inj_on_def)
  moreover have "set (plazas_mesa m) \<inter> set (plazas ms) = {}"
    using Cons.prems by (auto simp: plazas_mesa_def set_plazas)
  ultimately show ?case using Cons by simp
qed

lemma count_plazas:
  assumes "distinct (map id_mesa mesas)" and "m \<in> set mesas"
  shows "length (filter (\<lambda>p. fst p = id_mesa m) (plazas mesas)) = capacidad m"
  using assms
proof (induction mesas)
  case Nil
  then show ?case by simp
next
  case (Cons m' ms)
  have own: "filter (\<lambda>p. fst p = id_mesa m) (plazas_mesa m') =
      (if id_mesa m' = id_mesa m then plazas_mesa m' else [])"
    by (auto simp: plazas_mesa_def filter_id_conv filter_empty_conv)
  show ?case
  proof (cases "m = m'")
    case True
    with Cons.prems have "filter (\<lambda>p. fst p = id_mesa m) (plazas ms) = []"
      by (auto simp: filter_empty_conv set_plazas)
    with True own show ?thesis by simp
  next
    case False
    with Cons.prems have "id_mesa m' \<noteq> id_mesa m" and "m \<in> set ms" by auto
    with Cons own show ?thesis by simp
  qed
qed

lemma asientos_map2_sentar:
  "length cs \<le> length ps \<Longrightarrow>
     map (\<lambda>c. (mesa_id c, asiento c)) (map2 sentar cs ps) = map (\<lambda>p. (Some (fst p), Some (snd p))) (take (length cs) ps)"
proof (induction cs arbitrary: ps)
  case Nil
  then show ?case by simp
next
  case (Cons c cs)
  then obtain p ps' where "ps = p # ps'" by (cases ps) auto
  with Cons show ?case by (simp add: sentar_def)
qed

lemma sin_asiento_map2_sentar:
  "length cs \<le> length ps \<Longrightarrow> map sin_asiento (map2 sentar cs ps) = map sin_asiento cs"
proof (induction cs arbitrary: ps)
  case Nil
  then show ?case by simp
next
  case (Cons c cs)
  then obtain p ps' where "ps = p # ps'" by (cases ps) auto
  with Cons show ?case by (simp add: sentar_def)
qed

lemma length_filter_take_le: "length (filter P (take n xs)) \<le> length (filter P xs)"
  by (induction xs arbitrary: n) (auto simp: take_Cons split: nat.splits)

subsection \<open>The shuffle permutes\<close>

lemma fy_index_le: "math_random_ok rnd \<Longrightarrow> fy_index rnd i \<le> i"
proof -
  assume ok: "math_random_ok rnd"
  then have "0 \<le> rnd i" and "rnd i < 1" by (auto simp: math_random_ok_def)
  then have "rnd i * real (i + 1) < real (i + 1)" by simp
  then have "\<lfloor>rnd i * real (i + 1)\<rfloor> < int (i + 1)" by linarith
  then show ?thesis by (simp add: fy_index_def)
qed

lemma length_swap [simp]: "length (swap xs i j) = length xs"
  by (simp add: swap_def)

lemma mset_swap_in_range: "i < length xs \<Longrightarrow> j < length xs \<Longrightarrow> mset (swap xs i j) = mset xs"
  by (cases "i = j") (simp_all add: swap_def list_update_swap mset_swap)

lemma length_fisher_yates [simp]: "length (fisher_yates rnd i xs) = length xs"
  by (induction i arbitrary: xs) simp_all

lemma length_mezclar [simp]: "length (mezclar rnd xs) = length xs"
  by (simp add: mezclar_def)

lemma mset_fisher_yates:
  "math_random_ok rnd \<Longrightarrow> i < length xs \<Longrightarrow> mset (fisher_yates rnd i xs) = mset xs"
proof (induction i arbitrary: xs)
  case 0
  then show ?case by simp
next
  case (Suc i)
  have "fy_index rnd (Suc i) < length xs"
    using fy_index_le [OF Suc.prems(1), of "Suc i"] Suc.prems(2) by simp
  then have "mset (swap xs (Suc i) (fy_index rnd (Suc i))) = mset xs"
    using Suc.prems(2) by (simp add: mset_swap_in_range)
  with Suc show ?case by simp
qed

lemma mset_mezclar: "math_random_ok rnd \<Longrightarrow> mset (mezclar rnd xs) = mset xs"
  by (cases xs) (simp_all add: mezclar_def mset_fisher_yates)

lemma asignar_sin_asiento:
  "asignar mesas ma aa cs = Inr rs \<Longrightarrow> map sin_asiento rs = map sin_asiento cs"
  by (induction mesas ma aa cs arbitrary: rs rule: asignar.induct)
     (auto simp: Let_def split: if_splits sum.splits prod.splits)


lemma realizarSorteo_reparto_eq:
  "capacidades_positivas mesas \<Longrightarrow> realizarSorteo rnd cs mesas = reparto mesas (mezclar rnd cs)"
  unfolding realizarSorteo_def by (rule asignar_reparto)

lemma realizarSorteo_success:
  assumes "capacidades_positivas mesas" and "length cs \<le> sum_list (map capacidad mesas)"
  shows "realizarSorteo rnd cs mesas = Inr (map2 sentar (mezclar rnd cs) (plazas mesas))"
  using assms by (simp add: realizarSorteo_reparto_eq reparto_def length_plazas)

lemma mem_map2_sentar: "c \<in> set (map2 sentar cs ps) \<Longrightarrow> \<exists>c0 p. p \<in> set ps \<and> c = sentar c0 p"
  by (auto dest: set_zip_rightD)

lemma realizarSorteo_Inr:
  assumes "capacidades_positivas mesas" and "realizarSorteo rnd cs mesas = Inr rs"
  shows "rs = map2 sentar (mezclar rnd cs) (plazas mesas) \<and> length cs \<le> length (plazas mesas)"
  using assms by (simp add: realizarSorteo_reparto_eq reparto_def split: if_splits)

lemma realizarSorteo_seat_in_plazas:
  assumes "capacidades_positivas mesas" and "realizarSorteo rnd cs mesas = Inr rs" and "c \<in> set rs"
  shows "\<exists>p\<in>set (plazas mesas). mesa_id c = Some (fst p) \<and> asiento c = Some (snd p)"
proof -
  from realizarSorteo_Inr [OF assms(1,2)] assms(3)
  have "c \<in> set (map2 sentar (mezclar rnd cs) (plazas mesas))" by simp
  then obtain c0 p where "p \<in> set (plazas mesas)" and "c = sentar c0 p"
    by (blast dest: mem_map2_sentar)
  then show ?thesis by (auto simp: sentar_def)
qed

lemma asignar_seated:
  "asignar mesas ma aa cs = Inr rs \<Longrightarrow> list_all (\<lambda>c. mesa_id c \<noteq> None \<and> asiento c \<noteq> None) rs"
  by (induction mesas ma aa cs arbitrary: rs rule: asignar.induct)
     (auto simp: Let_def split: if_splits sum.splits prod.splits)

lemma asignar_length: "asignar mesas ma aa cs = Inr rs \<Longrightarrow> length rs = length cs"
  by (drule asignar_sin_asiento) (metis length_map)

lemma asignar_desborda_siguiente:
  assumes "Suc i < length mesas" and "a + length cs = capacidad (mesas ! i) + 2" and "cs \<noteq> []"
  shows "\<exists>rs. asignar mesas i a cs = Inr rs \<and>
     last rs = (last cs)\<lparr>mesa_id := Some (id_mesa (mesas ! Suc i)), asiento := Some 1\<rparr>"
  using assms
proof (induction cs arbitrary: a)
  case Nil then show ?case by simp
next
  case (Cons c cs)
  show ?case
  proof (cases "cs = []")
    case True
    with Cons.prems show ?thesis by simp
  next
    case False
    then have "length cs \<ge> 1" by (cases cs) simp_all
    with Cons.prems(2) have a: "\<not> capacidad (mesas ! i) < a" by simp
    from Cons.prems(2) have "Suc a + length cs = capacidad (mesas ! i) + 2" by simp
    then obtain rs where r: "asignar mesas i (Suc a) cs = Inr rs"
      and l: "last rs = (last cs)\<lparr>mesa_id := Some (id_mesa (mesas ! Suc i)), asiento := Some 1\<rparr>"
      using Cons.IH [OF Cons.prems(1) _ False] by blast
    have "rs \<noteq> []" using l r asignar_length False by fastforce
    then show ?thesis using Cons.prems(1) a r l False by simp
  qed
qed

lemma count_map2_sentar:
  assumes "length cs \<le> length ps"
  shows "length (filter (\<lambda>c. mesa_id c = Some t) (map2 sentar cs ps))
       = length (filter (\<lambda>p. fst p = t) (take (length cs) ps))"
proof -
  let ?f = "\<lambda>c. (mesa_id c, asiento c)"
  have "length (filter (\<lambda>c. mesa_id c = Some t) (map2 sentar cs ps))
      = length (filter (\<lambda>q. fst q = Some t) (map ?f (map2 sentar cs ps)))"
    by (simp add: filter_map comp_def)
  also have "\<dots> = length (filter (\<lambda>q. fst q = Some t) (map (\<lambda>p. (Some (fst p), Some (snd p))) (take (length cs) ps)))"
    using assms by (simp only: asientos_map2_sentar)
  also have "\<dots> = length (filter (\<lambda>p. fst p = t) (take (length cs) ps))"
    by (simp add: filter_map comp_def)
  finally show ?thesis .
qed

text \<open>C1 (refinement). With every table of positive capacity, the draw is the
  abstract seating: the shuffled attendees take the seats of the tables in
  table order, or the draw fails when there are more attendees than seats.\<close>

theorem realizarSorteo_refines_reparto:
  assumes "capacidades_positivas mesas"
  shows "realizarSorteo rnd cs mesas = reparto mesas (mezclar rnd cs)"
  unfolding realizarSorteo_def using assms by (rule asignar_reparto)

theorem realizarSorteo_refines_reparto_witness:
  "capacidades_positivas [mesa_demo 1 2] \<and>
   realizarSorteo (\<lambda>_. 0) [comensal_demo 1, comensal_demo 2] [mesa_demo 1 2]
     = reparto [mesa_demo 1 2] (mezclar (\<lambda>_. 0) [comensal_demo 1, comensal_demo 2])"
proof -
  have h: "capacidades_positivas [mesa_demo 1 2]"
    by (simp add: capacidades_positivas_def mesa_demo_def)
  show ?thesis using h realizarSorteo_refines_reparto [OF h] by simp
qed

text \<open>C2 (error). With every table of positive capacity, the draw throws (a
  read of a property of the missing table after the last one) exactly when
  there are more attendees than seats; it never drops an attendee silently.\<close>

theorem realizarSorteo_overflow_error:
  assumes "capacidades_positivas mesas"
  shows "realizarSorteo rnd cs mesas = Inl TypeError \<longleftrightarrow> sum_list (map capacidad mesas) < length cs"
  using assms by (simp add: realizarSorteo_reparto_eq reparto_def length_plazas)

theorem realizarSorteo_overflow_error_witness:
  "capacidades_positivas [mesa_demo 1 1] \<and>
   realizarSorteo (\<lambda>_. 0) [comensal_demo 1, comensal_demo 2] [mesa_demo 1 1] = Inl TypeError"
proof -
  have h: "capacidades_positivas [mesa_demo 1 1]"
    by (simp add: capacidades_positivas_def mesa_demo_def)
  show ?thesis
    using h realizarSorteo_overflow_error [OF h, of "\<lambda>_. 0" "[comensal_demo 1, comensal_demo 2]"]
    by (simp add: mesa_demo_def)
qed

text \<open>C3 (equivalence). A successful draw is a permutation of its input:
  erasing the table and seat of every result gives the input attendees, each
  as often as before.\<close>

theorem realizarSorteo_permutation:
  assumes "math_random_ok rnd" and "realizarSorteo rnd cs mesas = Inr rs"
  shows "mset (map sin_asiento rs) = mset (map sin_asiento cs)"
proof -
  from assms(2) have "map sin_asiento rs = map sin_asiento (mezclar rnd cs)"
    unfolding realizarSorteo_def by (rule asignar_sin_asiento)
  then show ?thesis using mset_mezclar [OF assms(1)] by (metis mset_map)
qed

theorem realizarSorteo_permutation_witness:
  "math_random_ok (\<lambda>_. 0) \<and>
   realizarSorteo (\<lambda>_. 0) [comensal_demo 1, comensal_demo 2] [mesa_demo 1 2]
     = Inr [sentar (comensal_demo 2) (1, 1), sentar (comensal_demo 1) (1, 2)] \<and>
   mset (map sin_asiento [sentar (comensal_demo 2) (1, 1), sentar (comensal_demo 1) (1, 2)])
     = mset (map sin_asiento [comensal_demo 1, comensal_demo 2])"
proof -
  have ok: "math_random_ok (\<lambda>_. 0)" by (simp add: math_random_ok_def)
  have run: "realizarSorteo (\<lambda>_. 0) [comensal_demo 1, comensal_demo 2] [mesa_demo 1 2]
     = Inr [sentar (comensal_demo 2) (1, 1), sentar (comensal_demo 1) (1, 2)]"
    by (simp add: realizarSorteo_def mezclar_def fy_index_def swap_def mesa_demo_def sentar_def)
  show ?thesis using ok run realizarSorteo_permutation [OF ok run] by simp
qed


text \<open>C4 (invariant). After a successful draw over tables of positive capacity,
  every attendee has a table of the list and a seat between 1 and that
  table's capacity.\<close>

theorem realizarSorteo_seat_bounds:
  assumes "capacidades_positivas mesas" and "realizarSorteo rnd cs mesas = Inr rs" and "c \<in> set rs"
  shows "\<exists>m\<in>set mesas. \<exists>s. mesa_id c = Some (id_mesa m) \<and> asiento c = Some s \<and> 1 \<le> s \<and> s \<le> capacidad m"
  using realizarSorteo_seat_in_plazas [OF assms] by (auto simp: set_plazas)

theorem realizarSorteo_seat_bounds_witness:
  "capacidades_positivas [mesa_demo 1 2] \<and>
   realizarSorteo (\<lambda>_. 0) [comensal_demo 1] [mesa_demo 1 2] = Inr [sentar (comensal_demo 1) (1, 1)] \<and>
   sentar (comensal_demo 1) (1, 1) \<in> set [sentar (comensal_demo 1) (1, 1)] \<and>
   (\<exists>m\<in>set [mesa_demo 1 2]. \<exists>s. mesa_id (sentar (comensal_demo 1) (1, 1)) = Some (id_mesa m)
      \<and> asiento (sentar (comensal_demo 1) (1, 1)) = Some s \<and> 1 \<le> s \<and> s \<le> capacidad m)"
proof -
  have h: "capacidades_positivas [mesa_demo 1 2]"
    by (simp add: capacidades_positivas_def mesa_demo_def)
  have run: "realizarSorteo (\<lambda>_. 0) [comensal_demo 1] [mesa_demo 1 2] = Inr [sentar (comensal_demo 1) (1, 1)]"
    by (simp add: realizarSorteo_def mezclar_def mesa_demo_def sentar_def)
  show ?thesis using h run realizarSorteo_seat_bounds [OF h run] by simp
qed

text \<open>C5 (safety). When the table ids are distinct and every capacity is
  positive, no two attendees of a successful draw share a table and a seat.\<close>

theorem realizarSorteo_distinct_seats:
  assumes "capacidades_positivas mesas" and "distinct (map id_mesa mesas)"
    and "realizarSorteo rnd cs mesas = Inr rs"
  shows "distinct (map (\<lambda>c. (mesa_id c, asiento c)) rs)"
proof -
  from realizarSorteo_Inr [OF assms(1,3)]
  have rs: "rs = map2 sentar (mezclar rnd cs) (plazas mesas)" and len: "length cs \<le> length (plazas mesas)"
    by auto
  from len have len': "length (mezclar rnd cs) \<le> length (plazas mesas)" by simp
  have "map (\<lambda>c. (mesa_id c, asiento c)) rs
      = map (\<lambda>p. (Some (fst p), Some (snd p))) (take (length (mezclar rnd cs)) (plazas mesas))"
    by (simp only: rs asientos_map2_sentar [OF len'])
  moreover have "distinct (take (length cs) (plazas mesas))"
    using distinct_plazas [OF assms(2)] by simp
  ultimately show ?thesis by (simp add: distinct_map inj_on_def prod_eq_iff)
qed

theorem realizarSorteo_distinct_seats_witness:
  "capacidades_positivas [mesa_demo 1 1, mesa_demo 2 1] \<and> distinct (map id_mesa [mesa_demo 1 1, mesa_demo 2 1]) \<and>
   realizarSorteo (\<lambda>_. 0) [comensal_demo 1, comensal_demo 2] [mesa_demo 1 1, mesa_demo 2 1]
     = Inr [sentar (comensal_demo 2) (1, 1), sentar (comensal_demo 1) (2, 1)] \<and>
   distinct (map (\<lambda>c. (mesa_id c, asiento c)) [sentar (comensal_demo 2) (1, 1), sentar (comensal_demo 1) (2, 1)])"
proof -
  have h1: "capacidades_positivas [mesa_demo 1 1, mesa_demo 2 1]"
    by (simp add: capacidades_positivas_def mesa_demo_def)
  have h2: "distinct (map id_mesa [mesa_demo 1 1, mesa_demo 2 1])"
    by (simp add: mesa_demo_def)
  have run: "realizarSorteo (\<lambda>_. 0) [comensal_demo 1, comensal_demo 2] [mesa_demo 1 1, mesa_demo 2 1]
     = Inr [sentar (comensal_demo 2) (1, 1), sentar (comensal_demo 1) (2, 1)]"
    by (simp add: realizarSorteo_def mezclar_def fy_index_def swap_def mesa_demo_def sentar_def)
  show ?thesis using h1 h2 run realizarSorteo_distinct_seats [OF h1 h2 run] by simp
qed

text \<open>C6 (bounds). When the table ids are distinct and every capacity is
  positive, a successful draw puts at most its capacity of attendees at each
  table.\<close>

theorem realizarSorteo_table_capacity:
  assumes "capacidades_positivas mesas" and "distinct (map id_mesa mesas)"
    and "realizarSorteo rnd cs mesas = Inr rs" and "m \<in> set mesas"
  shows "length (filter (\<lambda>c. mesa_id c = Some (id_mesa m)) rs) \<le> capacidad m"
proof -
  from realizarSorteo_Inr [OF assms(1,3)]
  have rs: "rs = map2 sentar (mezclar rnd cs) (plazas mesas)" and len: "length cs \<le> length (plazas mesas)"
    by auto
  from len have len': "length (mezclar rnd cs) \<le> length (plazas mesas)" by simp
  have "length (filter (\<lambda>c. mesa_id c = Some (id_mesa m)) rs)
      = length (filter (\<lambda>p. fst p = id_mesa m) (take (length (mezclar rnd cs)) (plazas mesas)))"
    by (simp only: rs count_map2_sentar [OF len'])
  also have "\<dots> \<le> length (filter (\<lambda>p. fst p = id_mesa m) (plazas mesas))"
    by (rule length_filter_take_le)
  also have "\<dots> = capacidad m"
    using assms(2,4) by (rule count_plazas)
  finally show ?thesis .
qed

theorem realizarSorteo_table_capacity_witness:
  "capacidades_positivas [mesa_demo 1 2] \<and> distinct (map id_mesa [mesa_demo 1 2]) \<and>
   realizarSorteo (\<lambda>_. 0) [comensal_demo 1] [mesa_demo 1 2] = Inr [sentar (comensal_demo 1) (1, 1)] \<and>
   mesa_demo 1 2 \<in> set [mesa_demo 1 2] \<and>
   length (filter (\<lambda>c. mesa_id c = Some (id_mesa (mesa_demo 1 2))) [sentar (comensal_demo 1) (1, 1)])
     \<le> capacidad (mesa_demo 1 2)"
proof -
  have h1: "capacidades_positivas [mesa_demo 1 2]"
    by (simp add: capacidades_positivas_def mesa_demo_def)
  have h2: "distinct (map id_mesa [mesa_demo 1 2])" by simp
  have run: "realizarSorteo (\<lambda>_. 0) [comensal_demo 1] [mesa_demo 1 2] = Inr [sentar (comensal_demo 1) (1, 1)]"
    by (simp add: realizarSorteo_def mezclar_def mesa_demo_def sentar_def)
  have m: "mesa_demo 1 2 \<in> set [mesa_demo 1 2]" by simp
  show ?thesis using h1 h2 run m realizarSorteo_table_capacity [OF h1 h2 run m] by simp
qed

text \<open>C7 (equivalence). The Fisher-Yates loop permutes the attendee list
  whenever \<open>Math.random()\<close> keeps its contract: every swap index lies in range.\<close>

theorem mezclar_permutes:
  assumes "math_random_ok rnd"
  shows "mset (mezclar rnd xs) = mset xs"
  using assms by (rule mset_mezclar)

theorem mezclar_permutes_witness:
  "math_random_ok (\<lambda>_. 1 / 2) \<and> mezclar (\<lambda>_. 1 / 2) [1, 2, 3 :: nat] = [1, 3, 2] \<and>
   mset (mezclar (\<lambda>_. 1 / 2) [1, 2, 3 :: nat]) = mset [1, 2, 3]"
proof -
  have ok: "math_random_ok (\<lambda>_. 1 / 2)" by (simp add: math_random_ok_def)
  have run: "mezclar (\<lambda>_. 1 / 2) [1, 2, 3 :: nat] = [1, 3, 2]"
    by (simp add: mezclar_def fy_index_def swap_def numeral_3_eq_3)
  show ?thesis using ok run mezclar_permutes [OF ok, of "[1, 2, 3 :: nat]"] by simp
qed

text \<open>C8 (error). A table of capacity zero does not stop the walk from
  seating someone at it: for any random source, any first table of any
  capacity followed by a table of capacity zero, and as many attendees as the
  first table has seats plus one, the draw succeeds and the last attendee sits
  at seat 1 of the zero-capacity table, because after leaving a full table the
  walk takes seat 1 of the next one without looking at its capacity.\<close>

theorem realizarSorteo_zero_capacity_seat:
  assumes "capacidad m2 = 0" and "length cs = Suc (capacidad m1)"
  shows "\<exists>rs. realizarSorteo rnd cs (m1 # m2 # ms) = Inr rs \<and>
     mesa_id (last rs) = Some (id_mesa m2) \<and> asiento (last rs) = Some 1 \<and> capacidad m2 < 1"
proof -
  have ne: "mezclar rnd cs \<noteq> []" using assms(2) by (metis length_mezclar list.size(3) nat.distinct(1))
  from asignar_desborda_siguiente [of 0 "m1 # m2 # ms" 1 "mezclar rnd cs"] assms ne
  obtain rs where "asignar (m1 # m2 # ms) 0 1 (mezclar rnd cs) = Inr rs"
    and "last rs = (last (mezclar rnd cs))\<lparr>mesa_id := Some (id_mesa m2), asiento := Some 1\<rparr>"
    by auto
  then show ?thesis using assms(1) by (simp add: realizarSorteo_def)
qed

theorem realizarSorteo_zero_capacity_seat_witness:
  "\<exists>rs. realizarSorteo (\<lambda>_. 0) [comensal_demo 1] [mesa_demo 1 0, mesa_demo 2 0, mesa_demo 3 5] = Inr rs \<and>
     mesa_id (last rs) = Some 2 \<and> asiento (last rs) = Some 1"
  using realizarSorteo_zero_capacity_seat [of "mesa_demo 2 0" "[comensal_demo 1]" "mesa_demo 1 0" "\<lambda>_. 0" "[mesa_demo 3 5]"]
  by (simp add: mesa_demo_def)

end
