(* ===== verification/Directory.thy ===== *)
theory Directory
  imports Catalog Draw
begin

text \<open>
  The Directory Store of \<open>src/src/lib/data.ts\<close> (lines 106 to 172): the
  module-level variables \<open>_comensales\<close> and \<open>_mesas\<close> (both \<open>null\<close> until first
  read) and the set \<open>_emailsEnviados\<close>, as one record threaded through every
  operation. Each operation returns its result with the new store. The clock
  \<open>clk\<close> feeds the lazy generation of the attendees and the random source
  \<open>rnd\<close> feeds a draw. The \<open>console.log\<close> calls of \<open>buscarComensal\<close> are output
  only and are left out. The theory also gives the operations as a datatype
  with a step function, and the well-formedness of the store that every
  sequence of operations keeps.
\<close>

record directorio =
  comensales_st :: "comensal list option"
  mesas_st :: "mesa list option"
  emails_enviados :: "jstr set"

definition directorio_inicial :: directorio where
  "directorio_inicial = \<lparr>comensales_st = None, mesas_st = None, emails_enviados = {}\<rparr>"

subsection \<open>Lazy initialisation\<close>

text \<open>\<open>if (!_comensales)\<close>: only \<open>null\<close> triggers the generation (an empty
  array is truthy in JavaScript).\<close>

definition getComensales :: "clock \<Rightarrow> directorio \<Rightarrow> comensal list \<times> directorio" where
  "getComensales clk st =
     (case comensales_st st of
        None \<Rightarrow> let cs = generarComensales clk in (cs, st\<lparr>comensales_st := Some cs\<rparr>)
      | Some cs \<Rightarrow> (cs, st))"

definition getMesas :: "directorio \<Rightarrow> mesa list \<times> directorio" where
  "getMesas st =
     (case mesas_st st of
        None \<Rightarrow> (generarMesas, st\<lparr>mesas_st := Some generarMesas\<rparr>)
      | Some ms \<Rightarrow> (ms, st))"

text \<open>
  \<open>ejecutarSorteo\<close> reads both collections (generating them if needed), draws,
  and stores the drawn attendees. When the draw throws, the assignment to
  \<open>_comensales\<close> never happens, but the two reads have already memoised.
\<close>

definition ejecutarSorteo ::
  "random_source \<Rightarrow> clock \<Rightarrow> directorio \<Rightarrow> (js_error + comensal list) \<times> directorio" where
  "ejecutarSorteo rnd clk st =
     (let (cs, st1) = getComensales clk st;
          (ms, st2) = getMesas st1
      in case realizarSorteo rnd cs ms of
           Inl e \<Rightarrow> (Inl e, st2)
         | Inr rs \<Rightarrow> (Inr rs, st2\<lparr>comensales_st := Some rs\<rparr>))"

subsection \<open>Search\<close>

text \<open>The callback of \<open>comensales.find\<close>, on the normalised query.\<close>

definition coincide :: "jstr \<Rightarrow> jstr \<Rightarrow> comensal \<Rightarrow> bool" where
  "coincide nombreNormalizado emailNormalizado c \<longleftrightarrow>
     normalizarTexto (email c) = emailNormalizado \<and>
     (js_includes (normalizarTexto (nombre c @ js_lit '' '' @ apellido c)) nombreNormalizado \<or>
      js_includes (normalizarTexto (nombre c)) nombreNormalizado \<or>
      js_includes (normalizarTexto (apellido c)) nombreNormalizado)"

definition buscarComensal ::
  "clock \<Rightarrow> jstr \<Rightarrow> jstr \<Rightarrow> directorio \<Rightarrow> comensal option \<times> directorio" where
  "buscarComensal clk nom correo st =
     (let (cs, st') = getComensales clk st
      in (find (coincide (normalizarTexto nom) (normalizarTexto correo)) cs, st'))"

definition getCompanerosMesa ::
  "clock \<Rightarrow> nat \<Rightarrow> nat \<Rightarrow> directorio \<Rightarrow> comensal list \<times> directorio" where
  "getCompanerosMesa clk mesaId comensalId st =
     (let (cs, st') = getComensales clk st
      in (filter (\<lambda>c. mesa_id c = Some mesaId \<and> id_comensal c \<noteq> comensalId) cs, st'))"

subsection \<open>The ledger of sent emails\<close>

definition marcarEmailEnviado :: "jstr \<Rightarrow> directorio \<Rightarrow> directorio" where
  "marcarEmailEnviado correo st =
     st\<lparr>emails_enviados := insert (js_toLowerCase correo) (emails_enviados st)\<rparr>"

definition yaSeEnvioEmail :: "jstr \<Rightarrow> directorio \<Rightarrow> bool" where
  "yaSeEnvioEmail correo st \<longleftrightarrow> js_toLowerCase correo \<in> emails_enviados st"

subsection \<open>The operations as a step function\<close>

text \<open>Every exported function of the module as one operation on the store; a
  draw carries the \<open>Math.random\<close> values of its own call.\<close>

datatype op_directorio =
    OpGetComensales
  | OpGetMesas
  | OpEjecutarSorteo random_source
  | OpBuscarComensal jstr jstr
  | OpGetCompanerosMesa nat nat
  | OpMarcarEmailEnviado jstr
  | OpYaSeEnvioEmail jstr

fun paso_directorio :: "clock \<Rightarrow> op_directorio \<Rightarrow> directorio \<Rightarrow> directorio" where
  "paso_directorio clk OpGetComensales st = snd (getComensales clk st)"
| "paso_directorio clk OpGetMesas st = snd (getMesas st)"
| "paso_directorio clk (OpEjecutarSorteo rnd) st = snd (ejecutarSorteo rnd clk st)"
| "paso_directorio clk (OpBuscarComensal n e) st = snd (buscarComensal clk n e st)"
| "paso_directorio clk (OpGetCompanerosMesa m i) st = snd (getCompanerosMesa clk m i st)"
| "paso_directorio clk (OpMarcarEmailEnviado e) st = marcarEmailEnviado e st"
| "paso_directorio clk (OpYaSeEnvioEmail e) st = st"

definition ejecutar_ops :: "clock \<Rightarrow> op_directorio list \<Rightarrow> directorio \<Rightarrow> directorio" where
  "ejecutar_ops clk ops st = fold (paso_directorio clk) ops st"

subsection \<open>Well-formedness of the store\<close>

text \<open>The record invariant of the data model: table and seat are both null or
  both set, and a set seat lies between 1 and the capacity of its table.\<close>

definition asiento_valido :: "mesa list \<Rightarrow> comensal \<Rightarrow> bool" where
  "asiento_valido ms c \<longleftrightarrow>
     (case (mesa_id c, asiento c) of
        (None, None) \<Rightarrow> True
      | (Some t, Some s) \<Rightarrow> list_ex (\<lambda>m. id_mesa m = t \<and> 1 \<le> s \<and> s \<le> capacidad m) ms
      | _ \<Rightarrow> False)"

definition directorio_wf :: "directorio \<Rightarrow> bool" where
  "directorio_wf st \<longleftrightarrow>
     (case mesas_st st of None \<Rightarrow> True | Some ms \<Rightarrow> ms = generarMesas) \<and>
     (case comensales_st st of None \<Rightarrow> True | Some cs \<Rightarrow> list_all (asiento_valido generarMesas) cs) \<and>
     (\<forall>e\<in>emails_enviados st. js_toLowerCase e = e)"

subsection \<open>Sample data for the witnesses\<close>

definition comensal_ana :: comensal where
  "comensal_ana =
     \<lparr>id_comensal = 1, nombre = js_lit ''Ana'', apellido = js_lit ''Gil'',
      email = js_lit ''ana.gil1@email.com'', mesa_id = None, asiento = None, created_at = []\<rparr>"

definition directorio_demo :: directorio where
  "directorio_demo = directorio_inicial\<lparr>comensales_st := Some [comensal_ana]\<rparr>"

subsection \<open>Facts on the store operations\<close>

lemma getComensales_Some [simp]: "comensales_st st = Some cs \<Longrightarrow> getComensales clk st = (cs, st)"
  by (simp add: getComensales_def)

lemma getComensales_None:
  "comensales_st st = None \<Longrightarrow>
     getComensales clk st = (generarComensales clk, st\<lparr>comensales_st := Some (generarComensales clk)\<rparr>)"
  by (simp add: getComensales_def Let_def)

lemma getComensales_cases:
  assumes "getComensales clk st = (cs, st')"
  obtains "comensales_st st = Some cs" and "st' = st"
    | "comensales_st st = None" and "cs = generarComensales clk"
      and "st' = st\<lparr>comensales_st := Some (generarComensales clk)\<rparr>"
  using assms by (cases "comensales_st st") (auto simp: getComensales_None)

lemma getComensales_stores: "getComensales clk st = (cs, st') \<Longrightarrow> comensales_st st' = Some cs"
  by (erule getComensales_cases) simp_all

lemma getComensales_frame:
  "getComensales clk st = (cs, st') \<Longrightarrow> mesas_st st' = mesas_st st \<and> emails_enviados st' = emails_enviados st"
  by (erule getComensales_cases) simp_all

lemma getMesas_cases:
  assumes "getMesas st = (ms, st')"
  obtains "mesas_st st = Some ms" and "st' = st"
    | "mesas_st st = None" and "ms = generarMesas" and "st' = st\<lparr>mesas_st := Some generarMesas\<rparr>"
  using assms by (cases "mesas_st st") (auto simp: getMesas_def)

lemma getMesas_frame:
  "getMesas st = (ms, st') \<Longrightarrow>
     comensales_st st' = comensales_st st \<and> emails_enviados st' = emails_enviados st \<and> mesas_st st' = Some ms"
  by (erule getMesas_cases) simp_all

lemma getMesas_same: "mesas_st st' = mesas_st st \<Longrightarrow> fst (getMesas st') = fst (getMesas st)"
  by (simp add: getMesas_def split: option.splits)

lemma buscarComensal_eq:
  "getComensales clk st = (cs, st') \<Longrightarrow>
     buscarComensal clk n e st = (find (coincide (normalizarTexto n) (normalizarTexto e)) cs, st')"
  by (simp add: buscarComensal_def)

lemma getCompanerosMesa_eq:
  "getComensales clk st = (cs, st') \<Longrightarrow>
     getCompanerosMesa clk m i st = (filter (\<lambda>c. mesa_id c = Some m \<and> id_comensal c \<noteq> i) cs, st')"
  by (simp add: getCompanerosMesa_def)

lemma ejecutarSorteo_eq:
  assumes "getComensales clk st = (cs, st1)" and "getMesas st1 = (ms, st2)"
  shows "ejecutarSorteo rnd clk st =
     (case realizarSorteo rnd cs ms of Inl e \<Rightarrow> (Inl e, st2) | Inr rs \<Rightarrow> (Inr rs, st2\<lparr>comensales_st := Some rs\<rparr>))"
  using assms by (simp add: ejecutarSorteo_def)

lemma ejecutarSorteo_frame:
  assumes "ejecutarSorteo rnd clk st = (r, st')"
  shows "emails_enviados st' = emails_enviados st \<and> mesas_st st' = Some (fst (getMesas st))"
proof -
  obtain cs st1 where g: "getComensales clk st = (cs, st1)" by (cases "getComensales clk st")
  obtain ms st2 where m: "getMesas st1 = (ms, st2)" by (cases "getMesas st1")
  have "fst (getMesas st1) = fst (getMesas st)"
    by (rule getMesas_same [OF conjunct1 [OF getComensales_frame [OF g]]])
  then show ?thesis
    using assms ejecutarSorteo_eq [OF g m] getComensales_frame [OF g] getMesas_frame [OF m] m
    by (auto split: sum.splits)
qed

lemma paso_directorio_ledger: "emails_enviados st \<subseteq> emails_enviados (paso_directorio clk op st)"
proof (cases op)
  case OpGetComensales then show ?thesis
    using getComensales_frame by (cases "getComensales clk st") auto
next
  case OpGetMesas then show ?thesis
    using getMesas_frame by (cases "getMesas st") auto
next
  case (OpEjecutarSorteo rnd) then show ?thesis
    using ejecutarSorteo_frame by (cases "ejecutarSorteo rnd clk st") auto
next
  case (OpBuscarComensal n e) then show ?thesis
    using getComensales_frame
    by (cases "getComensales clk st") (auto simp: buscarComensal_eq)
next
  case (OpGetCompanerosMesa m i) then show ?thesis
    using getComensales_frame
    by (cases "getComensales clk st") (auto simp: getCompanerosMesa_eq)
qed (auto simp: marcarEmailEnviado_def)

subsection \<open>Well-formedness is kept\<close>

lemma capacidades_positivas_generarMesas: "capacidades_positivas generarMesas"
  using generarMesas_capacidad by (simp add: capacidades_positivas_def)

lemma generarComensales_asiento_valido: "list_all (asiento_valido ms) (generarComensales clk)"
  using generarComensales_unseated by (simp add: list_all_iff asiento_valido_def)

lemma realizarSorteo_asiento_valido:
  assumes "capacidades_positivas ms" and "realizarSorteo rnd cs ms = Inr rs"
  shows "list_all (asiento_valido ms) rs"
  unfolding list_all_iff
proof
  fix c assume "c \<in> set rs"
  from realizarSorteo_seat_in_plazas [OF assms this] obtain p where
    p: "p \<in> set (plazas ms)" and "mesa_id c = Some (fst p)" and "asiento c = Some (snd p)" by blast
  then show "asiento_valido ms c" by (auto simp: asiento_valido_def list_ex_iff set_plazas)
qed

lemma directorio_wf_inicial: "directorio_wf directorio_inicial"
  by (simp add: directorio_wf_def directorio_inicial_def)

lemma getComensales_wf:
  assumes "directorio_wf st" and "getComensales clk st = (cs, st')"
  shows "directorio_wf st' \<and> list_all (asiento_valido generarMesas) cs"
  using assms(2)
proof (cases rule: getComensales_cases)
  case 1 then show ?thesis using assms(1) by (simp add: directorio_wf_def)
next
  case 2 then show ?thesis using assms(1) generarComensales_asiento_valido
    by (simp add: directorio_wf_def)
qed

lemma getMesas_wf:
  assumes "directorio_wf st" and "getMesas st = (ms, st')"
  shows "directorio_wf st' \<and> ms = generarMesas"
  using assms(2)
proof (cases rule: getMesas_cases)
  case 1 then show ?thesis using assms(1) by (simp add: directorio_wf_def)
next
  case 2 then show ?thesis using assms(1) by (simp add: directorio_wf_def)
qed

lemma ejecutarSorteo_wf:
  assumes "directorio_wf st" and "ejecutarSorteo rnd clk st = (r, st')"
  shows "directorio_wf st'"
proof -
  obtain cs st1 where g: "getComensales clk st = (cs, st1)" by (cases "getComensales clk st")
  obtain ms st2 where m: "getMesas st1 = (ms, st2)" by (cases "getMesas st1")
  have w1: "directorio_wf st1" using getComensales_wf [OF assms(1) g] by simp
  have w2: "directorio_wf st2" and ms: "ms = generarMesas" using getMesas_wf [OF w1 m] by simp_all
  show ?thesis
  proof (cases "realizarSorteo rnd cs ms")
    case (Inl e)
    then show ?thesis using assms(2) w2 by (simp add: ejecutarSorteo_eq [OF g m])
  next
    case (Inr rs)
    have "list_all (asiento_valido generarMesas) rs"
      using realizarSorteo_asiento_valido [OF capacidades_positivas_generarMesas] Inr ms by simp
    moreover have "st' = st2\<lparr>comensales_st := Some rs\<rparr>"
      using assms(2) Inr by (simp add: ejecutarSorteo_eq [OF g m])
    ultimately show ?thesis using w2 by (simp add: directorio_wf_def)
  qed
qed

lemma paso_directorio_wf: "directorio_wf st \<Longrightarrow> directorio_wf (paso_directorio clk op st)"
proof (cases op)
  case OpGetComensales then show "directorio_wf st \<Longrightarrow> ?thesis"
    using getComensales_wf by (cases "getComensales clk st") auto
next
  case OpGetMesas then show "directorio_wf st \<Longrightarrow> ?thesis"
    using getMesas_wf by (cases "getMesas st") auto
next
  case (OpEjecutarSorteo rnd) then show "directorio_wf st \<Longrightarrow> ?thesis"
    using ejecutarSorteo_wf by (cases "ejecutarSorteo rnd clk st") auto
next
  case (OpBuscarComensal n e) then show "directorio_wf st \<Longrightarrow> ?thesis"
    using getComensales_wf by (cases "getComensales clk st") (auto simp: buscarComensal_eq)
next
  case (OpGetCompanerosMesa m i) then show "directorio_wf st \<Longrightarrow> ?thesis"
    using getComensales_wf by (cases "getComensales clk st") (auto simp: getCompanerosMesa_eq)
next
  case (OpMarcarEmailEnviado e) then show "directorio_wf st \<Longrightarrow> ?thesis"
    by (simp add: directorio_wf_def marcarEmailEnviado_def)
qed simp

lemma ejecutar_ops_wf: "directorio_wf st \<Longrightarrow> directorio_wf (ejecutar_ops clk ops st)"
  by (induction ops arbitrary: st) (simp_all add: ejecutar_ops_def paso_directorio_wf)

subsection \<open>Search facts\<close>

lemma buscarComensal_normalizado:
  assumes "normalizarTexto n1 = normalizarTexto n2" and "normalizarTexto e1 = normalizarTexto e2"
  shows "buscarComensal clk n1 e1 st = buscarComensal clk n2 e2 st"
  using assms by (simp add: buscarComensal_def)

lemma coincide_self: "coincide (normalizarTexto (nombre c)) (normalizarTexto (email c)) c"
  by (simp add: coincide_def js_includes_sublist)

lemma find_coincide_unique:
  assumes "distinct (map email cs)" and "list_all (\<lambda>c. normalizarTexto (email c) = email c) cs"
    and "c \<in> set cs"
  shows "find (coincide (normalizarTexto (nombre c)) (normalizarTexto (email c))) cs = Some c"
proof (rule find_unique [OF assms(3) coincide_self])
  have norm: "\<forall>y\<in>set cs. normalizarTexto (email y) = email y" using assms(2) by (simp add: list_all_iff)
  have inj: "inj_on email (set cs)" using assms(1) by (simp add: distinct_map)
  show "\<forall>y\<in>set cs. coincide (normalizarTexto (nombre c)) (normalizarTexto (email c)) y \<longrightarrow> y = c"
  proof (intro ballI impI)
    fix y assume y: "y \<in> set cs" and "coincide (normalizarTexto (nombre c)) (normalizarTexto (email c)) y"
    then have "normalizarTexto (email y) = normalizarTexto (email c)" by (simp add: coincide_def)
    then have "email y = email c" using norm y assms(3) by simp
    with inj y assms(3) show "y = c" by (blast dest: inj_onD)
  qed
qed

subsection \<open>Properties of the Directory Store\<close>

text \<open>The collection is memoised: once \<open>getComensales\<close> has
  returned a list, later calls return the same list and leave the store
  alone, whatever the clock reads by then.\<close>

lemma getComensales_memoised:
  assumes "getComensales clk st = (cs, st')"
  shows "getComensales clk' st' = (cs, st')"
  using getComensales_stores [OF assms] by (rule getComensales_Some)

lemma getComensales_memoised_witness:
  "getComensales (\<lambda>_. []) directorio_inicial = (generarComensales (\<lambda>_. []), directorio_inicial\<lparr>comensales_st := Some (generarComensales (\<lambda>_. []))\<rparr>) \<and>
   getComensales (\<lambda>_. [1]) (directorio_inicial\<lparr>comensales_st := Some (generarComensales (\<lambda>_. []))\<rparr>)
     = (generarComensales (\<lambda>_. []), directorio_inicial\<lparr>comensales_st := Some (generarComensales (\<lambda>_. []))\<rparr>)"
proof -
  have g: "getComensales (\<lambda>_. []) directorio_inicial = (generarComensales (\<lambda>_. []), directorio_inicial\<lparr>comensales_st := Some (generarComensales (\<lambda>_. []))\<rparr>)"
    by (simp add: getComensales_None directorio_inicial_def)
  show ?thesis using g getComensales_memoised [OF g, of "\<lambda>_. [1]"] by simp
qed

text \<open>C14 (roundtrip). The ledger is case-insensitive: after
  \<open>marcarEmailEnviado e'\<close>, \<open>yaSeEnvioEmail e\<close> holds exactly when \<open>e\<close> and
  \<open>e'\<close> agree up to \<open>toLowerCase\<close>, or \<open>e\<close> was already marked.\<close>

theorem ledger_roundtrip:
  "yaSeEnvioEmail e (marcarEmailEnviado e' st) \<longleftrightarrow>
     js_toLowerCase e = js_toLowerCase e' \<or> yaSeEnvioEmail e st"
  by (auto simp: yaSeEnvioEmail_def marcarEmailEnviado_def)

text \<open>The ledger grows monotonically: no sequence of store
  operations removes an address from it.\<close>

lemma ledger_monotone: "emails_enviados st \<subseteq> emails_enviados (ejecutar_ops clk ops st)"
proof (induction ops arbitrary: st)
  case Nil then show ?case by (simp add: ejecutar_ops_def)
next
  case (Cons op ops)
  have "emails_enviados st \<subseteq> emails_enviados (paso_directorio clk op st)" by (rule paso_directorio_ledger)
  also have "\<dots> \<subseteq> emails_enviados (ejecutar_ops clk ops (paso_directorio clk op st))" by (rule Cons.IH)
  finally show ?case by (simp add: ejecutar_ops_def)
qed

text \<open>C15 (type). Every store reachable from the initial one by any sequence
  of store operations is well formed: the stored tables are the generated
  ones, every stored attendee has table and seat both null or both set with
  the seat between 1 and its table's capacity, and the ledger holds lower-case
  addresses only.\<close>

theorem directorio_wf_reachable: "directorio_wf (ejecutar_ops clk ops directorio_inicial)"
  using directorio_wf_inicial by (rule ejecutar_ops_wf)

theorem directorio_wf_reachable_witness:
  "directorio_wf (ejecutar_ops (\<lambda>_. []) [OpGetMesas, OpMarcarEmailEnviado (js_lit ''A'')] directorio_inicial)"
  by (rule directorio_wf_reachable)

text \<open>The normalisation example of the spec: searching for
  "Jos\<acute>e" with \<open>maria.garcia1@email.com\<close> gives the same answer as
  searching for "jose" with \<open>MARIA.GARCIA1@EMAIL.COM\<close>, in every store.\<close>

theorem buscarComensal_normalisation_example:
  "buscarComensal clk (js_lit ''Jos'' @ [e_acute]) (js_lit ''maria.garcia1@email.com'') st =
   buscarComensal clk (js_lit ''jose'') (js_lit ''MARIA.GARCIA1@EMAIL.COM'') st"
proof (rule buscarComensal_normalizado)
  show "normalizarTexto (js_lit ''Jos'' @ [e_acute]) = normalizarTexto (js_lit ''jose'')"
    by (simp add: normalizar_eval nfd_char_e_acute)
  show "normalizarTexto (js_lit ''maria.garcia1@email.com'') = normalizarTexto (js_lit ''MARIA.GARCIA1@EMAIL.COM'')"
    by (simp add: normalizar_eval)
qed

text \<open>C16 (safety). Search is sound: a found attendee belongs to the current
  collection, its normalised email equals the normalised query email, and the
  normalised query name is a substring of its normalised full name, first
  name or surname. A record whose email differs is never returned.\<close>

theorem buscarComensal_sound:
  assumes "buscarComensal clk n e st = (Some c, st')"
  shows "c \<in> set (fst (getComensales clk st)) \<and> normalizarTexto (email c) = normalizarTexto e \<and>
    (sublist (normalizarTexto n) (normalizarTexto (nombre c @ js_lit '' '' @ apellido c)) \<or>
     sublist (normalizarTexto n) (normalizarTexto (nombre c)) \<or>
     sublist (normalizarTexto n) (normalizarTexto (apellido c)))"
proof -
  obtain cs st1 where g: "getComensales clk st = (cs, st1)" by (cases "getComensales clk st")
  have "find (coincide (normalizarTexto n) (normalizarTexto e)) cs = Some c"
    using assms by (simp add: buscarComensal_eq [OF g])
  then have "c \<in> set cs \<and> coincide (normalizarTexto n) (normalizarTexto e) c" by (rule find_SomeD)
  then show ?thesis using g by (simp add: coincide_def js_includes_sublist)
qed

lemma buscar_ana: "buscarComensal clk (js_lit ''an'') (js_lit ''ANA.GIL1@email.com'') directorio_demo
    = (Some comensal_ana, directorio_demo)"
proof -
  have "coincide (normalizarTexto (js_lit ''an'')) (normalizarTexto (js_lit ''ANA.GIL1@email.com'')) comensal_ana"
    by (simp add: coincide_def comensal_ana_def normalizar_eval)
  then show ?thesis by (simp add: buscarComensal_def directorio_demo_def directorio_inicial_def)
qed

theorem buscarComensal_sound_witness:
  "buscarComensal (\<lambda>_. []) (js_lit ''an'') (js_lit ''ANA.GIL1@email.com'') directorio_demo
     = (Some comensal_ana, directorio_demo) \<and>
   normalizarTexto (email comensal_ana) = normalizarTexto (js_lit ''ANA.GIL1@email.com'')"
  using buscar_ana buscarComensal_sound [OF buscar_ana [of "\<lambda>_. []"]] by simp

text \<open>C17 (functional). Search is complete on a collection with distinct
  emails already in normal form (the generated one and every draw of it):
  each attendee searching with their own name and email finds their own
  record, and the store is unchanged.\<close>

theorem buscarComensal_complete:
  assumes "comensales_st st = Some cs" and "distinct (map email cs)"
    and "list_all (\<lambda>c. normalizarTexto (email c) = email c) cs" and "c \<in> set cs"
  shows "buscarComensal clk (nombre c) (email c) st = (Some c, st)"
  using find_coincide_unique [OF assms(2-4)] by (simp add: buscarComensal_eq [OF getComensales_Some [OF assms(1)]])

theorem buscarComensal_complete_witness:
  "buscarComensal (\<lambda>_. []) (js_lit ''Ana'') (js_lit ''ana.gil1@email.com'') directorio_demo
     = (Some comensal_ana, directorio_demo)"
proof -
  have st: "comensales_st directorio_demo = Some [comensal_ana]"
    by (simp add: directorio_demo_def directorio_inicial_def)
  have n: "list_all (\<lambda>c. normalizarTexto (email c) = email c) [comensal_ana]"
    by (simp add: comensal_ana_def normalizar_eval)
  have "buscarComensal (\<lambda>_. []) (nombre comensal_ana) (email comensal_ana) directorio_demo
     = (Some comensal_ana, directorio_demo)"
    by (rule buscarComensal_complete [OF st _ n]) simp_all
  then show ?thesis by (simp add: comensal_ana_def)
qed

text \<open>C18 (error). \<open>ejecutarSorteo\<close> leaves the ledger alone and memoises the
  tables. A successful draw stores its result as the collection; a draw that
  throws stores nothing new, so the collection stays the one read before the
  draw (generated now if it was still null).\<close>

theorem ejecutarSorteo_outcome:
  assumes "ejecutarSorteo rnd clk st = (r, st')"
  shows "emails_enviados st' = emails_enviados st \<and> mesas_st st' = Some (fst (getMesas st)) \<and>
    realizarSorteo rnd (fst (getComensales clk st)) (fst (getMesas st)) = r \<and>
    comensales_st st' = Some (case r of Inl e \<Rightarrow> fst (getComensales clk st) | Inr rs \<Rightarrow> rs)"
proof -
  obtain cs st1 where g: "getComensales clk st = (cs, st1)" by (cases "getComensales clk st")
  obtain ms st2 where m: "getMesas st1 = (ms, st2)" by (cases "getMesas st1")
  have ms: "fst (getMesas st) = ms"
    using getMesas_same [OF conjunct1 [OF getComensales_frame [OF g]]] m by simp
  have c2: "comensales_st st2 = Some cs"
    using getMesas_frame [OF m] getComensales_stores [OF g] by simp
  have "realizarSorteo rnd cs ms = r \<and> comensales_st st' = Some (case r of Inl e \<Rightarrow> cs | Inr rs \<Rightarrow> rs)"
    using assms c2 by (auto simp: ejecutarSorteo_eq [OF g m] split: sum.splits)
  moreover have "fst (getComensales clk st) = cs" using g by simp
  ultimately show ?thesis using ejecutarSorteo_frame [OF assms] ms by (simp split: sum.splits)
qed

theorem ejecutarSorteo_outcome_witness:
  "ejecutarSorteo (\<lambda>_. 0) (\<lambda>_. []) (directorio_demo\<lparr>mesas_st := Some [mesa_demo 1 1]\<rparr>)
     = (Inr [sentar comensal_ana (1, 1)],
        directorio_demo\<lparr>mesas_st := Some [mesa_demo 1 1], comensales_st := Some [sentar comensal_ana (1, 1)]\<rparr>) \<and>
   comensales_st (directorio_demo\<lparr>mesas_st := Some [mesa_demo 1 1], comensales_st := Some [sentar comensal_ana (1, 1)]\<rparr>)
     = Some [sentar comensal_ana (1, 1)]"
proof -
  have run: "ejecutarSorteo (\<lambda>_. 0) (\<lambda>_. []) (directorio_demo\<lparr>mesas_st := Some [mesa_demo 1 1]\<rparr>)
     = (Inr [sentar comensal_ana (1, 1)],
        directorio_demo\<lparr>mesas_st := Some [mesa_demo 1 1], comensales_st := Some [sentar comensal_ana (1, 1)]\<rparr>)"
    by (simp add: ejecutarSorteo_def getComensales_def getMesas_def directorio_demo_def directorio_inicial_def
        realizarSorteo_def mezclar_def mesa_demo_def sentar_def)
  show ?thesis using run ejecutarSorteo_outcome [OF run] by simp
qed

end
