(* ===== verification/Croquis.thy ===== *)
theory Croquis
  imports Catalog
begin

text \<open>
  The ASCII room diagram that the three email routes build
  (\<open>src/src/app/api/buscar/route.ts\<close> lines 94 to 113, and the same loops in
  \<open>enviar-email/route.ts\<close> and \<open>enviar-emails-masivo/route.ts\<close>): a header,
  \<open>filas\<close> rows of \<open>columnas\<close> cells numbered row by row from 1, the cell of
  the attendee's table in brackets, and a footer. The string builtins it uses
  are \<open>padStart\<close> with a one-character filler and \<open>repeat\<close>. The character
  U+2550 (double horizontal line) is 0x2550 and the arrow U+2191 is 0x2191.
\<close>

definition js_padStart :: "jstr \<Rightarrow> nat \<Rightarrow> nat \<Rightarrow> jstr" where
  "js_padStart s n relleno = replicate (n - length s) relleno @ s"

definition js_repeat :: "jstr \<Rightarrow> nat \<Rightarrow> jstr" where
  "js_repeat s n = concat (replicate n s)"

text \<open>One cell: \<open>[NN]\<close> for the attendee's table, \<open> NN \<close> otherwise.\<close>

definition celda_croquis :: "nat \<Rightarrow> nat \<Rightarrow> jstr" where
  "celda_croquis mesaNumero numMesa =
     (let t = js_padStart (js_nat_str numMesa) 2 48
      in if numMesa = mesaNumero then js_lit ''['' @ t @ js_lit '']'' else js_lit '' '' @ t @ js_lit '' '')"

text \<open>The inner loop \<open>for (let c = 0; c < columnas; c++)\<close> appending to \<open>fila\<close>.\<close>

definition fila_croquis :: "nat \<Rightarrow> nat \<Rightarrow> nat \<Rightarrow> jstr" where
  "fila_croquis columnas mesaNumero f =
     foldl (\<lambda>fila c. fila @ celda_croquis mesaNumero (f * columnas + c + 1)) [] [0..<columnas]"

text \<open>The whole diagram: the header, the outer loop over the rows appending
  each row and a newline, and the footer.\<close>

definition croquis_sala :: "nat \<Rightarrow> nat \<Rightarrow> nat \<Rightarrow> jstr" where
  "croquis_sala filas columnas mesaNumero =
     (let cabecera = js_lit ''ESCENARIO'' @ [10] @ js_repeat [0x2550] (columnas * 4) @ [10, 10];
          cuerpo = foldl (\<lambda>croquis f. croquis @ fila_croquis columnas mesaNumero f @ [10]) cabecera [0..<filas]
      in cuerpo @ [10] @ js_repeat [0x2550] (columnas * 4) @ [10] @ js_lit ''         '' @ [0x2191]
           @ js_lit '' ENTRADA'')"

subsection \<open>Facts on the diagram\<close>

lemma fila_croquis_concat:
  "fila_croquis columnas mesaNumero =
     (\<lambda>f. concat (map (\<lambda>c. celda_croquis mesaNumero (f * columnas + c + 1)) [0..<columnas]))"
  by (rule ext) (simp add: fila_croquis_def foldl_append_concat)

lemma js_nat_str_no_bracket: "count_list (js_nat_str n) 91 = 0"
proof -
  have "\<forall>c\<in>set (js_nat_str n). c \<noteq> 91" using js_nat_str_digits [of n] by (auto simp: is_digit_def)
  then have "91 \<notin> set (js_nat_str n)" by blast
  then show ?thesis by (simp add: count_list_0_iff)
qed

lemma count_celda_croquis: "count_list (celda_croquis mesaNumero k) 91 = (if k = mesaNumero then 1 else 0)"
  by (simp add: celda_croquis_def js_padStart_def js_nat_str_no_bracket Let_def)

lemma count_list_concat: "count_list (concat xss) x = sum_list (map (\<lambda>xs. count_list xs x) xss)"
  by (induction xss) simp_all

lemma count_js_repeat_bar: "count_list (js_repeat [0x2550] n) 91 = 0"
  by (simp add: js_repeat_def count_list_concat)

lemma croquis_sala_cells:
  "croquis_sala filas columnas mesaNumero =
     js_lit ''ESCENARIO'' @ [10] @ js_repeat [0x2550] (columnas * 4) @ [10, 10] @
     concat (map (\<lambda>f. fila_croquis columnas mesaNumero f @ [10]) [0..<filas]) @
     [10] @ js_repeat [0x2550] (columnas * 4) @ [10] @ js_lit ''         '' @ [0x2191] @ js_lit '' ENTRADA''"
  by (simp add: croquis_sala_def foldl_append_concat Let_def)

lemma count_rows:
  "count_list (concat (map (\<lambda>f. fila_croquis columnas mesaNumero f @ [10]) [0..<filas])) 91
     = count_list (concat (map (celda_croquis mesaNumero) [1..<filas * columnas + 1])) 91"
proof -
  have "count_list (concat (map (\<lambda>f. fila_croquis columnas mesaNumero f @ [10]) [0..<filas])) 91
      = count_list (concat (map (fila_croquis columnas mesaNumero) [0..<filas])) 91"
    by (induction filas) simp_all
  also have "concat (map (fila_croquis columnas mesaNumero) [0..<filas])
      = concat (map (celda_croquis mesaNumero) [1..<filas * columnas + 1])"
    by (simp only: fila_croquis_concat concat_map_grid)
  finally show ?thesis .
qed

lemma count_cells: "count_list (concat (map (celda_croquis mesaNumero) [a..<b])) 91 = (if a \<le> mesaNumero \<and> mesaNumero < b then 1 else 0)"
proof (induction b)
  case 0 then show ?case by simp
next
  case (Suc b) then show ?case by (auto simp: count_celda_croquis)
qed

lemma length_js_nat_str_small: "k < 100 \<Longrightarrow> length (js_nat_str k) = (if k < 10 then 1 else 2)"
  by (subst js_nat_str.simps, subst js_nat_str.simps) simp

lemma length_celda_croquis: "k < 100 \<Longrightarrow> length (celda_croquis mesaNumero k) = 4"
  by (simp add: celda_croquis_def js_padStart_def length_js_nat_str_small Let_def)

lemma take_drop_concat_blocks:
  assumes "\<forall>x\<in>set xs. length (g x) = k" and "c < length xs"
  shows "take k (drop (k * c) (concat (map g xs))) = g (xs ! c)"
  using assms
proof (induction xs arbitrary: c)
  case Nil then show ?case by simp
next
  case (Cons x xs)
  show ?case
  proof (cases c)
    case 0 then show ?thesis using Cons.prems by simp
  next
    case (Suc c')
    have "drop (k * c) (concat (map g (x # xs))) = drop (k * c') (concat (map g xs))"
      using Cons.prems(1) Suc by simp
    then show ?thesis using Cons.IH [of c'] Cons.prems Suc by simp
  qed
qed

subsection \<open>Properties of the diagram\<close>

text \<open>C23 (functional). The diagram brackets exactly one cell when the table
  number lies on the grid (1 to \<open>filas * columnas\<close>) and none otherwise: no
  other character of the diagram is a \<open>[\<close>.\<close>

theorem croquis_marks_once:
  "count_list (croquis_sala filas columnas n) 91 = (if 1 \<le> n \<and> n \<le> filas * columnas then 1 else 0)"
proof -
  have "count_list (croquis_sala filas columnas n) 91
      = count_list (concat (map (celda_croquis n) [1..<filas * columnas + 1])) 91"
    by (simp add: croquis_sala_cells count_rows count_js_repeat_bar del: upt_Suc)
  also have "\<dots> = (if 1 \<le> n \<and> n \<le> filas * columnas then 1 else 0)"
    by (simp only: count_cells) simp
  finally show ?thesis .
qed

text \<open>While every table number of a row is below 100, the row
  is exactly four characters per column wide.\<close>

lemma croquis_row_width:
  assumes "f * columnas + columnas < 100"
  shows "length (fila_croquis columnas n f) = 4 * columnas"
proof -
  have "\<forall>c\<in>set [0..<columnas]. length (celda_croquis n (f * columnas + c + 1)) = 4"
    using assms by (auto intro: length_celda_croquis)
  then have eq: "map (\<lambda>c. length (celda_croquis n (f * columnas + c + 1))) [0..<columnas]
      = map (\<lambda>c. 4) [0..<columnas]" by (intro map_cong) simp_all
  have "length (fila_croquis columnas n f)
      = sum_list (map (\<lambda>c. length (celda_croquis n (f * columnas + c + 1))) [0..<columnas])"
    by (simp add: fila_croquis_concat length_concat comp_def)
  also have "\<dots> = sum_list (map (\<lambda>c. 4) [0..<columnas])" by (simp only: eq)
  finally show ?thesis by (simp add: sum_list_triv)
qed

lemma croquis_row_width_witness: "4 * 8 + 8 < (100::nat) \<and> length (fila_croquis 8 12 4) = 32"
  using croquis_row_width [of 4 8 12] by simp

text \<open>C24 (functional). The diagram agrees with the table layout of
  \<open>generarMesas\<close>: for each generated table, the bracketed cell of its
  diagram is in the row \<open>posicion_y\<close> and the column \<open>posicion_x\<close> of the
  table.\<close>

theorem croquis_matches_layout:
  assumes "m \<in> set generarMesas"
  shows "take 4 (drop (4 * (posicion_x m - 1)) (fila_croquis 8 (numero m) (posicion_y m - 1)))
    = js_lit ''['' @ js_padStart (js_nat_str (numero m)) 2 48 @ js_lit '']''"
proof -
  obtain i where i: "1 \<le> i" "i < 41" and m: "m = nueva_mesa i"
    using assms by (auto simp: generarMesas_eq)
  let ?f = "(i - 1) div 8" and ?c = "(i - 1) mod 8"
  have pos: "posicion_x m - 1 = ?c" "posicion_y m - 1 = ?f" "numero m = i"
    using m by (simp_all add: nueva_mesa_def)
  have f5: "?f * 8 + 8 < 100" using i by simp
  have len: "\<forall>c\<in>set [0..<8]. length (celda_croquis i (?f * 8 + c + 1)) = 4"
    using f5 by (auto intro: length_celda_croquis)
  have idx: "?f * 8 + ?c + 1 = i" using i by simp
  have "take 4 (drop (4 * ?c) (fila_croquis 8 i ?f)) = celda_croquis i (?f * 8 + [0..<8] ! ?c + 1)"
    using take_drop_concat_blocks [OF len, of ?c] by (simp add: fila_croquis_concat)
  also have "\<dots> = celda_croquis i i" using idx by simp
  finally show ?thesis using pos by (simp add: celda_croquis_def)
qed

theorem croquis_matches_layout_witness:
  "nueva_mesa 12 \<in> set generarMesas \<and>
   take 4 (drop (4 * (posicion_x (nueva_mesa 12) - 1)) (fila_croquis 8 12 (posicion_y (nueva_mesa 12) - 1)))
     = js_lit ''[12]''"
proof -
  have m: "nueva_mesa 12 \<in> set generarMesas" by (simp add: generarMesas_eq)
  have "js_padStart (js_nat_str 12) 2 48 = js_lit ''12''"
    by (simp add: js_padStart_def js_nat_str.simps)
  then show ?thesis using m croquis_matches_layout [OF m] by (simp add: nueva_mesa_def)
qed

end
