(* ===== verification/Notificacion.thy ===== *)
theory Notificacion
  imports Directory Croquis
begin

text \<open>
  The email notification shared by the routes: the environment they read
  (\<open>process.env.RESEND_API_KEY\<close> and the Resend client), the message they hand
  to \<open>resend.emails.send\<close>, the seat-sorted tablemate list and the HTML
  template of \<open>enviarEmailComensal\<close> in \<open>src/src/app/api/buscar/route.ts\<close>.
  The Resend service is an oracle \<open>despachador\<close> from the message to its
  outcome: \<open>{ error: null }\<close>, \<open>{ error }\<close>, or a thrown exception. The HTML
  template is the sequence of its interpolated values, in template order, with
  each stretch of constant markup between two values named by its position.
\<close>

datatype resultado_envio = EnvioOk | EnvioError jstr | EnvioExcepcion jstr

text \<open>The three templates of the code; a stretch of markup is named by its
  template and its position in it.\<close>

datatype plantilla = PlantillaBuscar | PlantillaEnviarEmail | PlantillaMasivo

datatype html_parte = Marcado plantilla nat | Texto jstr

type_synonym html_doc = "html_parte list"

record correo =
  remitente :: jstr
  destinatario :: jstr
  asunto :: jstr
  cuerpo_html :: html_doc

record entorno =
  resend_api_key :: "jstr option"
  despachador :: "correo \<Rightarrow> resultado_envio"

text \<open>\<open>!process.env.RESEND_API_KEY\<close> is false for an unset and for an empty variable.\<close>

definition api_key_presente :: "entorno \<Rightarrow> bool" where
  "api_key_presente env \<longleftrightarrow> (case resend_api_key env of None \<Rightarrow> False | Some k \<Rightarrow> k \<noteq> [])"

subsection \<open>Tablemates in seat order\<close>

text \<open>The comparator \<open>(a.asiento || 0) - (b.asiento || 0)\<close>: a null seat (and
  seat 0) sorts as 0. \<open>Array.prototype.sort\<close> is stable, so sorting with this
  comparator is the stable sort on the key.\<close>

definition clave_asiento :: "comensal \<Rightarrow> nat" where
  "clave_asiento c = (case asiento c of None \<Rightarrow> 0 | Some s \<Rightarrow> s)"

definition ordenar_companeros :: "comensal list \<Rightarrow> comensal list" where
  "ordenar_companeros cs = sort_key clave_asiento cs"

text \<open>\<open>${c.asiento}\<close> prints \<open>null\<close> for a null seat.\<close>

definition js_valor_asiento :: "nat option \<Rightarrow> jstr" where
  "js_valor_asiento a = (case a of None \<Rightarrow> js_lit ''null'' | Some s \<Rightarrow> js_nat_str s)"

definition item_companero :: "comensal \<Rightarrow> jstr" where
  "item_companero c =
     js_lit ''<li><strong>'' @ nombre c @ js_lit '' '' @ apellido c @ js_lit ''</strong> - Asiento ''
       @ js_valor_asiento (asiento c) @ js_lit ''</li>''"

definition lista_companeros :: "comensal list \<Rightarrow> jstr" where
  "lista_companeros cs = concat (map item_companero (ordenar_companeros cs))"

subsection \<open>The message of the search route\<close>

definition plantilla_buscar :: "comensal \<Rightarrow> mesa \<Rightarrow> jstr \<Rightarrow> comensal list \<Rightarrow> html_doc" where
  "plantilla_buscar c m croquis companeros =
     [Marcado PlantillaBuscar 0, Texto (nombre c), Marcado PlantillaBuscar 1, Texto (apellido c), Marcado PlantillaBuscar 2,
      Texto (js_nat_str (numero m)), Marcado PlantillaBuscar 3, Texto (js_valor_asiento (asiento c)), Marcado PlantillaBuscar 4,
      Texto croquis, Marcado PlantillaBuscar 5, Texto (lista_companeros companeros), Marcado PlantillaBuscar 6]"

definition remitente_cena :: jstr where
  "remitente_cena = js_lit ''Cena de Gala <onboarding@resend.dev>''"

definition correo_buscar :: "comensal \<Rightarrow> mesa \<Rightarrow> comensal list \<Rightarrow> correo" where
  "correo_buscar c m companeros =
     \<lparr>remitente = remitente_cena, destinatario = email c,
      asunto = js_lit ''Tu ubicaci'' @ [0xF3] @ js_lit ''n: Mesa '' @ js_nat_str (numero m)
               @ js_lit '' - Asiento '' @ js_valor_asiento (asiento c),
      cuerpo_html = plantilla_buscar c m (croquis_sala 5 8 (numero m)) companeros\<rparr>"

text \<open>
  \<open>enviarEmailComensal\<close>: the simulated send without an API key, otherwise the
  message is built and sent, and the outcome is \<open>true\<close> only for
  \<open>{ error: null }\<close>. \<open>companeros.sort\<close> sorts the caller's array in place
  while the template is built, so the function also returns the array as the
  caller sees it afterwards, and the list of messages it handed to the
  dispatcher.
\<close>

definition enviarEmailComensal ::
  "entorno \<Rightarrow> comensal \<Rightarrow> mesa \<Rightarrow> comensal list \<Rightarrow> bool \<times> comensal list \<times> correo list" where
  "enviarEmailComensal env c m companeros =
     (if \<not> api_key_presente env then (True, companeros, [])
      else let msg = correo_buscar c m companeros
           in (despachador env msg = EnvioOk, ordenar_companeros companeros, [msg]))"

end
