(* ===== verification/Api_Envios.thy ===== *)
theory Api_Envios
  imports Notificacion
begin

text \<open>
  The remaining routes: \<open>POST /api/sorteo\<close> (\<open>src/src/app/api/sorteo/route.ts\<close>),
  \<open>POST /api/enviar-email\<close> (\<open>enviar-email/route.ts\<close>), and \<open>POST\<close> and \<open>GET\<close>
  of \<open>/api/enviar-emails-masivo\<close> (\<open>enviar-emails-masivo/route.ts\<close>) with the
  configuration \<open>CONFIG_CENA\<close> of \<open>src/config.ts\<close>. Readings of
  \<open>new Date().toISOString()\<close> are parameters, like the clock of the catalog.
  The pause \<open>setTimeout(resolve, 100)\<close> between two sends only delays the loop
  and is not modelled.
\<close>

subsection \<open>Configuration\<close>

record config_cena =
  fecha_cena :: jstr
  hora_envio :: jstr
  zona_horaria :: jstr
  cron_secret :: jstr

text \<open>\<open>process.env.X || "default"\<close>: an unset or empty variable gives the default.\<close>

definition env_o :: "jstr option \<Rightarrow> jstr \<Rightarrow> jstr" where
  "env_o v d = (case v of None \<Rightarrow> d | Some s \<Rightarrow> if s = [] then d else s)"

definition CONFIG_CENA :: "jstr option \<Rightarrow> jstr option \<Rightarrow> config_cena" where
  "CONFIG_CENA env_fecha env_secreto =
     \<lparr>fecha_cena = env_o env_fecha (js_lit ''2025-01-15''), hora_envio = js_lit ''21:00'',
      zona_horaria = js_lit ''Europe/Madrid'', cron_secret = env_o env_secreto (js_lit ''tu-clave-secreta-aqui'')\<rparr>"

subsection \<open>The draw route\<close>

datatype respuesta_sorteo = SorteoOk sorteo_result | SorteoError

definition sorteo_post :: "random_source \<Rightarrow> clock \<Rightarrow> directorio \<Rightarrow> respuesta_sorteo \<times> directorio" where
  "sorteo_post rnd clk st =
     (case ejecutarSorteo rnd clk st of
        (Inr rs, st') \<Rightarrow>
          (SorteoOk \<lparr>success = True, message = js_lit ''Sorteo realizado exitosamente'',
                     asignaciones = Some (length rs)\<rparr>, st')
      | (Inl e, st') \<Rightarrow> (SorteoError, st'))"

subsection \<open>Notify one\<close>

text \<open>\<open>listaCompaneros\<close> (lines 29 to 33): computed, never used; its \<open>sort\<close>
  orders the request's array in place.\<close>

definition lista_texto_companeros :: "comensal list \<Rightarrow> jstr" where
  "lista_texto_companeros cs =
     concat (map (\<lambda>c. [0x2022, 32] @ nombre c @ js_lit '' '' @ apellido c @ js_lit '' (Asiento ''
                        @ js_valor_asiento (asiento c) @ js_lit '')'') (ordenar_companeros cs))"

definition plantilla_enviar_email :: "comensal \<Rightarrow> mesa \<Rightarrow> jstr \<Rightarrow> comensal list \<Rightarrow> html_doc" where
  "plantilla_enviar_email c m croquis companeros =
     [Marcado PlantillaEnviarEmail 0, Texto (nombre c), Marcado PlantillaEnviarEmail 1, Texto (apellido c),
      Marcado PlantillaEnviarEmail 2, Texto (js_nat_str (numero m)), Marcado PlantillaEnviarEmail 3,
      Texto (js_valor_asiento (asiento c)), Marcado PlantillaEnviarEmail 4, Texto croquis,
      Marcado PlantillaEnviarEmail 5, Texto (lista_companeros companeros), Marcado PlantillaEnviarEmail 6]"

definition correo_enviar_email :: "comensal \<Rightarrow> mesa \<Rightarrow> comensal list \<Rightarrow> correo" where
  "correo_enviar_email c m companeros =
     \<lparr>remitente = remitente_cena, destinatario = email c,
      asunto = js_lit ''Tu ubicaci'' @ [0xF3] @ js_lit ''n: Mesa '' @ js_nat_str (numero m)
               @ js_lit '' - Asiento '' @ js_valor_asiento (asiento c),
      cuerpo_html = plantilla_enviar_email c m (croquis_sala 5 8 (numero m)) companeros\<rparr>"

datatype respuesta_enviar = EnviarIncompleto | EnviarSimulado | EnviarOk | EnviarFallo | EnviarInterno

text \<open>The body as the client sent it: \<open>None\<close> when it is not JSON; otherwise
  the fields \<open>comensal\<close>, \<open>mesa\<close> and \<open>companeros\<close>, each \<open>None\<close> when absent.
  Without the array, \<open>companeros.sort\<close> throws.\<close>

definition enviar_email_post ::
  "entorno \<Rightarrow> (comensal option \<times> mesa option \<times> comensal list option) option \<Rightarrow> respuesta_enviar \<times> correo list" where
  "enviar_email_post env cuerpo =
     (case cuerpo of
        None \<Rightarrow> (EnviarInterno, [])
      | Some (Some c, Some m, ocs) \<Rightarrow>
          if \<not> api_key_presente env then (EnviarSimulado, [])
          else (case ocs of
                  None \<Rightarrow> (EnviarInterno, [])
                | Some cs \<Rightarrow>
                    let lista = lista_texto_companeros cs;
                        msg = correo_enviar_email c m cs
                    in (case despachador env msg of
                          EnvioOk \<Rightarrow> (EnviarOk, [msg])
                        | EnvioError err \<Rightarrow> (EnviarFallo, [msg])
                        | EnvioExcepcion err \<Rightarrow> (EnviarInterno, [msg])))
      | Some _ \<Rightarrow> (EnviarIncompleto, []))"

subsection \<open>Notify all\<close>

definition plantilla_masivo :: "comensal \<Rightarrow> mesa \<Rightarrow> jstr \<Rightarrow> comensal list \<Rightarrow> html_doc" where
  "plantilla_masivo c m croquis companeros =
     [Marcado PlantillaMasivo 0, Texto (nombre c), Marcado PlantillaMasivo 1, Texto (apellido c),
      Marcado PlantillaMasivo 2, Texto (js_nat_str (numero m)), Marcado PlantillaMasivo 3,
      Texto (js_valor_asiento (asiento c)), Marcado PlantillaMasivo 4, Texto croquis,
      Marcado PlantillaMasivo 5, Texto (lista_companeros companeros), Marcado PlantillaMasivo 6]"

text \<open>The subject starts with the party popper U+1F389.\<close>

definition correo_masivo :: "comensal \<Rightarrow> mesa \<Rightarrow> comensal list \<Rightarrow> correo" where
  "correo_masivo c m companeros =
     \<lparr>remitente = remitente_cena, destinatario = email c,
      asunto = [0x1F389] @ js_lit '' Esta noche: Mesa '' @ js_nat_str (numero m)
               @ js_lit '' - Asiento '' @ js_valor_asiento (asiento c),
      cuerpo_html = plantilla_masivo c m (croquis_sala 5 8 (numero m)) companeros\<rparr>"

text \<open>The counters of the loop, the error list, the store and the messages sent.\<close>

record estado_masivo =
  exitosos :: nat
  fallidos :: nat
  errores :: "jstr list"
  almacen :: directorio
  enviados :: "correo list"

text \<open>\<open>${error.message || default}\<close>: an empty message gives the default.\<close>

definition mensaje_o :: "jstr \<Rightarrow> jstr \<Rightarrow> jstr" where
  "mensaje_o msg d = (if msg = [] then d else msg)"

text \<open>One iteration of \<open>for (const comensal of comensales)\<close> (lines 51 to 166):
  the skip of an attendee without table or seat (\<open>!mesa_id || !asiento\<close>,
  so 0 counts as missing), the skip of an unknown table, and the send whose
  error or exception is counted and recorded without leaving the loop.\<close>

definition masivo_paso ::
  "entorno \<Rightarrow> clock \<Rightarrow> mesa list \<Rightarrow> estado_masivo \<Rightarrow> comensal \<Rightarrow> estado_masivo" where
  "masivo_paso env clk ms e c =
     (if mesa_id c = None \<or> mesa_id c = Some 0 \<or> asiento c = None \<or> asiento c = Some 0
      then e\<lparr>fallidos := Suc (fallidos e)\<rparr>
      else
        let t = the (mesa_id c)
        in case find (\<lambda>m. id_mesa m = t) ms of
             None \<Rightarrow> e\<lparr>fallidos := Suc (fallidos e)\<rparr>
           | Some m \<Rightarrow>
               let (comps, st') = getCompanerosMesa clk t (id_comensal c) (almacen e);
                   msg = correo_masivo c m comps;
                   e' = e\<lparr>almacen := st', enviados := enviados e @ [msg]\<rparr>
               in case despachador env msg of
                    EnvioOk \<Rightarrow> e'\<lparr>exitosos := Suc (exitosos e)\<rparr>
                  | EnvioError err \<Rightarrow>
                      e'\<lparr>errores := errores e @ [email c @ js_lit '': '' @ mensaje_o err (js_lit ''Error desconocido'')],
                         fallidos := Suc (fallidos e)\<rparr>
                  | EnvioExcepcion err \<Rightarrow>
                      e'\<lparr>errores := errores e @ [email c @ js_lit '': '' @ mensaje_o err (js_lit ''Excepci'' @ [0xF3] @ js_lit ''n'')],
                         fallidos := Suc (fallidos e)\<rparr>)"

definition masivo_bucle ::
  "entorno \<Rightarrow> clock \<Rightarrow> mesa list \<Rightarrow> comensal list \<Rightarrow> estado_masivo \<Rightarrow> estado_masivo" where
  "masivo_bucle env clk ms cs e = foldl (masivo_paso env clk ms) e cs"

datatype respuesta_masivo =
    MasivoNoAutorizado
  | MasivoOtroDia jstr jstr
  | MasivoSimulado nat
  | MasivoOk nat nat nat "jstr list" jstr

text \<open>\<open>new Date().toISOString().split("T")[0]\<close>: the date part of a reading.\<close>

definition fecha_de :: "jstr \<Rightarrow> jstr" where
  "fecha_de lectura = takeWhile (\<lambda>ch. ch \<noteq> 84) lectura"

text \<open>\<open>POST\<close>: the shared-secret check on the \<open>authorization\<close> header (\<open>None\<close>
  when absent), the same-day check on the first clock reading \<open>ahora\<close>, the
  simulated run, and the loop; \<open>ahora_fin\<close> is the reading of \<open>fecha_envio\<close>.\<close>

definition masivo_post ::
  "entorno \<Rightarrow> config_cena \<Rightarrow> jstr option \<Rightarrow> jstr \<Rightarrow> jstr \<Rightarrow> clock \<Rightarrow> directorio \<Rightarrow>
     respuesta_masivo \<times> directorio \<times> correo list" where
  "masivo_post env cfg auth ahora ahora_fin clk st =
     (if auth \<noteq> Some (js_lit ''Bearer '' @ cron_secret cfg) then (MasivoNoAutorizado, st, [])
      else if fecha_de ahora \<noteq> fecha_cena cfg then (MasivoOtroDia (fecha_de ahora) (fecha_cena cfg), st, [])
      else if \<not> api_key_presente env then
        (let (cs, st1) = getComensales clk st in (MasivoSimulado (length cs), st1, []))
      else
        let (cs, st1) = getComensales clk st;
            (ms, st2) = getMesas st1;
            e = masivo_bucle env clk ms cs \<lparr>exitosos = 0, fallidos = 0, errores = [], almacen = st2, enviados = []\<rparr>
        in (MasivoOk (exitosos e) (fallidos e) (length cs) (take 10 (errores e)) ahora_fin, almacen e, enviados e))"

datatype respuesta_masivo_get = GetProhibido | GetEstado nat nat jstr jstr

definition masivo_get :: "jstr option \<Rightarrow> config_cena \<Rightarrow> clock \<Rightarrow> directorio \<Rightarrow> respuesta_masivo_get \<times> directorio" where
  "masivo_get node_env cfg clk st =
     (if node_env = Some (js_lit ''production'') then (GetProhibido, st)
      else let (cs, st1) = getComensales clk st;
               conMesa = filter (\<lambda>c. mesa_id c \<noteq> None) cs
           in (GetEstado (length cs) (length conMesa) (fecha_cena cfg) (hora_envio cfg), st1))"

subsection \<open>Sample data for the witnesses\<close>

definition entorno_rechaza :: entorno where
  "entorno_rechaza = \<lparr>resend_api_key = Some (js_lit ''re_123''), despachador = (\<lambda>_. EnvioError [])\<rparr>"

definition ana_mesa1 :: comensal where
  "ana_mesa1 = comensal_ana\<lparr>mesa_id := Some 1, asiento := Some 1\<rparr>"

definition directorio_uno :: directorio where
  "directorio_uno = \<lparr>comensales_st = Some [ana_mesa1], mesas_st = Some [mesa_demo 1 10], emails_enviados = {}\<rparr>"

definition directorio_dos :: directorio where
  "directorio_dos =
     \<lparr>comensales_st = Some [sentar (comensal_demo 1) (1, 1), sentar (comensal_demo 2) (2, 1)],
      mesas_st = Some [mesa_demo 1 1, mesa_demo 2 1], emails_enviados = {js_nat_str 1}\<rparr>"

subsection \<open>Facts on the batch loop\<close>

lemma masivo_paso_cuenta:
  "exitosos (masivo_paso env clk ms e c) + fallidos (masivo_paso env clk ms e c) = Suc (exitosos e + fallidos e) \<and>
   length (enviados (masivo_paso env clk ms e c)) + exitosos e + length (errores e)
     = length (enviados e) + exitosos (masivo_paso env clk ms e c) + length (errores (masivo_paso env clk ms e c)) \<and>
   length (errores (masivo_paso env clk ms e c)) + fallidos e \<le> length (errores e) + fallidos (masivo_paso env clk ms e c) \<and>
   length (enviados (masivo_paso env clk ms e c)) \<le> Suc (length (enviados e)) \<and>
   emails_enviados (almacen (masivo_paso env clk ms e c)) = emails_enviados (almacen e)"
  by (auto simp: masivo_paso_def getCompanerosMesa_def getComensales_def Let_def
      split: option.splits prod.splits resultado_envio.splits)

lemma masivo_bucle_cuenta:
  assumes "masivo_bucle env clk ms cs e = e'"
  shows "exitosos e' + fallidos e' = exitosos e + fallidos e + length cs \<and>
    length (enviados e') + exitosos e + length (errores e) = length (enviados e) + exitosos e' + length (errores e') \<and>
    length (errores e') + fallidos e \<le> length (errores e) + fallidos e' \<and>
    length (enviados e') \<le> length (enviados e) + length cs \<and>
    emails_enviados (almacen e') = emails_enviados (almacen e)"
  using assms
proof (induction cs arbitrary: e)
  case Nil then show ?case by (simp add: masivo_bucle_def)
next
  case (Cons c cs)
  let ?e1 = "masivo_paso env clk ms e c"
  have s: "masivo_bucle env clk ms cs ?e1 = e'" using Cons.prems by (simp add: masivo_bucle_def)
  from masivo_paso_cuenta [of env clk ms e c] Cons.IH [OF s] show ?case by simp
qed

text \<open>Neither the store operations the loop calls nor the loop read the
  ledger: running them on a store with another ledger gives the same results,
  with that ledger.\<close>

lemma getComensales_ledger:
  "getComensales clk (st\<lparr>emails_enviados := L\<rparr>) =
     (fst (getComensales clk st), (snd (getComensales clk st))\<lparr>emails_enviados := L\<rparr>)"
  by (simp add: getComensales_def Let_def split: option.splits)

lemma getMesas_ledger:
  "getMesas (st\<lparr>emails_enviados := L\<rparr>) = (fst (getMesas st), (snd (getMesas st))\<lparr>emails_enviados := L\<rparr>)"
  by (simp add: getMesas_def split: option.splits)

lemma getCompanerosMesa_ledger:
  "getCompanerosMesa clk t i (st\<lparr>emails_enviados := L\<rparr>) =
     (fst (getCompanerosMesa clk t i st), (snd (getCompanerosMesa clk t i st))\<lparr>emails_enviados := L\<rparr>)"
  by (simp add: getCompanerosMesa_def getComensales_ledger split: prod.splits)

lemma masivo_paso_ledger:
  "masivo_paso env clk ms (e\<lparr>almacen := (almacen e)\<lparr>emails_enviados := L\<rparr>\<rparr>) c =
     (masivo_paso env clk ms e c)\<lparr>almacen := (almacen (masivo_paso env clk ms e c))\<lparr>emails_enviados := L\<rparr>\<rparr>"
  by (simp add: masivo_paso_def getCompanerosMesa_ledger Let_def
      split: option.splits prod.splits resultado_envio.splits)

lemma masivo_bucle_ledger:
  "masivo_bucle env clk ms cs (e\<lparr>almacen := (almacen e)\<lparr>emails_enviados := L\<rparr>\<rparr>) =
     (masivo_bucle env clk ms cs e)\<lparr>almacen := (almacen (masivo_bucle env clk ms cs e))\<lparr>emails_enviados := L\<rparr>\<rparr>"
proof (induction cs arbitrary: e)
  case Nil then show ?case by (simp add: masivo_bucle_def)
next
  case (Cons c cs)
  show ?case
    using Cons.IH [of "masivo_paso env clk ms e c"] by (simp add: masivo_bucle_def masivo_paso_ledger)
qed

subsection \<open>Properties of the routes\<close>

text \<open>C25 (invariant). The batch loop accounts for every attendee: the counts
  of sent and failed add up to the number of attendees, a failed send never
  stops the loop, every success is one message handed to the dispatcher, the
  error list reported holds at most ten entries and no more than the
  failures, and the ledger is untouched.\<close>

theorem masivo_contabilidad:
  assumes "masivo_post env cfg auth ahora fin clk st = (MasivoOk ex fa n_total errs f, st', envs)"
  shows "ex + fa = n_total \<and> ex \<le> length envs \<and> length envs \<le> n_total \<and>
    length errs \<le> 10 \<and> length errs \<le> fa \<and> emails_enviados st' = emails_enviados st"
proof -
  obtain cs st1 where g: "getComensales clk st = (cs, st1)" by (cases "getComensales clk st")
  obtain ms st2 where m: "getMesas st1 = (ms, st2)" by (cases "getMesas st1")
  let ?ini = "\<lparr>exitosos = 0, fallidos = 0, errores = [], almacen = st2, enviados = []\<rparr>"
  let ?e = "masivo_bucle env clk ms cs ?ini"
  have run: "ex = exitosos ?e \<and> fa = fallidos ?e \<and> n_total = length cs \<and> errs = take 10 (errores ?e) \<and>
      st' = almacen ?e \<and> envs = enviados ?e"
    using assms g m by (auto simp: masivo_post_def Let_def split: if_splits prod.splits)
  have l2: "emails_enviados st2 = emails_enviados st"
    using getComensales_frame [OF g] getMesas_frame [OF m] by simp
  have "masivo_bucle env clk ms cs ?ini = ?e" by (rule refl)
  from masivo_bucle_cuenta [OF this] run l2 show ?thesis by auto
qed

lemma masivo_uno:
  "masivo_post entorno_rechaza (CONFIG_CENA None None) (Some (js_lit ''Bearer tu-clave-secreta-aqui''))
     (js_lit ''2025-01-15T21:00:00.000Z'') (js_lit ''2025-01-15T21:00:09.000Z'') (\<lambda>_. []) directorio_uno
   = (MasivoOk 0 1 1 [js_lit ''ana.gil1@email.com: Error desconocido''] (js_lit ''2025-01-15T21:00:09.000Z''),
      directorio_uno, [correo_masivo ana_mesa1 (mesa_demo 1 10) []])"
proof -
  have p: "masivo_paso entorno_rechaza (\<lambda>_. []) [mesa_demo 1 10]
      \<lparr>exitosos = 0, fallidos = 0, errores = [], almacen = directorio_uno, enviados = []\<rparr> ana_mesa1
    = \<lparr>exitosos = 0, fallidos = 1, errores = [js_lit ''ana.gil1@email.com: Error desconocido''],
       almacen = directorio_uno, enviados = [correo_masivo ana_mesa1 (mesa_demo 1 10) []]\<rparr>"
    by (simp add: masivo_paso_def ana_mesa1_def comensal_ana_def mesa_demo_def getCompanerosMesa_def
        directorio_uno_def entorno_rechaza_def mensaje_o_def)
  show ?thesis
    using p by (simp add: masivo_post_def CONFIG_CENA_def env_o_def fecha_de_def api_key_presente_def
        entorno_rechaza_def directorio_uno_def masivo_bucle_def getMesas_def getComensales_def)
qed

theorem masivo_contabilidad_witness:
  "masivo_post entorno_rechaza (CONFIG_CENA None None) (Some (js_lit ''Bearer tu-clave-secreta-aqui''))
     (js_lit ''2025-01-15T21:00:00.000Z'') (js_lit ''2025-01-15T21:00:09.000Z'') (\<lambda>_. []) directorio_uno
   = (MasivoOk 0 1 1 [js_lit ''ana.gil1@email.com: Error desconocido''] (js_lit ''2025-01-15T21:00:09.000Z''),
      directorio_uno, [correo_masivo ana_mesa1 (mesa_demo 1 10) []]) \<and>
   (0::nat) + 1 = 1 \<and> length [js_lit ''ana.gil1@email.com: Error desconocido''] \<le> 1"
  using masivo_uno masivo_contabilidad [OF masivo_uno] by simp

text \<open>C26 (functional). The batch route neither reads nor writes the ledger
  of sent emails: on a store with any other ledger it gives the same response
  and hands the same messages to the dispatcher, so attendees already notified
  by a search are notified again and nobody is recorded.\<close>

theorem masivo_ignora_ledger:
  assumes "masivo_post env cfg auth ahora fin clk st = (r, st', envs)"
  shows "masivo_post env cfg auth ahora fin clk (st\<lparr>emails_enviados := L\<rparr>) = (r, st'\<lparr>emails_enviados := L\<rparr>, envs)"
proof -
  obtain cs st1 where g: "getComensales clk st = (cs, st1)" by (cases "getComensales clk st")
  obtain ms st2 where m: "getMesas st1 = (ms, st2)" by (cases "getMesas st1")
  have gL: "getComensales clk (st\<lparr>emails_enviados := L\<rparr>) = (cs, st1\<lparr>emails_enviados := L\<rparr>)"
    using g by (simp add: getComensales_ledger)
  have mL: "getMesas (st1\<lparr>emails_enviados := L\<rparr>) = (ms, st2\<lparr>emails_enviados := L\<rparr>)"
    using m by (simp add: getMesas_ledger)
  let ?ini = "\<lparr>exitosos = 0, fallidos = 0, errores = [], almacen = st2, enviados = []\<rparr>"
  have bL: "masivo_bucle env clk ms cs (?ini\<lparr>almacen := (almacen ?ini)\<lparr>emails_enviados := L\<rparr>\<rparr>)
      = (masivo_bucle env clk ms cs ?ini)\<lparr>almacen := (almacen (masivo_bucle env clk ms cs ?ini))\<lparr>emails_enviados := L\<rparr>\<rparr>"
    by (rule masivo_bucle_ledger)
  show ?thesis
    using assms g m gL mL bL by (auto simp: masivo_post_def Let_def split: if_splits)
qed

theorem masivo_ignora_ledger_witness:
  "masivo_post entorno_rechaza (CONFIG_CENA None None) (Some (js_lit ''Bearer tu-clave-secreta-aqui''))
     (js_lit ''2025-01-15T21:00:00.000Z'') (js_lit ''2025-01-15T21:00:09.000Z'') (\<lambda>_. [])
     (directorio_uno\<lparr>emails_enviados := {js_lit ''ana.gil1@email.com''}\<rparr>)
   = (MasivoOk 0 1 1 [js_lit ''ana.gil1@email.com: Error desconocido''] (js_lit ''2025-01-15T21:00:09.000Z''),
      directorio_uno\<lparr>emails_enviados := {js_lit ''ana.gil1@email.com''}\<rparr>,
      [correo_masivo ana_mesa1 (mesa_demo 1 10) []])"
  by (rule masivo_ignora_ledger [OF masivo_uno])

text \<open>C27 (error). The shared-secret gate: a request whose
  \<open>authorization\<close> header is not \<open>Bearer\<close> followed by the configured secret is
  answered 401 with the store untouched and nothing sent.\<close>

theorem masivo_no_autorizado:
  assumes "auth \<noteq> Some (js_lit ''Bearer '' @ cron_secret cfg)"
  shows "masivo_post env cfg auth ahora fin clk st = (MasivoNoAutorizado, st, [])"
  using assms by (simp add: masivo_post_def)

theorem masivo_no_autorizado_witness:
  "None \<noteq> Some (js_lit ''Bearer '' @ cron_secret (CONFIG_CENA None None)) \<and>
   masivo_post entorno_rechaza (CONFIG_CENA None None) None (js_lit ''2025-01-15'') [] (\<lambda>_. []) directorio_uno
     = (MasivoNoAutorizado, directorio_uno, [])"
  using masivo_no_autorizado [of None] by simp

text \<open>C28 (safety). With \<open>CRON_SECRET\<close> unset the secret is the literal
  \<open>tu-clave-secreta-aqui\<close> written in \<open>src/config.ts\<close>, and a request carrying
  it passes the gate, whatever the rest of the configuration and the store.\<close>

theorem masivo_secreto_por_defecto:
  "cron_secret (CONFIG_CENA fecha None) = js_lit ''tu-clave-secreta-aqui'' \<and>
   fst (masivo_post env (CONFIG_CENA fecha None) (Some (js_lit ''Bearer tu-clave-secreta-aqui''))
          ahora fin clk st) \<noteq> MasivoNoAutorizado"
  by (simp add: masivo_post_def CONFIG_CENA_def env_o_def Let_def split: prod.splits)

text \<open>C29 (functional). The notify-one route keeps no state and trusts its
  body: with an API key, every request carrying an attendee, a table and a
  tablemate array hands one message addressed to the attendee's email to the
  dispatcher, so repeating a request sends again, and any address given in
  the body receives a message.\<close>

theorem enviar_email_siempre_envia:
  assumes "api_key_presente env"
  shows "snd (enviar_email_post env (Some (Some c, Some m, Some cs))) = [correo_enviar_email c m cs] \<and>
    destinatario (correo_enviar_email c m cs) = email c"
  using assms by (simp add: enviar_email_post_def correo_enviar_email_def Let_def split: resultado_envio.splits)

theorem enviar_email_siempre_envia_witness:
  "api_key_presente entorno_rechaza \<and>
   snd (enviar_email_post entorno_rechaza (Some (Some ana_mesa1, Some (mesa_demo 1 10), Some [])))
     = [correo_enviar_email ana_mesa1 (mesa_demo 1 10) []]"
proof -
  have k: "api_key_presente entorno_rechaza" by (simp add: api_key_presente_def entorno_rechaza_def)
  show ?thesis using k enviar_email_siempre_envia [OF k] by simp
qed

text \<open>C30 (safety). \<open>POST /api/sorteo\<close> draws again unconditionally: on every
  store whose attendees and tables are loaded (seated or not, notified or
  not) and fit the tables, it answers success and stores a fresh seating in
  which each attendee's table and seat come from the shuffle alone, whatever
  seat the attendee had and whether the attendee was already told about it;
  the ledger of notified emails is kept as it was.\<close>

theorem sorteo_reasigna_notificado:
  assumes "comensales_st st = Some cs" and "mesas_st st = Some ms" and "capacidades_positivas ms"
    and "length cs \<le> sum_list (map capacidad ms)"
  shows "sorteo_post rnd clk st =
     (SorteoOk \<lparr>success = True, message = js_lit ''Sorteo realizado exitosamente'', asignaciones = Some (length cs)\<rparr>,
      st\<lparr>comensales_st := Some (map2 sentar (mezclar rnd cs) (plazas ms))\<rparr>)"
proof -
  have g: "getComensales clk st = (cs, st)" using assms(1) by simp
  have m: "getMesas st = (ms, st)" using assms(2) by (simp add: getMesas_def)
  have "length (map2 sentar (mezclar rnd cs) (plazas ms)) = length cs"
    using assms(4) by (simp add: length_plazas)
  then show ?thesis
    by (simp add: sorteo_post_def ejecutarSorteo_eq [OF g m] realizarSorteo_success [OF assms(3,4)])
qed

theorem sorteo_reasigna_notificado_witness:
  "yaSeEnvioEmail (email (comensal_demo 1)) directorio_dos \<and>
   comensales_st directorio_dos = Some [sentar (comensal_demo 1) (1, 1), sentar (comensal_demo 2) (2, 1)] \<and>
   sorteo_post (\<lambda>_. 0) (\<lambda>_. []) directorio_dos =
     (SorteoOk \<lparr>success = True, message = js_lit ''Sorteo realizado exitosamente'', asignaciones = Some 2\<rparr>,
      directorio_dos\<lparr>comensales_st := Some [sentar (comensal_demo 2) (1, 1), sentar (comensal_demo 1) (2, 1)]\<rparr>)"
proof -
  let ?cs = "[sentar (comensal_demo 1) (1, 1), sentar (comensal_demo 2) (2, 1)]"
  let ?ms = "[mesa_demo 1 1, mesa_demo 2 1]"
  have c: "comensales_st directorio_dos = Some ?cs" and m: "mesas_st directorio_dos = Some ?ms"
    by (simp_all add: directorio_dos_def)
  have p: "capacidades_positivas ?ms" by (simp add: capacidades_positivas_def mesa_demo_def)
  have l: "length ?cs \<le> sum_list (map capacidad ?ms)" by (simp add: mesa_demo_def)
  have r: "map2 sentar (mezclar (\<lambda>_. 0) ?cs) (plazas ?ms) = [sentar (comensal_demo 2) (1, 1), sentar (comensal_demo 1) (2, 1)]"
    by (simp add: mezclar_def fy_index_def swap_def plazas_def plazas_mesa_def mesa_demo_def sentar_def)
  have y: "yaSeEnvioEmail (email (comensal_demo 1)) directorio_dos"
    by (simp add: yaSeEnvioEmail_def directorio_dos_def comensal_demo_def js_toLowerCase_def js_nat_str.simps
        js_lower_char_def js_is_upper_def)
  show ?thesis using y c sorteo_reasigna_notificado [OF c m p l, of "\<lambda>_. 0" "\<lambda>_. []"] r by simp
qed

end
