(* ===== verification/Api_Buscar.thy ===== *)
theory Api_Buscar
  imports Notificacion
begin

text \<open>
  The handler \<open>POST\<close> of \<open>src/src/app/api/buscar/route.ts\<close>: request
  validation, the lazy draw, the search, the table and tablemates, and the
  notification gated by the ledger. The request body is \<open>None\<close> when
  \<open>request.json()\<close> throws, otherwise the values of its fields \<open>nombre\<close> and
  \<open>email\<close> (\<open>None\<close> when absent). Every exception of the handler ends in its
  \<open>catch\<close> with status 500; the store keeps what the handler did before the
  throw. The handler also returns the messages it handed to the dispatcher.
\<close>

text \<open>The JSON values a field can hold.\<close>

datatype json_valor = JStr jstr | JNum int | JBool bool | JNull | JCompuesto

definition js_falsy :: "json_valor option \<Rightarrow> bool" where
  "js_falsy v =
     (case v of None \<Rightarrow> True | Some JNull \<Rightarrow> True | Some (JStr s) \<Rightarrow> s = []
      | Some (JNum n) \<Rightarrow> n = 0 | Some (JBool b) \<Rightarrow> \<not> b | Some JCompuesto \<Rightarrow> False)"

text \<open>Only a string has \<open>toLowerCase\<close>; \<open>normalizarTexto\<close> throws on anything else.\<close>

definition como_texto :: "json_valor option \<Rightarrow> jstr option" where
  "como_texto v = (case v of Some (JStr s) \<Rightarrow> Some s | _ \<Rightarrow> None)"

datatype error_buscar = ErrRequeridos | ErrNoEncontrado | ErrSinSorteo | ErrMesa | ErrInterno

definition status_error :: "error_buscar \<Rightarrow> nat" where
  "status_error e =
     (case e of ErrRequeridos \<Rightarrow> 400 | ErrNoEncontrado \<Rightarrow> 404 | ErrSinSorteo \<Rightarrow> 400
      | ErrMesa \<Rightarrow> 500 | ErrInterno \<Rightarrow> 500)"

datatype respuesta_buscar =
    RespError error_buscar
  | RespOk comensal mesa "comensal list" "mesa list" bool

type_synonym salida_buscar = "respuesta_buscar \<times> directorio \<times> correo list"

text \<open>Lines 25 to 72: from the search on. \<open>!comensal.mesa_id\<close> is true for a
  null table and for table 0.\<close>

definition buscar_encontrar :: "entorno \<Rightarrow> clock \<Rightarrow> jstr \<Rightarrow> jstr \<Rightarrow> directorio \<Rightarrow> salida_buscar" where
  "buscar_encontrar env clk nom correo st =
     (let (oc, st3) = buscarComensal clk nom correo st
      in case oc of
           None \<Rightarrow> (RespError ErrNoEncontrado, st3, [])
         | Some c \<Rightarrow>
             (if mesa_id c = None \<or> mesa_id c = Some 0 then (RespError ErrSinSorteo, st3, [])
              else
                let t = the (mesa_id c);
                    (ms, st4) = getMesas st3
                in case find (\<lambda>m. id_mesa m = t) ms of
                     None \<Rightarrow> (RespError ErrMesa, st4, [])
                   | Some m \<Rightarrow>
                       let (comps, st5) = getCompanerosMesa clk t (id_comensal c) st4
                       in if yaSeEnvioEmail (email c) st5 then (RespOk c m comps ms True, st5, [])
                          else
                            let (ok, comps', envios) = enviarEmailComensal env c m comps
                            in (RespOk c m comps' ms ok,
                                if ok then marcarEmailEnviado (email c) st5 else st5, envios)))"

text \<open>Lines 17 to 26 after validation: the draw runs when no stored attendee
  has a table, then the search normalises the two fields (throwing on a
  non-string, after \<open>getComensales\<close>).\<close>

definition buscar_tras_sorteo ::
  "entorno \<Rightarrow> clock \<Rightarrow> json_valor option \<Rightarrow> json_valor option \<Rightarrow> directorio \<Rightarrow> salida_buscar" where
  "buscar_tras_sorteo env clk vn ve st =
     (case (como_texto vn, como_texto ve) of
        (Some nom, Some correo) \<Rightarrow> buscar_encontrar env clk nom correo st
      | _ \<Rightarrow> (RespError ErrInterno, snd (getComensales clk st), []))"

definition buscar_post ::
  "entorno \<Rightarrow> random_source \<Rightarrow> clock \<Rightarrow> (json_valor option \<times> json_valor option) option \<Rightarrow>
     directorio \<Rightarrow> salida_buscar" where
  "buscar_post env rnd clk cuerpo st =
     (case cuerpo of
        None \<Rightarrow> (RespError ErrInterno, st, [])
      | Some (vn, ve) \<Rightarrow>
          if js_falsy vn \<or> js_falsy ve then (RespError ErrRequeridos, st, [])
          else
            let (cs, st1) = getComensales clk st
            in if list_ex (\<lambda>c. mesa_id c \<noteq> None) cs then buscar_tras_sorteo env clk vn ve st1
               else (case ejecutarSorteo rnd clk st1 of
                       (Inl e, st2) \<Rightarrow> (RespError ErrInterno, st2, [])
                     | (Inr rs, st2) \<Rightarrow> buscar_tras_sorteo env clk vn ve st2))"

subsection \<open>Sample data for the witnesses\<close>

definition entorno_ok :: entorno where
  "entorno_ok = \<lparr>resend_api_key = Some (js_lit ''re_123''), despachador = (\<lambda>_. EnvioOk)\<rparr>"

definition entorno_falla :: entorno where
  "entorno_falla = \<lparr>resend_api_key = Some (js_lit ''re_123''), despachador = (\<lambda>_. EnvioError (js_lit ''rate limit''))\<rparr>"

definition ana_sentada :: comensal where
  "ana_sentada = comensal_ana\<lparr>mesa_id := Some 1, asiento := Some 1\<rparr>"

definition directorio_sorteado :: directorio where
  "directorio_sorteado =
     \<lparr>comensales_st = Some [ana_sentada], mesas_st = Some [mesa_demo 1 10], emails_enviados = {}\<rparr>"

definition consulta_ana :: "(json_valor option \<times> json_valor option) option" where
  "consulta_ana = Some (Some (JStr (js_lit ''Ana'')), Some (JStr (js_lit ''ANA.GIL1@EMAIL.COM'')))"

subsection \<open>Facts on the handler\<close>

lemma getMesas_Some [simp]: "mesas_st st = Some ms \<Longrightarrow> getMesas st = (ms, st)"
  by (simp add: getMesas_def)

lemma getMesas_None: "mesas_st st = None \<Longrightarrow> getMesas st = (generarMesas, st\<lparr>mesas_st := Some generarMesas\<rparr>)"
  by (simp add: getMesas_def)

lemma enviarEmailComensal_cases:
  assumes "enviarEmailComensal env c m comps = (ok, comps', envs)"
  shows "(\<not> api_key_presente env \<and> ok \<and> envs = []) \<or>
         (api_key_presente env \<and> envs = [correo_buscar c m comps] \<and> ok = (despachador env (correo_buscar c m comps) = EnvioOk))"
  using assms by (auto simp: enviarEmailComensal_def Let_def split: if_splits)

text \<open>The search part with the collection already stored: the collection is
  kept, the tables are memoised, and the ledger gains at most the found
  attendee's address.\<close>

lemma buscar_encontrar_store:
  assumes "comensales_st st = Some cs" and "buscar_encontrar env clk n e st = (r, st', envs)"
  shows "comensales_st st' = Some cs \<and> fst (getMesas st') = fst (getMesas st) \<and>
    (emails_enviados st' = emails_enviados st \<or>
     (\<exists>c\<in>set cs. emails_enviados st' = insert (js_toLowerCase (email c)) (emails_enviados st)))"
  using assms
  by (cases "mesas_st st")
     (auto simp: buscar_encontrar_def buscarComensal_eq getCompanerosMesa_eq getMesas_None
        marcarEmailEnviado_def Let_def dest!: find_SomeD split: option.splits prod.splits if_splits)

lemma buscar_encontrar_idempotente:
  assumes "comensales_st st = Some cs" and "buscar_encontrar env clk n e st = (r, st', envs)"
    and "list_all (\<lambda>m. despachador env m = EnvioOk) envs"
    and "buscar_encontrar env clk n e st' = (r2, st'', envs2)"
  shows "envs2 = []"
  using assms
  by (cases "mesas_st st")
     (auto simp: buscar_encontrar_def buscarComensal_eq getCompanerosMesa_eq getMesas_None
        marcarEmailEnviado_def yaSeEnvioEmail_def enviarEmailComensal_def Let_def
        split: option.splits prod.splits if_splits)

lemma buscar_tras_sorteo_store:
  assumes "comensales_st st = Some cs" and "buscar_tras_sorteo env clk vn ve st = (r, st', envs)"
  shows "comensales_st st' = Some cs \<and> fst (getMesas st') = fst (getMesas st)"
  using assms buscar_encontrar_store [OF assms(1)]
  by (auto simp: buscar_tras_sorteo_def split: option.splits)

lemma buscar_tras_sorteo_idempotente:
  assumes "comensales_st st = Some cs" and "buscar_tras_sorteo env clk vn ve st = (r, st', envs)"
    and "list_all (\<lambda>m. despachador env m = EnvioOk) envs"
    and "buscar_tras_sorteo env clk vn ve st' = (r2, st'', envs2)"
  shows "envs2 = []"
  using assms buscar_encontrar_idempotente [OF assms(1)]
  by (auto simp: buscar_tras_sorteo_def split: option.splits)

lemma buscar_tras_sorteo_vacio:
  "comensales_st st = Some [] \<Longrightarrow> buscar_tras_sorteo env clk vn ve st = (r, st', envs) \<Longrightarrow> envs = []"
  by (auto simp: buscar_tras_sorteo_def buscar_encontrar_def buscarComensal_eq split: option.splits)

lemma enviarEmailComensal_length:
  "enviarEmailComensal env c m comps = (ok, comps', envs) \<Longrightarrow> length comps' = length comps"
  by (auto simp: enviarEmailComensal_def Let_def ordenar_companeros_def split: if_splits)

lemma buscar_encontrar_hallado:
  assumes st: "comensales_st st = Some cs" "mesas_st st = Some ms"
    and f: "find (coincide (normalizarTexto n) (normalizarTexto e)) cs = Some c"
    and t: "mesa_id c = Some t" "t \<noteq> 0" and fm: "find (\<lambda>m. id_mesa m = t) ms = Some m"
  shows "\<exists>b comps' st' envs. buscar_encontrar env clk n e st = (RespOk c m comps' ms b, st', envs) \<and>
     length comps' = length (filter (\<lambda>x. mesa_id x = Some t \<and> id_comensal x \<noteq> id_comensal c) cs)"
proof -
  let ?comps = "filter (\<lambda>x. mesa_id x = Some t \<and> id_comensal x \<noteq> id_comensal c) cs"
  have g: "getComensales clk st = (cs, st)" using st(1) by simp
  obtain b comps' envs where en: "enviarEmailComensal env c m ?comps = (b, comps', envs)"
    by (metis prod_cases3)
  show ?thesis
  proof (cases "yaSeEnvioEmail (email c) st")
    case True
    then show ?thesis using st f t fm
      by (simp add: buscar_encontrar_def buscarComensal_eq [OF g] getCompanerosMesa_eq [OF g]) blast
  next
    case False
    then show ?thesis using st f t fm en enviarEmailComensal_length [OF en]
      by (simp add: buscar_encontrar_def buscarComensal_eq [OF g] getCompanerosMesa_eq [OF g])
  qed
qed

lemma buscar_post_valido:
  assumes "\<not> js_falsy vn" and "\<not> js_falsy ve" and "getComensales clk st = (cs, st1)"
  shows "buscar_post env rnd clk (Some (vn, ve)) st =
    (if list_ex (\<lambda>c. mesa_id c \<noteq> None) cs then buscar_tras_sorteo env clk vn ve st1
     else (case ejecutarSorteo rnd clk st1 of
             (Inl e, st2) \<Rightarrow> (RespError ErrInterno, st2, [])
           | (Inr rs, st2) \<Rightarrow> buscar_tras_sorteo env clk vn ve st2))"
  using assms by (simp add: buscar_post_def)

lemma buscar_encontrar_no_requeridos:
  "buscar_encontrar env clk n e st = (r, st', envs) \<Longrightarrow> r \<noteq> RespError ErrRequeridos"
  by (auto simp: buscar_encontrar_def Let_def split: prod.splits option.splits if_splits)

lemma buscar_post_no_requeridos:
  assumes "\<not> js_falsy vn" and "\<not> js_falsy ve" and "buscar_post env rnd clk (Some (vn, ve)) st = (r, st', envs)"
  shows "r \<noteq> RespError ErrRequeridos"
proof -
  obtain cs st1 where g: "getComensales clk st = (cs, st1)" by (cases "getComensales clk st")
  have t: "buscar_tras_sorteo env clk vn ve sx = (r, st', envs) \<Longrightarrow> r \<noteq> RespError ErrRequeridos" for sx
    by (auto simp: buscar_tras_sorteo_def dest: buscar_encontrar_no_requeridos split: option.splits)
  show ?thesis
    using assms(3) t unfolding buscar_post_valido [OF assms(1,2) g]
    by (auto split: if_splits sum.splits prod.splits)
qed

lemma realizarSorteo_Inl_stable:
  assumes "capacidades_positivas ms" and "realizarSorteo rnd cs ms = Inl e"
  shows "realizarSorteo rnd' cs ms = Inl e"
  using assms by (simp add: realizarSorteo_reparto_eq reparto_def split: if_splits)

lemma ejecutarSorteo_vacio:
  assumes "comensales_st st = Some []"
  obtains st' where "ejecutarSorteo rnd clk st = (Inr [], st')" and "comensales_st st' = Some []"
proof -
  obtain ms st2 where m: "getMesas st = (ms, st2)" by (cases "getMesas st")
  have "ejecutarSorteo rnd clk st = (Inr [], st2\<lparr>comensales_st := Some []\<rparr>)"
    using ejecutarSorteo_eq [OF getComensales_Some [OF assms] m]
    by (simp add: realizarSorteo_def mezclar_def)
  then show ?thesis using that by simp
qed

lemma realizarSorteo_seated:
  assumes "realizarSorteo rnd cs ms = Inr rs" and "rs \<noteq> []"
  shows "list_ex (\<lambda>c. mesa_id c \<noteq> None) rs"
proof -
  have "list_all (\<lambda>c. mesa_id c \<noteq> None \<and> asiento c \<noteq> None) rs"
    using assms(1) unfolding realizarSorteo_def by (rule asignar_seated)
  with assms(2) show ?thesis by (cases rs) simp_all
qed

subsection \<open>Properties of the search route\<close>

text \<open>C19 (safety). Notification is idempotent over sequential requests: when
  a search has handed every message it sent to a dispatcher that accepted it,
  repeating the same request hands no message to the dispatcher, whatever
  \<open>Math.random\<close> returns in between. This holds from every well-formed store,
  whether the first request drew, found nobody, or failed.\<close>

theorem notificacion_idempotente:
  assumes wf: "directorio_wf st"
    and r1: "buscar_post env rnd clk q st = (r1, st1, e1)"
    and ok: "list_all (\<lambda>m. despachador env m = EnvioOk) e1"
    and r2: "buscar_post env rnd' clk q st1 = (r2, st2, e2)"
  shows "e2 = []"
proof (cases q)
  case None then show ?thesis using r2 by (simp add: buscar_post_def)
next
  case (Some p)
  obtain vn ve where p: "p = (vn, ve)" by (cases p)
  show ?thesis
  proof (cases "js_falsy vn \<or> js_falsy ve")
    case True then show ?thesis using r2 Some p by (auto simp: buscar_post_def)
  next
    case False
    then have v: "\<not> js_falsy vn" "\<not> js_falsy ve" by simp_all
    obtain cs sta where g: "getComensales clk st = (cs, sta)" by (cases "getComensales clk st")
    have csa: "comensales_st sta = Some cs" by (rule getComensales_stores [OF g])
    have wfa: "directorio_wf sta" using getComensales_wf [OF wf g] by simp
    show ?thesis
    proof (cases "list_ex (\<lambda>c. mesa_id c \<noteq> None) cs")
      case True
      have t1: "buscar_tras_sorteo env clk vn ve sta = (r1, st1, e1)"
        using r1 Some p buscar_post_valido [OF v g] True by simp
      have "comensales_st st1 = Some cs" using buscar_tras_sorteo_store [OF csa t1] by simp
      then have "getComensales clk st1 = (cs, st1)" by simp
      then have t2: "buscar_tras_sorteo env clk vn ve st1 = (r2, st2, e2)"
        using r2 Some p buscar_post_valido [OF v] True by simp
      show ?thesis by (rule buscar_tras_sorteo_idempotente [OF csa t1 ok t2])
    next
      case False
      have gs: "getComensales clk sta = (cs, sta)" using csa by simp
      obtain ms stm where m: "getMesas sta = (ms, stm)" by (cases "getMesas sta")
      have ms: "ms = generarMesas" using getMesas_wf [OF wfa m] by simp
      have cm: "comensales_st stm = Some cs" using getMesas_frame [OF m] csa by simp
      note dres = ejecutarSorteo_eq [OF gs m, of rnd]
      show ?thesis
      proof (cases "realizarSorteo rnd cs ms")
        case (Inl e)
        have st1: "st1 = stm" using r1 Some p buscar_post_valido [OF v g] False dres Inl by simp
        have g1: "getComensales clk st1 = (cs, st1)" using cm st1 by simp
        have m1: "getMesas st1 = (ms, st1)" using getMesas_frame [OF m] st1 by simp
        have "realizarSorteo rnd' cs ms = Inl e"
          by (rule realizarSorteo_Inl_stable [OF _ Inl]) (simp add: ms capacidades_positivas_generarMesas)
        then have "ejecutarSorteo rnd' clk st1 = (Inl e, st1)" by (simp add: ejecutarSorteo_eq [OF g1 m1])
        then show ?thesis using r2 Some p buscar_post_valido [OF v g1] False by simp
      next
        case (Inr rs)
        let ?stc = "stm\<lparr>comensales_st := Some rs\<rparr>"
        have cc: "comensales_st ?stc = Some rs" by simp
        have t1: "buscar_tras_sorteo env clk vn ve ?stc = (r1, st1, e1)"
          using r1 Some p buscar_post_valido [OF v g] False dres Inr by simp
        have c1: "comensales_st st1 = Some rs" using buscar_tras_sorteo_store [OF cc t1] by simp
        then have g1: "getComensales clk st1 = (rs, st1)" by simp
        show ?thesis
        proof (cases "rs = []")
          case True
          obtain st3 where d3: "ejecutarSorteo rnd' clk st1 = (Inr [], st3)" and c3: "comensales_st st3 = Some []"
            using ejecutarSorteo_vacio [of st1] c1 True by blast
          have "buscar_tras_sorteo env clk vn ve st3 = (r2, st2, e2)"
            using r2 Some p buscar_post_valido [OF v g1] True d3 by simp
          then show ?thesis by (rule buscar_tras_sorteo_vacio [OF c3])
        next
          case False
          have "list_ex (\<lambda>c. mesa_id c \<noteq> None) rs" by (rule realizarSorteo_seated [OF Inr False])
          then have t2: "buscar_tras_sorteo env clk vn ve st1 = (r2, st2, e2)"
            using r2 Some p buscar_post_valido [OF v g1] by simp
          show ?thesis by (rule buscar_tras_sorteo_idempotente [OF cc t1 ok t2])
        qed
      qed
    qed
  qed
qed

theorem notificacion_idempotente_witness:
  "snd (snd (buscar_post entorno_ok (\<lambda>_. 0) (\<lambda>_. []) consulta_ana
      (fst (snd (buscar_post entorno_ok (\<lambda>_. 0) (\<lambda>_. []) consulta_ana directorio_inicial))))) = []"
proof -
  obtain r1 st1 e1 where b1: "buscar_post entorno_ok (\<lambda>_. 0) (\<lambda>_. []) consulta_ana directorio_inicial = (r1, st1, e1)"
    by (cases "buscar_post entorno_ok (\<lambda>_. 0) (\<lambda>_. []) consulta_ana directorio_inicial")
  obtain r2 st2 e2 where b2: "buscar_post entorno_ok (\<lambda>_. 0) (\<lambda>_. []) consulta_ana st1 = (r2, st2, e2)"
    by (cases "buscar_post entorno_ok (\<lambda>_. 0) (\<lambda>_. []) consulta_ana st1")
  have ok: "list_all (\<lambda>m. despachador entorno_ok m = EnvioOk) e1" by (simp add: entorno_ok_def list_all_iff)
  have "e2 = []" by (rule notificacion_idempotente [OF directorio_wf_inicial b1 ok b2])
  then show ?thesis using b1 b2 by simp
qed

lemma buscar_encontrar_falla:
  assumes "buscar_encontrar env clk n e st = (RespOk c m comps ms False, st', envs)"
  shows "emails_enviados st' = emails_enviados st \<and> \<not> yaSeEnvioEmail (email c) st'"
  using assms
  by (cases "mesas_st st"; cases "comensales_st st")
     (auto simp: buscar_encontrar_def buscarComensal_eq getCompanerosMesa_eq getMesas_None getComensales_None
        Let_def split: option.splits prod.splits if_splits)

lemma buscar_tras_sorteo_falla:
  assumes "buscar_tras_sorteo env clk vn ve st = (RespOk c m comps ms False, st', envs)"
  shows "emails_enviados st' = emails_enviados st \<and> \<not> yaSeEnvioEmail (email c) st'"
  using assms buscar_encontrar_falla by (auto simp: buscar_tras_sorteo_def split: option.splits)

text \<open>C22 (error). A request whose name or email is missing or falsy is
  answered 400 before anything else: the store is untouched and nothing is
  sent.\<close>

theorem buscar_requeridos:
  assumes "js_falsy vn \<or> js_falsy ve"
  shows "buscar_post env rnd clk (Some (vn, ve)) st = (RespError ErrRequeridos, st, []) \<and>
    status_error ErrRequeridos = 400"
  using assms by (simp add: buscar_post_def status_error_def)

theorem buscar_requeridos_witness:
  "js_falsy (Some (JStr [])) \<and>
   buscar_post entorno_ok (\<lambda>_. 0) (\<lambda>_. []) (Some (Some (JStr []), Some (JStr (js_lit ''a@b.c'')))) directorio_inicial
     = (RespError ErrRequeridos, directorio_inicial, [])"
proof -
  have f: "js_falsy (Some (JStr []))" by (simp add: js_falsy_def)
  show ?thesis using f buscar_requeridos [of "Some (JStr [])"] by simp
qed

text \<open>C20 (safety). Once some stored attendee has a table, a search never
  draws again: the stored collection after the request is the one before it,
  whatever the request.\<close>

theorem buscar_no_redraw:
  assumes "comensales_st st = Some cs" and "list_ex (\<lambda>c. mesa_id c \<noteq> None) cs"
    and "buscar_post env rnd clk q st = (r, st', envs)"
  shows "comensales_st st' = Some cs"
proof (cases "\<exists>vn ve. q = Some (vn, ve) \<and> \<not> js_falsy vn \<and> \<not> js_falsy ve")
  case True
  then obtain vn ve where q: "q = Some (vn, ve)" and v: "\<not> js_falsy vn" "\<not> js_falsy ve" by blast
  have "buscar_tras_sorteo env clk vn ve st = (r, st', envs)"
    using assms(3) q buscar_post_valido [OF v getComensales_Some [OF assms(1)]] assms(2) by simp
  then show ?thesis using buscar_tras_sorteo_store [OF assms(1)] by simp
next
  case False
  then have "st' = st" using assms(3) by (auto simp: buscar_post_def split: option.splits)
  then show ?thesis using assms(1) by simp
qed

theorem buscar_no_redraw_witness:
  "comensales_st (fst (snd (buscar_post entorno_ok (\<lambda>_. 0) (\<lambda>_. []) consulta_ana directorio_sorteado)))
     = Some [ana_sentada]"
proof -
  obtain r st' e where b: "buscar_post entorno_ok (\<lambda>_. 0) (\<lambda>_. []) consulta_ana directorio_sorteado = (r, st', e)"
    by (cases "buscar_post entorno_ok (\<lambda>_. 0) (\<lambda>_. []) consulta_ana directorio_sorteado")
  have c: "comensales_st directorio_sorteado = Some [ana_sentada]" by (simp add: directorio_sorteado_def)
  have l: "list_ex (\<lambda>c. mesa_id c \<noteq> None) [ana_sentada]" by (simp add: ana_sentada_def)
  show ?thesis using buscar_no_redraw [OF c l b] b by simp
qed

text \<open>C21 (error). A failed send is not recorded: when the response reports
  \<open>emailEnviado = false\<close>, the ledger is the one before the request and does
  not hold the attendee's address, so a later search retries the send.\<close>

theorem buscar_fallo_no_marca:
  assumes "buscar_post env rnd clk q st = (RespOk c m comps ms False, st', envs)"
  shows "emails_enviados st' = emails_enviados st \<and> \<not> yaSeEnvioEmail (email c) st'"
proof -
  obtain vn ve where q: "q = Some (vn, ve)" and v: "\<not> js_falsy vn" "\<not> js_falsy ve"
    using assms by (auto simp: buscar_post_def split: option.splits if_splits)
  obtain cs sta where g: "getComensales clk st = (cs, sta)" by (cases "getComensales clk st")
  have la: "emails_enviados sta = emails_enviados st" using getComensales_frame [OF g] by simp
  show ?thesis
  proof (cases "list_ex (\<lambda>c. mesa_id c \<noteq> None) cs")
    case True
    then have "buscar_tras_sorteo env clk vn ve sta = (RespOk c m comps ms False, st', envs)"
      using assms q buscar_post_valido [OF v g] by simp
    then show ?thesis using buscar_tras_sorteo_falla la by simp
  next
    case False
    obtain res stb where d: "ejecutarSorteo rnd clk sta = (res, stb)" by (cases "ejecutarSorteo rnd clk sta")
    have lb: "emails_enviados stb = emails_enviados sta" using ejecutarSorteo_frame [OF d] by simp
    obtain rs where "res = Inr rs" and "buscar_tras_sorteo env clk vn ve stb = (RespOk c m comps ms False, st', envs)"
      using assms q buscar_post_valido [OF v g] False d by (cases res) simp_all
    then show ?thesis using buscar_tras_sorteo_falla la lb by simp
  qed
qed

lemma buscar_ana_falla:
  "buscar_post entorno_falla (\<lambda>_. 0) (\<lambda>_. []) consulta_ana directorio_sorteado =
     (RespOk ana_sentada (mesa_demo 1 10) [] [mesa_demo 1 10] False, directorio_sorteado,
      [correo_buscar ana_sentada (mesa_demo 1 10) []])"
proof -
  have co: "coincide (normalizarTexto (js_lit ''Ana'')) (normalizarTexto (js_lit ''ANA.GIL1@EMAIL.COM'')) ana_sentada"
    by (simp add: coincide_def ana_sentada_def comensal_ana_def normalizar_eval)
  have sent: "\<not> yaSeEnvioEmail (email ana_sentada) directorio_sorteado"
    by (simp add: yaSeEnvioEmail_def directorio_sorteado_def)
  have env: "enviarEmailComensal entorno_falla ana_sentada (mesa_demo 1 10) []
      = (False, [], [correo_buscar ana_sentada (mesa_demo 1 10) []])"
    by (simp add: enviarEmailComensal_def api_key_presente_def entorno_falla_def ordenar_companeros_def)
  have seat: "mesa_id ana_sentada = Some 1" and ids: "id_comensal ana_sentada = 1"
    by (simp_all add: ana_sentada_def comensal_ana_def)
  have st: "comensales_st directorio_sorteado = Some [ana_sentada]" "mesas_st directorio_sorteado = Some [mesa_demo 1 10]"
    by (simp_all add: directorio_sorteado_def)
  show ?thesis
    using co sent env seat ids st
    by (simp add: buscar_post_def consulta_ana_def js_falsy_def como_texto_def buscar_tras_sorteo_def
        buscar_encontrar_def buscarComensal_eq getCompanerosMesa_eq mesa_demo_def Let_def)
qed

theorem buscar_fallo_no_marca_witness:
  "buscar_post entorno_falla (\<lambda>_. 0) (\<lambda>_. []) consulta_ana directorio_sorteado =
     (RespOk ana_sentada (mesa_demo 1 10) [] [mesa_demo 1 10] False, directorio_sorteado,
      [correo_buscar ana_sentada (mesa_demo 1 10) []]) \<and>
   \<not> yaSeEnvioEmail (email ana_sentada) directorio_sorteado"
  using buscar_ana_falla buscar_fallo_no_marca [OF buscar_ana_falla] by simp

end
