(* ===== verification/Concurrencia.thy ===== *)
theory Concurrencia
  imports Api_Buscar
begin

text \<open>
  Concurrent search requests. Node runs one request at a time between two
  \<open>await\<close>s that really wait. In \<open>POST /api/buscar\<close> the only such point after
  \<open>request.json()\<close> is \<open>await resend.emails.send(...)\<close> inside
  \<open>enviarEmailComensal\<close>: the handler's first phase runs from the validation to
  the send, without interruption, and its second phase from the send's
  outcome to the response. The lazy draw (lines 17 to 23) lies entirely in the
  first phase. A system state is the store, the requests (not yet started,
  waiting for the send, or answered) and the messages handed to the
  dispatcher; a step runs one phase of one request.
\<close>

datatype fase1 =
    Terminada respuesta_buscar
  | EsperaEnvio comensal mesa "comensal list" "mesa list" correo

text \<open>The first phase from the search on (lines 25 to 58 and 84 to 175): as
  \<open>buscar_encontrar\<close>, but the send suspends the request.\<close>

definition encontrar_inicio :: "entorno \<Rightarrow> clock \<Rightarrow> jstr \<Rightarrow> jstr \<Rightarrow> directorio \<Rightarrow> fase1 \<times> directorio" where
  "encontrar_inicio env clk nom correo st =
     (let (oc, st3) = buscarComensal clk nom correo st
      in case oc of
           None \<Rightarrow> (Terminada (RespError ErrNoEncontrado), st3)
         | Some c \<Rightarrow>
             (if mesa_id c = None \<or> mesa_id c = Some 0 then (Terminada (RespError ErrSinSorteo), st3)
              else
                let t = the (mesa_id c);
                    (ms, st4) = getMesas st3
                in case find (\<lambda>m. id_mesa m = t) ms of
                     None \<Rightarrow> (Terminada (RespError ErrMesa), st4)
                   | Some m \<Rightarrow>
                       let (comps, st5) = getCompanerosMesa clk t (id_comensal c) st4
                       in if yaSeEnvioEmail (email c) st5 then (Terminada (RespOk c m comps ms True), st5)
                          else if \<not> api_key_presente env
                          then (Terminada (RespOk c m comps ms True), marcarEmailEnviado (email c) st5)
                          else (EsperaEnvio c m (ordenar_companeros comps) ms (correo_buscar c m comps), st5)))"

definition buscar_inicio ::
  "entorno \<Rightarrow> random_source \<Rightarrow> clock \<Rightarrow> (json_valor option \<times> json_valor option) option \<Rightarrow>
     directorio \<Rightarrow> fase1 \<times> directorio" where
  "buscar_inicio env rnd clk cuerpo st =
     (case cuerpo of
        None \<Rightarrow> (Terminada (RespError ErrInterno), st)
      | Some (vn, ve) \<Rightarrow>
          if js_falsy vn \<or> js_falsy ve then (Terminada (RespError ErrRequeridos), st)
          else
            let (cs, st1) = getComensales clk st;
                (ok, st2) = (if list_ex (\<lambda>c. mesa_id c \<noteq> None) cs then (True, st1)
                             else case ejecutarSorteo rnd clk st1 of
                                    (Inl e, st2) \<Rightarrow> (False, st2)
                                  | (Inr rs, st2) \<Rightarrow> (True, st2))
            in if \<not> ok then (Terminada (RespError ErrInterno), st2)
               else case (como_texto vn, como_texto ve) of
                      (Some nom, Some correo) \<Rightarrow> encontrar_inicio env clk nom correo st2
                    | _ \<Rightarrow> (Terminada (RespError ErrInterno), snd (getComensales clk st2)))"

text \<open>The second phase (lines 58 to 72): the outcome of the send, the mark of
  the ledger on success, and the response.\<close>

definition buscar_fin :: "entorno \<Rightarrow> comensal \<Rightarrow> mesa \<Rightarrow> comensal list \<Rightarrow> mesa list \<Rightarrow> correo \<Rightarrow>
    directorio \<Rightarrow> respuesta_buscar \<times> directorio" where
  "buscar_fin env c m comps ms msg st =
     (let ok = (despachador env msg = EnvioOk)
      in (RespOk c m comps ms ok, if ok then marcarEmailEnviado (email c) st else st))"

datatype peticion =
    Nueva "(json_valor option \<times> json_valor option) option"
  | Esperando comensal mesa "comensal list" "mesa list" correo
  | Respondida respuesta_buscar

record sistema =
  sis_dir :: directorio
  sis_peticiones :: "peticion list"
  sis_enviados :: "correo list"

text \<open>One step: one request runs its first phase (with the \<open>Math.random\<close>
  values of that moment), or a waiting request gets the send's outcome.\<close>

inductive paso_sistema :: "entorno \<Rightarrow> clock \<Rightarrow> sistema \<Rightarrow> sistema \<Rightarrow> bool" where
  inicio_responde:
    "i < length (sis_peticiones s) \<Longrightarrow> sis_peticiones s ! i = Nueva q \<Longrightarrow>
     buscar_inicio env rnd clk q (sis_dir s) = (Terminada r, st') \<Longrightarrow>
     paso_sistema env clk s (s\<lparr>sis_dir := st', sis_peticiones := (sis_peticiones s)[i := Respondida r]\<rparr>)"
| inicio_envia:
    "i < length (sis_peticiones s) \<Longrightarrow> sis_peticiones s ! i = Nueva q \<Longrightarrow>
     buscar_inicio env rnd clk q (sis_dir s) = (EsperaEnvio c m comps ms msg, st') \<Longrightarrow>
     paso_sistema env clk s (s\<lparr>sis_dir := st', sis_peticiones := (sis_peticiones s)[i := Esperando c m comps ms msg],
                               sis_enviados := sis_enviados s @ [msg]\<rparr>)"
| fin_envio:
    "i < length (sis_peticiones s) \<Longrightarrow> sis_peticiones s ! i = Esperando c m comps ms msg \<Longrightarrow>
     buscar_fin env c m comps ms msg (sis_dir s) = (r, st') \<Longrightarrow>
     paso_sistema env clk s (s\<lparr>sis_dir := st', sis_peticiones := (sis_peticiones s)[i := Respondida r]\<rparr>)"

inductive_cases paso_sistemaE: "paso_sistema env clk s s'"

text \<open>A waiting request's message has been handed to the dispatcher and is
  addressed to the request's attendee.\<close>

fun espera_registrada :: "correo list \<Rightarrow> peticion \<Rightarrow> bool" where
  "espera_registrada enviados (Esperando c m comps ms msg) = (msg \<in> set enviados \<and> destinatario msg = email c)"
| "espera_registrada enviados _ = True"

definition sistema_dos_ana :: sistema where
  "sistema_dos_ana =
     \<lparr>sis_dir = directorio_sorteado, sis_peticiones = [Nueva consulta_ana, Nueva consulta_ana], sis_enviados = []\<rparr>"

subsection \<open>The two phases make up the handler\<close>

lemma encontrar_fases:
  "buscar_encontrar env clk nom correo st =
     (case encontrar_inicio env clk nom correo st of
        (Terminada r, st') \<Rightarrow> (r, st', [])
      | (EsperaEnvio c m comps ms msg, st') \<Rightarrow>
          (fst (buscar_fin env c m comps ms msg st'), snd (buscar_fin env c m comps ms msg st'), [msg]))"
  by (auto simp: buscar_encontrar_def encontrar_inicio_def buscar_fin_def enviarEmailComensal_def Let_def
      split: option.splits prod.splits if_splits)

lemma buscar_fases:
  "buscar_post env rnd clk q st =
     (case buscar_inicio env rnd clk q st of
        (Terminada r, st') \<Rightarrow> (r, st', [])
      | (EsperaEnvio c m comps ms msg, st') \<Rightarrow>
          (fst (buscar_fin env c m comps ms msg st'), snd (buscar_fin env c m comps ms msg st'), [msg]))"
  by (auto simp: buscar_post_def buscar_inicio_def buscar_tras_sorteo_def encontrar_fases Let_def
      split: option.splits prod.splits if_splits sum.splits fase1.splits)

subsection \<open>Facts on the system\<close>

lemma encontrar_inicio_ledger:
  "api_key_presente env \<Longrightarrow> encontrar_inicio env clk n e st = (f, st') \<Longrightarrow> emails_enviados st' = emails_enviados st"
  by (auto simp: encontrar_inicio_def buscarComensal_def getCompanerosMesa_def Let_def
      split: prod.splits option.splits if_splits dest!: getComensales_frame getMesas_frame)

lemma getComensales_snd_ledger [simp]:
  "emails_enviados (snd (getComensales clk st)) = emails_enviados st"
  using getComensales_frame [of clk st "fst (getComensales clk st)" "snd (getComensales clk st)"] by simp

lemma buscar_inicio_ledger:
  assumes "api_key_presente env" and "buscar_inicio env rnd clk q st = (f, st')"
  shows "emails_enviados st' = emails_enviados st"
  using assms
  by (auto simp: buscar_inicio_def Let_def split: option.splits prod.splits if_splits sum.splits
      dest!: getComensales_frame ejecutarSorteo_frame encontrar_inicio_ledger [OF assms(1)])

lemma encontrar_inicio_destinatario:
  "encontrar_inicio env clk n e st = (EsperaEnvio c m comps ms msg, st') \<Longrightarrow> destinatario msg = email c"
  by (auto simp: encontrar_inicio_def correo_buscar_def Let_def split: prod.splits option.splits if_splits)

lemma buscar_inicio_destinatario:
  "buscar_inicio env rnd clk q st = (EsperaEnvio c m comps ms msg, st') \<Longrightarrow> destinatario msg = email c"
  by (auto simp: buscar_inicio_def Let_def split: option.splits prod.splits if_splits sum.splits
      dest: encontrar_inicio_destinatario)

lemma espera_registrada_mono:
  "set e \<subseteq> set e' \<Longrightarrow> espera_registrada e p \<Longrightarrow> espera_registrada e' p"
  by (cases p) auto

lemma paso_sistema_registro:
  assumes "paso_sistema env clk s s'" and "api_key_presente env"
    and "list_all (espera_registrada (sis_enviados s)) (sis_peticiones s)"
  shows "list_all (espera_registrada (sis_enviados s')) (sis_peticiones s') \<and>
    set (sis_enviados s) \<subseteq> set (sis_enviados s') \<and>
    emails_enviados (sis_dir s') \<subseteq> emails_enviados (sis_dir s) \<union>
      (\<lambda>msg. js_toLowerCase (destinatario msg)) ` set (filter (\<lambda>msg. despachador env msg = EnvioOk) (sis_enviados s'))"
  using assms
proof (induction rule: paso_sistema.induct)
  case (inicio_responde i s q env rnd clk r st')
  then show ?case using buscar_inicio_ledger [OF inicio_responde.prems(1) inicio_responde.hyps(3)]
    by (simp add: list_all_update_ok)
next
  case (inicio_envia i s q env rnd clk c m comps ms msg st')
  have d: "destinatario msg = email c" using inicio_envia.hyps(3) by (rule buscar_inicio_destinatario)
  have mono: "list_all (espera_registrada (sis_enviados s @ [msg])) (sis_peticiones s)"
    using inicio_envia.prems(2) espera_registrada_mono [of "sis_enviados s" "sis_enviados s @ [msg]"]
    by (auto simp: list_all_iff)
  show ?case using buscar_inicio_ledger [OF inicio_envia.prems(1) inicio_envia.hyps(3)] d
    by (auto simp: list_all_update_ok [OF mono])
next
  case (fin_envio i s c m comps ms msg env r st' clk)
  have "espera_registrada (sis_enviados s) (sis_peticiones s ! i)"
    using fin_envio.prems(2) fin_envio.hyps(1) by (simp add: list_all_iff)
  then have reg: "msg \<in> set (sis_enviados s)" "destinatario msg = email c" using fin_envio.hyps(2) by simp_all
  have "emails_enviados st' \<subseteq> emails_enviados (sis_dir s) \<union>
      (\<lambda>msg. js_toLowerCase (destinatario msg)) ` set (filter (\<lambda>msg. despachador env msg = EnvioOk) (sis_enviados s))"
  proof -
    have acc: "despachador env msg = EnvioOk \<Longrightarrow> js_toLowerCase (email c) \<in>
        (\<lambda>msg. js_toLowerCase (destinatario msg)) ` set (filter (\<lambda>msg. despachador env msg = EnvioOk) (sis_enviados s))"
      using reg by (intro image_eqI [of _ _ msg]) simp_all
    show ?thesis using fin_envio.hyps(3) acc
      by (auto simp: buscar_fin_def marcarEmailEnviado_def Let_def split: if_splits)
  qed
  then show ?case using fin_envio.prems(2) by (simp add: list_all_update_ok)
qed

lemma buscar_inicio_envia:
  assumes "api_key_presente env" and "comensales_st st = Some cs" and "mesas_st st = Some ms"
    and "list_ex (\<lambda>c. mesa_id c \<noteq> None) cs" and "n \<noteq> []" and "e \<noteq> []"
    and "find (coincide (normalizarTexto n) (normalizarTexto e)) cs = Some c"
    and "mesa_id c = Some t" and "t \<noteq> 0" and "find (\<lambda>m. id_mesa m = t) ms = Some m"
    and "\<not> yaSeEnvioEmail (email c) st"
  shows "buscar_inicio env rnd clk (Some (Some (JStr n), Some (JStr e))) st =
    (EsperaEnvio c m (ordenar_companeros (filter (\<lambda>x. mesa_id x = Some t \<and> id_comensal x \<noteq> id_comensal c) cs)) ms
       (correo_buscar c m (filter (\<lambda>x. mesa_id x = Some t \<and> id_comensal x \<noteq> id_comensal c) cs)), st)"
proof -
  have g: "getComensales clk st = (cs, st)" using assms(2) by simp
  have gm: "getMesas st = (ms, st)" using assms(3) by simp
  show ?thesis
    using assms(1,4-11) g gm
    by (simp add: buscar_inicio_def js_falsy_def como_texto_def encontrar_inicio_def
        buscarComensal_eq [OF g] getCompanerosMesa_eq [OF g] Let_def)
qed

subsection \<open>Properties of concurrent searches\<close>

lemma encontrar_inicio_store:
  "comensales_st st = Some cs \<Longrightarrow> comensales_st (snd (encontrar_inicio env clk n e st)) = Some cs"
  by (cases "mesas_st st")
     (auto simp: encontrar_inicio_def buscarComensal_eq getCompanerosMesa_eq getMesas_None
        marcarEmailEnviado_def Let_def split: option.splits prod.splits if_splits)

lemma buscar_inicio_sorteado:
  assumes "comensales_st st = Some cs" and "list_ex (\<lambda>c. mesa_id c \<noteq> None) cs"
  shows "comensales_st (snd (buscar_inicio env rnd clk q st)) = Some cs"
  using assms encontrar_inicio_store [OF assms(1)]
  by (auto simp: buscar_inicio_def Let_def split: option.splits prod.splits)

lemma paso_sistema_sorteado:
  assumes "paso_sistema env clk s s'" and "comensales_st (sis_dir s) = Some cs"
    and "list_ex (\<lambda>c. mesa_id c \<noteq> None) cs"
  shows "comensales_st (sis_dir s') = Some cs"
  using assms
proof (induction rule: paso_sistema.induct)
  case (inicio_responde i s q env rnd clk r st')
  then show ?case using buscar_inicio_sorteado [of "sis_dir s" cs env rnd clk q] by simp
next
  case (inicio_envia i s q env rnd clk c m comps ms msg st')
  then show ?case using buscar_inicio_sorteado [of "sis_dir s" cs env rnd clk q] by simp
next
  case (fin_envio i s c m comps ms msg env r st' clk)
  then show ?case by (auto simp: buscar_fin_def marcarEmailEnviado_def Let_def split: if_splits)
qed

lemma buscar_inicio_ana:
  "buscar_inicio entorno_ok rnd clk consulta_ana directorio_sorteado =
     (EsperaEnvio ana_sentada (mesa_demo 1 10) [] [mesa_demo 1 10] (correo_buscar ana_sentada (mesa_demo 1 10) []),
      directorio_sorteado)"
proof -
  have co: "coincide (normalizarTexto (js_lit ''Ana'')) (normalizarTexto (js_lit ''ANA.GIL1@EMAIL.COM'')) ana_sentada"
    by (simp add: coincide_def ana_sentada_def comensal_ana_def normalizar_eval)
  have sent: "\<not> yaSeEnvioEmail (email ana_sentada) directorio_sorteado"
    by (simp add: yaSeEnvioEmail_def directorio_sorteado_def)
  have seat: "mesa_id ana_sentada = Some 1" and ids: "id_comensal ana_sentada = 1"
    by (simp_all add: ana_sentada_def comensal_ana_def)
  have st: "comensales_st directorio_sorteado = Some [ana_sentada]" "mesas_st directorio_sorteado = Some [mesa_demo 1 10]"
    by (simp_all add: directorio_sorteado_def)
  have k: "api_key_presente entorno_ok" by (simp add: api_key_presente_def entorno_ok_def)
  show ?thesis
    using co sent seat ids st k
    by (simp add: buscar_inicio_def consulta_ana_def js_falsy_def como_texto_def encontrar_inicio_def
        buscarComensal_eq getCompanerosMesa_eq mesa_demo_def ordenar_companeros_def Let_def)
qed

lemma dos_envios_ana:
  "(paso_sistema entorno_ok clk)\<^sup>*\<^sup>* sistema_dos_ana
     \<lparr>sis_dir = directorio_sorteado,
      sis_peticiones = [Esperando ana_sentada (mesa_demo 1 10) [] [mesa_demo 1 10] (correo_buscar ana_sentada (mesa_demo 1 10) []),
                        Esperando ana_sentada (mesa_demo 1 10) [] [mesa_demo 1 10] (correo_buscar ana_sentada (mesa_demo 1 10) [])],
      sis_enviados = [correo_buscar ana_sentada (mesa_demo 1 10) [], correo_buscar ana_sentada (mesa_demo 1 10) []]\<rparr>"
proof -
  let ?w = "Esperando ana_sentada (mesa_demo 1 10) [] [mesa_demo 1 10] (correo_buscar ana_sentada (mesa_demo 1 10) [])"
  let ?msg = "correo_buscar ana_sentada (mesa_demo 1 10) []"
  let ?s1 = "\<lparr>sis_dir = directorio_sorteado, sis_peticiones = [?w, Nueva consulta_ana], sis_enviados = [?msg]\<rparr>"
  have p1: "paso_sistema entorno_ok clk sistema_dos_ana ?s1"
    using paso_sistema.inicio_envia [of 0 sistema_dos_ana consulta_ana entorno_ok "\<lambda>_. 0" clk]
      buscar_inicio_ana by (simp add: sistema_dos_ana_def)
  have p2: "paso_sistema entorno_ok clk ?s1
      \<lparr>sis_dir = directorio_sorteado, sis_peticiones = [?w, ?w], sis_enviados = [?msg, ?msg]\<rparr>"
    using paso_sistema.inicio_envia [of 1 ?s1 consulta_ana entorno_ok "\<lambda>_. 0" clk]
      buscar_inicio_ana by simp
  show ?thesis using p1 p2 by simp
qed

text \<open>C31 (safety). Notification is at-least-once under concurrency: with an
  API key, for every store where the draw has been made, every request body
  whose name and email find an attendee seated at a known table, and every such
  attendee not yet in the ledger, two concurrent searches with that body both
  pass the ledger check before either send completes, and the dispatcher
  receives the attendee's message twice.\<close>

theorem envio_duplicado_concurrente:
  assumes "api_key_presente env" and "comensales_st st = Some cs" and "mesas_st st = Some ms"
    and "list_ex (\<lambda>c. mesa_id c \<noteq> None) cs" and "n \<noteq> []" and "e \<noteq> []"
    and "find (coincide (normalizarTexto n) (normalizarTexto e)) cs = Some c"
    and "mesa_id c = Some t" and "t \<noteq> 0" and "find (\<lambda>m. id_mesa m = t) ms = Some m"
    and "\<not> yaSeEnvioEmail (email c) st"
  shows "\<exists>s'. (paso_sistema env clk)\<^sup>*\<^sup>*
       \<lparr>sis_dir = st, sis_peticiones = [Nueva (Some (Some (JStr n), Some (JStr e))), Nueva (Some (Some (JStr n), Some (JStr e)))],
        sis_enviados = []\<rparr> s' \<and>
     sis_enviados s' = [correo_buscar c m (filter (\<lambda>x. mesa_id x = Some t \<and> id_comensal x \<noteq> id_comensal c) cs),
                        correo_buscar c m (filter (\<lambda>x. mesa_id x = Some t \<and> id_comensal x \<noteq> id_comensal c) cs)] \<and>
     destinatario (correo_buscar c m (filter (\<lambda>x. mesa_id x = Some t \<and> id_comensal x \<noteq> id_comensal c) cs)) = email c"
proof -
  let ?q = "Some (Some (JStr n), Some (JStr e))"
  let ?comps = "filter (\<lambda>x. mesa_id x = Some t \<and> id_comensal x \<noteq> id_comensal c) cs"
  let ?msg = "correo_buscar c m ?comps"
  let ?w = "Esperando c m (ordenar_companeros ?comps) ms ?msg"
  let ?s0 = "\<lparr>sis_dir = st, sis_peticiones = [Nueva ?q, Nueva ?q], sis_enviados = []\<rparr>"
  let ?s1 = "\<lparr>sis_dir = st, sis_peticiones = [?w, Nueva ?q], sis_enviados = [?msg]\<rparr>"
  let ?s2 = "\<lparr>sis_dir = st, sis_peticiones = [?w, ?w], sis_enviados = [?msg, ?msg]\<rparr>"
  have b: "buscar_inicio env (\<lambda>_. 0) clk ?q st = (EsperaEnvio c m (ordenar_companeros ?comps) ms ?msg, st)"
    by (rule buscar_inicio_envia [OF assms])
  have p1: "paso_sistema env clk ?s0 ?s1"
    using paso_sistema.inicio_envia [of 0 ?s0 ?q env "\<lambda>_. 0" clk] b by simp
  have p2: "paso_sistema env clk ?s1 ?s2"
    using paso_sistema.inicio_envia [of 1 ?s1 ?q env "\<lambda>_. 0" clk] b by simp
  have d: "destinatario ?msg = email c" by (simp add: correo_buscar_def)
  show ?thesis using p1 p2 d by (intro exI [of _ ?s2]) simp
qed

theorem envio_duplicado_concurrente_witness:
  "\<exists>s'. (paso_sistema entorno_ok (\<lambda>_. []))\<^sup>*\<^sup>*
       \<lparr>sis_dir = directorio_sorteado, sis_peticiones = [Nueva consulta_ana, Nueva consulta_ana], sis_enviados = []\<rparr> s' \<and>
     sis_enviados s' = [correo_buscar ana_sentada (mesa_demo 1 10) [], correo_buscar ana_sentada (mesa_demo 1 10) []]"
proof -
  have co: "coincide (normalizarTexto (js_lit ''Ana'')) (normalizarTexto (js_lit ''ANA.GIL1@EMAIL.COM'')) ana_sentada"
    by (simp add: coincide_def ana_sentada_def comensal_ana_def normalizar_eval)
  have f: "find (coincide (normalizarTexto (js_lit ''Ana'')) (normalizarTexto (js_lit ''ANA.GIL1@EMAIL.COM''))) [ana_sentada]
      = Some ana_sentada" using co by simp
  have sent: "\<not> yaSeEnvioEmail (email ana_sentada) directorio_sorteado"
    by (simp add: yaSeEnvioEmail_def directorio_sorteado_def)
  have seat: "mesa_id ana_sentada = Some 1" by (simp add: ana_sentada_def)
  have st: "comensales_st directorio_sorteado = Some [ana_sentada]" "mesas_st directorio_sorteado = Some [mesa_demo 1 10]"
    by (simp_all add: directorio_sorteado_def)
  have k: "api_key_presente entorno_ok" by (simp add: api_key_presente_def entorno_ok_def)
  have l: "list_ex (\<lambda>c. mesa_id c \<noteq> None) [ana_sentada]" using seat by simp
  have fm: "find (\<lambda>m. id_mesa m = 1) [mesa_demo 1 10] = Some (mesa_demo 1 10)" by (simp add: mesa_demo_def)
  have comps: "filter (\<lambda>x. mesa_id x = Some 1 \<and> id_comensal x \<noteq> id_comensal ana_sentada) [ana_sentada] = []" by simp
  have "\<exists>s'. (paso_sistema entorno_ok (\<lambda>_. []))\<^sup>*\<^sup>*
       \<lparr>sis_dir = directorio_sorteado, sis_peticiones = [Nueva consulta_ana, Nueva consulta_ana], sis_enviados = []\<rparr> s' \<and>
     sis_enviados s' = [correo_buscar ana_sentada (mesa_demo 1 10) (filter (\<lambda>x. mesa_id x = Some 1 \<and> id_comensal x \<noteq> id_comensal ana_sentada) [ana_sentada]),
                        correo_buscar ana_sentada (mesa_demo 1 10) (filter (\<lambda>x. mesa_id x = Some 1 \<and> id_comensal x \<noteq> id_comensal ana_sentada) [ana_sentada])] \<and>
     destinatario (correo_buscar ana_sentada (mesa_demo 1 10) (filter (\<lambda>x. mesa_id x = Some 1 \<and> id_comensal x \<noteq> id_comensal ana_sentada) [ana_sentada])) = email ana_sentada"
    using envio_duplicado_concurrente [OF k st l _ _ f seat _ fm sent, of "\<lambda>_. []"]
    by (simp add: consulta_ana_def)
  then show ?thesis by (simp only: comps) blast
qed

text \<open>C32 (safety). The draw cannot race in this code: the check "some
  attendee has a table" and the draw run in one phase, so once a collection
  with a seated attendee is stored, no interleaving of search requests
  replaces it.\<close>

theorem sorteo_estable_concurrente:
  assumes "(paso_sistema env clk)\<^sup>*\<^sup>* s s'" and "comensales_st (sis_dir s) = Some cs"
    and "list_ex (\<lambda>c. mesa_id c \<noteq> None) cs"
  shows "comensales_st (sis_dir s') = Some cs"
  using assms(1)
proof (induction rule: rtranclp_induct)
  case base then show ?case using assms(2) by simp
next
  case (step s1 s2) then show ?case using paso_sistema_sorteado assms(3) by blast
qed

theorem sorteo_estable_concurrente_witness:
  "comensales_st (sis_dir \<lparr>sis_dir = directorio_sorteado,
      sis_peticiones = [Esperando ana_sentada (mesa_demo 1 10) [] [mesa_demo 1 10] (correo_buscar ana_sentada (mesa_demo 1 10) []),
                        Esperando ana_sentada (mesa_demo 1 10) [] [mesa_demo 1 10] (correo_buscar ana_sentada (mesa_demo 1 10) [])],
      sis_enviados = [correo_buscar ana_sentada (mesa_demo 1 10) [], correo_buscar ana_sentada (mesa_demo 1 10) []]\<rparr>)
   = Some [ana_sentada]"
proof -
  have c: "comensales_st (sis_dir sistema_dos_ana) = Some [ana_sentada]"
    by (simp add: sistema_dos_ana_def directorio_sorteado_def)
  have l: "list_ex (\<lambda>c. mesa_id c \<noteq> None) [ana_sentada]" by (simp add: ana_sentada_def)
  show ?thesis by (rule sorteo_estable_concurrente [OF dos_envios_ana c l])
qed

text \<open>C33 (invariant). The ledger records only accepted sends, under every
  interleaving: with an API key, starting from any store and any batch of new
  search requests, every address that enters the ledger is the lower-cased
  recipient of a message that was handed to the dispatcher and accepted by it.
  Marking on a rejected send, or before the send's outcome, breaks this.\<close>

theorem registro_tras_envio_aceptado:
  assumes "api_key_presente env"
    and "(paso_sistema env clk)\<^sup>*\<^sup>* \<lparr>sis_dir = st, sis_peticiones = map Nueva qs, sis_enviados = []\<rparr> s'"
    and "a \<in> emails_enviados (sis_dir s')" and "a \<notin> emails_enviados st"
  shows "\<exists>msg\<in>set (sis_enviados s'). despachador env msg = EnvioOk \<and> a = js_toLowerCase (destinatario msg)"
proof -
  have "list_all (espera_registrada (sis_enviados s')) (sis_peticiones s') \<and>
    emails_enviados (sis_dir s') \<subseteq> emails_enviados st \<union>
      (\<lambda>msg. js_toLowerCase (destinatario msg)) ` set (filter (\<lambda>msg. despachador env msg = EnvioOk) (sis_enviados s'))"
    using assms(2)
  proof (induction rule: rtranclp_induct)
    case base then show ?case by (simp add: list_all_iff)
  next
    case (step s1 s2)
    from paso_sistema_registro [OF step.hyps(2) assms(1)] step.IH show ?case by auto
  qed
  then show ?thesis using assms(3,4) by auto
qed

theorem registro_tras_envio_aceptado_witness:
  "\<exists>msg\<in>set [correo_buscar ana_sentada (mesa_demo 1 10) []].
     despachador entorno_ok msg = EnvioOk \<and> js_toLowerCase (email ana_sentada) = js_toLowerCase (destinatario msg)"
proof -
  let ?msg = "correo_buscar ana_sentada (mesa_demo 1 10) []"
  let ?w = "Esperando ana_sentada (mesa_demo 1 10) [] [mesa_demo 1 10] ?msg"
  let ?s0 = "\<lparr>sis_dir = directorio_sorteado, sis_peticiones = map Nueva [consulta_ana], sis_enviados = []\<rparr>"
  let ?s1 = "\<lparr>sis_dir = directorio_sorteado, sis_peticiones = [?w], sis_enviados = [?msg]\<rparr>"
  let ?s2 = "\<lparr>sis_dir = marcarEmailEnviado (email ana_sentada) directorio_sorteado,
     sis_peticiones = [Respondida (RespOk ana_sentada (mesa_demo 1 10) [] [mesa_demo 1 10] True)], sis_enviados = [?msg]\<rparr>"
  have k: "api_key_presente entorno_ok" by (simp add: api_key_presente_def entorno_ok_def)
  have p1: "paso_sistema entorno_ok (\<lambda>_. []) ?s0 ?s1"
    using paso_sistema.inicio_envia [of 0 ?s0 consulta_ana entorno_ok "\<lambda>_. 0" "\<lambda>_. []"] buscar_inicio_ana by simp
  have p2: "paso_sistema entorno_ok (\<lambda>_. []) ?s1 ?s2"
    using paso_sistema.fin_envio [of 0 ?s1 ana_sentada "mesa_demo 1 10" "[]" "[mesa_demo 1 10]" ?msg entorno_ok]
    by (simp add: buscar_fin_def entorno_ok_def)
  have tr: "(paso_sistema entorno_ok (\<lambda>_. []))\<^sup>*\<^sup>* ?s0 ?s2" using p1 p2 by simp
  have in2: "js_toLowerCase (email ana_sentada) \<in> emails_enviados (sis_dir ?s2)"
    by (simp add: marcarEmailEnviado_def)
  have out: "js_toLowerCase (email ana_sentada) \<notin> emails_enviados directorio_sorteado"
    by (simp add: directorio_sorteado_def)
  show ?thesis using registro_tras_envio_aceptado [OF k tr in2 out] by simp
qed

end
