(* ===== verification/Interfaz.thy ===== *)
theory Interfaz
  imports Api_Buscar
begin

text \<open>
  The web page and its components: \<open>Home\<close> of \<open>src/src/app/page.tsx\<close> (its
  React state, the form events, \<open>handleSubmit\<close> with its \<open>fetch\<close> of
  \<open>/api/buscar\<close>, and the view it renders), \<open>CompanerosList\<close>,
  \<open>SalaCroquis\<close> and \<open>MesaCroquis\<close> of \<open>src/src/components\<close>, and the
  document shell of \<open>src/src/app/layout.tsx\<close>. A component is the function
  from its props to the data it renders (text, highlighting, order); CSS
  classes and icons are not modelled. React renders \<open>null\<close> as nothing,
  unlike a template literal.
\<close>

subsection \<open>The JSON bodies the page reads\<close>

text \<open>The \<open>error\<close> field of each error response of \<open>POST /api/buscar\<close>.\<close>

definition mensaje_error :: "error_buscar \<Rightarrow> jstr" where
  "mensaje_error e =
     (case e of
        ErrRequeridos \<Rightarrow> js_lit ''Nombre y email son requeridos''
      | ErrNoEncontrado \<Rightarrow> js_lit ''No se encontr'' @ [0xF3] @ js_lit '' ning'' @ [0xFA]
                            @ js_lit ''n registro con ese nombre y email''
      | ErrSinSorteo \<Rightarrow> js_lit ''A'' @ [0xFA] @ js_lit ''n no se ha realizado el sorteo de mesas''
      | ErrMesa \<Rightarrow> js_lit ''Error al obtener informaci'' @ [0xF3] @ js_lit ''n de la mesa''
      | ErrInterno \<Rightarrow> js_lit ''Error interno del servidor'')"

subsection \<open>Components\<close>

text \<open>\<open>{x}\<close> in JSX: a number prints its digits, \<open>null\<close> prints nothing.\<close>

definition jsx_asiento :: "nat option \<Rightarrow> jstr" where
  "jsx_asiento a = (case a of None \<Rightarrow> [] | Some s \<Rightarrow> js_nat_str s)"

record tarjeta_companero =
  tarjeta_clave :: nat
  tarjeta_nombre :: jstr
  tarjeta_asiento :: jstr

text \<open>\<open>CompanerosList\<close>: a copy of the props sorted by seat (\<open>[...companeros].sort\<close>
  with the comparator of the email routes), one card per tablemate.\<close>

definition tarjeta_de :: "comensal \<Rightarrow> tarjeta_companero" where
  "tarjeta_de c =
     \<lparr>tarjeta_clave = id_comensal c, tarjeta_nombre = nombre c @ js_lit '' '' @ apellido c,
      tarjeta_asiento = js_lit ''Asiento '' @ jsx_asiento (asiento c)\<rparr>"

definition CompanerosList :: "comensal list \<Rightarrow> tarjeta_companero list" where
  "CompanerosList companeros = map tarjeta_de (ordenar_companeros companeros)"

record celda_sala =
  celda_numero :: nat
  celda_resaltada :: bool
  celda_etiqueta :: jstr

text \<open>\<open>SalaCroquis\<close>: \<open>filas * columnas\<close> cells numbered from 1; a cell shows its
  number when some table has that \<open>numero\<close>, otherwise \<open>-\<close>, and the cell of
  \<open>mesaResaltada\<close> is highlighted.\<close>

definition SalaCroquis :: "mesa list \<Rightarrow> nat \<Rightarrow> celda_sala list" where
  "SalaCroquis mesas mesaResaltada =
     (let filas = 5; columnas = 8
      in map (\<lambda>i. let mesaNum = i + 1;
                       m = find (\<lambda>m. numero m = mesaNum) mesas
                   in \<lparr>celda_numero = mesaNum, celda_resaltada = (mesaNum = mesaResaltada),
                       celda_etiqueta = (case m of Some _ \<Rightarrow> js_nat_str mesaNum | None \<Rightarrow> js_lit ''-'')\<rparr>)
           [0..<filas * columnas])"

record asiento_mesa =
  asiento_num :: nat
  asiento_angulo :: int
  asiento_usuario :: bool
  asiento_titulo :: jstr

text \<open>\<open>MesaCroquis\<close>: a round table of ten seats, whatever the table's
  capacity; seat \<open>num\<close> sits at \<open>(num - 1) * 36 - 90\<close> degrees, the user's seat
  is highlighted, and the title of another seat names the first tablemate
  with that seat. The screen position is the cosine and sine of that angle,
  a function of the angle alone. The source file holds the title of the
  user's seat as the UTF-8 bytes of T, u-acute read as Latin-1, so the string
  literal is \<open>T\<close>, U+00C3, U+00BA.\<close>

definition titulo_asiento :: "nat \<Rightarrow> comensal list \<Rightarrow> nat \<Rightarrow> jstr" where
  "titulo_asiento asientoUsuario companeros num =
     (if num = asientoUsuario then js_lit ''T'' @ [0xC3, 0xBA]
      else case find (\<lambda>c. asiento c = Some num) companeros of
             Some c \<Rightarrow> nombre c @ js_lit '' '' @ apellido c
           | None \<Rightarrow> [])"

definition MesaCroquis :: "nat \<Rightarrow> comensal list \<Rightarrow> asiento_mesa list" where
  "MesaCroquis asientoUsuario companeros =
     map (\<lambda>num. \<lparr>asiento_num = num, asiento_angulo = (int num - 1) * 36 - 90,
                 asiento_usuario = (num = asientoUsuario),
                 asiento_titulo = titulo_asiento asientoUsuario companeros num\<rparr>)
       (map (\<lambda>i. i + 1) [0..<10])"

record documento =
  doc_titulo :: jstr
  doc_descripcion :: jstr
  doc_idioma :: jstr

text \<open>\<open>layout.tsx\<close>: the page metadata and the \<open>lang\<close> of the document.\<close>

definition RootLayout :: documento where
  "RootLayout =
     \<lparr>doc_titulo = js_lit ''Sorteo de Mesas - Cena de Gala'',
      doc_descripcion = js_lit ''Descubre tu ubicaci'' @ [0xF3] @ js_lit ''n en la cena de gala'',
      doc_idioma = js_lit ''es''\<rparr>"

subsection \<open>The page\<close>

record resultado_ui =
  ui_comensal :: comensal
  ui_mesa :: mesa
  ui_companeros :: "comensal list"
  ui_email_enviado :: bool

text \<open>The React state of \<open>Home\<close> (lines 11 to 21) and the body of the request
  in flight, if any (the pending \<open>fetch\<close> of \<open>handleSubmit\<close>).\<close>

record estado_pagina =
  campo_nombre :: jstr
  campo_email :: jstr
  cargando :: bool
  error_txt :: jstr
  resultado :: "resultado_ui option"
  mesas_vista :: "mesa list"
  en_vuelo :: "busqueda_form_data option"

definition pagina_inicial :: estado_pagina where
  "pagina_inicial =
     \<lparr>campo_nombre = [], campo_email = [], cargando = False, error_txt = [], resultado = None,
      mesas_vista = [], en_vuelo = None\<rparr>"

text \<open>The body \<open>JSON.stringify({ nombre, email })\<close> as the route reads it.\<close>

definition cuerpo_de :: "busqueda_form_data \<Rightarrow> (json_valor option \<times> json_valor option) option" where
  "cuerpo_de f = Some (Some (JStr (form_nombre f)), Some (JStr (form_email f)))"

datatype evento_pagina =
    EvNombre jstr
  | EvEmail jstr
  | EvEnviar
  | EvRespuesta respuesta_buscar
  | EvFalloRed

text \<open>
  The events of the page. The inputs are \<open>required\<close> and the email input has
  \<open>type="email"\<close>: the browser submits the form only when both are non-empty
  and the email passes its format check \<open>formato_ok\<close>; the submit button is
  \<open>disabled\<close> while loading, so no submit happens then. \<open>handleSubmit\<close>
  (lines 23 to 50) clears the error and the result and sends the request;
  a response with status other than 200 shows its \<open>error\<close> field (or
  \<open>Error al buscar\<close>), a 200 response becomes the result and its tables the
  tables of the room diagram, a failed fetch shows the connection error, and
  \<open>finally\<close> ends the loading.
\<close>

inductive paso_pagina :: "(jstr \<Rightarrow> bool) \<Rightarrow> estado_pagina \<Rightarrow> evento_pagina \<Rightarrow> estado_pagina \<Rightarrow> bool" where
  ev_nombre: "paso_pagina formato_ok p (EvNombre s) (p\<lparr>campo_nombre := s\<rparr>)"
| ev_email: "paso_pagina formato_ok p (EvEmail s) (p\<lparr>campo_email := s\<rparr>)"
| ev_enviar:
    "\<not> cargando p \<Longrightarrow> campo_nombre p \<noteq> [] \<Longrightarrow> campo_email p \<noteq> [] \<Longrightarrow> formato_ok (campo_email p) \<Longrightarrow>
     paso_pagina formato_ok p EvEnviar
       (p\<lparr>cargando := True, error_txt := [], resultado := None,
          en_vuelo := Some \<lparr>form_nombre = campo_nombre p, form_email = campo_email p\<rparr>\<rparr>)"
| ev_error:
    "en_vuelo p \<noteq> None \<Longrightarrow>
     paso_pagina formato_ok p (EvRespuesta (RespError e))
       (p\<lparr>error_txt := (if mensaje_error e = [] then js_lit ''Error al buscar'' else mensaje_error e),
          cargando := False, en_vuelo := None\<rparr>)"
| ev_ok:
    "en_vuelo p \<noteq> None \<Longrightarrow>
     paso_pagina formato_ok p (EvRespuesta (RespOk c m comps ms enviado))
       (p\<lparr>resultado := Some \<lparr>ui_comensal = c, ui_mesa = m, ui_companeros = comps, ui_email_enviado = enviado\<rparr>,
          mesas_vista := ms, cargando := False, en_vuelo := None\<rparr>)"
| ev_fallo_red:
    "en_vuelo p \<noteq> None \<Longrightarrow>
     paso_pagina formato_ok p EvFalloRed
       (p\<lparr>error_txt := js_lit ''Error de conexi'' @ [0xF3] @ js_lit ''n. Int'' @ [0xE9] @ js_lit ''ntalo de nuevo.'',
          cargando := False, en_vuelo := None\<rparr>)"

inductive_cases paso_paginaE [elim!]: "paso_pagina formato_ok p ev p'"

text \<open>The states the page reaches from its first render.\<close>

inductive pagina_alcanzable :: "(jstr \<Rightarrow> bool) \<Rightarrow> estado_pagina \<Rightarrow> bool" where
  alcanzable_inicial: "pagina_alcanzable formato_ok pagina_inicial"
| alcanzable_paso: "pagina_alcanzable formato_ok p \<Longrightarrow> paso_pagina formato_ok p ev p' \<Longrightarrow> pagina_alcanzable formato_ok p'"

text \<open>What the page promises on screen: the button is disabled exactly while a
  request is in flight, nothing stale is shown while loading, and a result is
  never shown together with an error.\<close>

definition pagina_coherente :: "estado_pagina \<Rightarrow> bool" where
  "pagina_coherente p \<longleftrightarrow>
     (cargando p \<longleftrightarrow> en_vuelo p \<noteq> None) \<and>
     (cargando p \<longrightarrow> resultado p = None \<and> error_txt p = []) \<and>
     (resultado p = None \<or> error_txt p = [])"

text \<open>The view of lines 52 to 182: the button, the error box, and for a
  result the greeting, the table and seat line, the email banner and the
  three components with their props.\<close>

record vista =
  boton_deshabilitado :: bool
  caja_error :: "jstr option"
  saludo :: "jstr option"
  linea_mesa :: "jstr option"
  aviso_email :: "jstr option"
  vista_sala :: "celda_sala list"
  vista_mesa :: "asiento_mesa list"
  vista_lista :: "tarjeta_companero list"

definition vista_pagina :: "estado_pagina \<Rightarrow> vista" where
  "vista_pagina p =
     (case resultado p of
        None \<Rightarrow>
          \<lparr>boton_deshabilitado = cargando p, caja_error = (if error_txt p = [] then None else Some (error_txt p)),
           saludo = None, linea_mesa = None, aviso_email = None, vista_sala = [], vista_mesa = [], vista_lista = []\<rparr>
      | Some r \<Rightarrow>
          \<lparr>boton_deshabilitado = cargando p, caja_error = (if error_txt p = [] then None else Some (error_txt p)),
           saludo = Some ([0xA1] @ js_lit ''Hola, '' @ nombre (ui_comensal r) @ js_lit ''!''),
           linea_mesa = Some (js_lit ''Mesa '' @ js_nat_str (numero (ui_mesa r)) @ js_lit '' - Asiento ''
                              @ jsx_asiento (asiento (ui_comensal r))),
           aviso_email = (if ui_email_enviado r then Some ([0x2705, 32] @ js_lit ''Email enviado a '' @ email (ui_comensal r))
                          else None),
           vista_sala = SalaCroquis (mesas_vista p) (numero (ui_mesa r)),
           vista_mesa = MesaCroquis (case asiento (ui_comensal r) of None \<Rightarrow> 1 | Some 0 \<Rightarrow> 1 | Some s \<Rightarrow> s)
                          (ui_companeros r),
           vista_lista = CompanerosList (ui_companeros r)\<rparr>)"

subsection \<open>Facts on the page and its components\<close>

lemma paso_pagina_coherente:
  "paso_pagina formato_ok p ev p' \<Longrightarrow> pagina_coherente p \<Longrightarrow> pagina_coherente p'"
  by (induction rule: paso_pagina.induct) (auto simp: pagina_coherente_def mensaje_error_def)

lemma alcanzable_coherente:
  "pagina_alcanzable formato_ok p \<Longrightarrow> pagina_coherente p"
proof (induction rule: pagina_alcanzable.induct)
  case alcanzable_inicial then show ?case by (simp add: pagina_coherente_def pagina_inicial_def)
next
  case alcanzable_paso
  from alcanzable_paso.hyps(2) alcanzable_paso.IH show ?case by (rule paso_pagina_coherente)
qed

lemma alcanzable_en_vuelo:
  "pagina_alcanzable formato_ok p \<Longrightarrow> en_vuelo p = Some f \<Longrightarrow> form_nombre f \<noteq> [] \<and> form_email f \<noteq> []"
  by (induction arbitrary: f rule: pagina_alcanzable.induct) (auto simp: pagina_inicial_def)

lemma mensaje_error_no_vacio: "mensaje_error e \<noteq> []"
  by (cases e) (simp_all add: mensaje_error_def)

lemma companeros_list_orden:
  "sorted (map clave_asiento (ordenar_companeros cs)) \<and> mset (ordenar_companeros cs) = mset cs \<and>
   filter (\<lambda>c. clave_asiento c = k) (ordenar_companeros cs) = filter (\<lambda>c. clave_asiento c = k) cs"
  by (simp add: ordenar_companeros_def sort_key_stable)

lemma sala_croquis_eq:
  "SalaCroquis ms r = map (\<lambda>k. \<lparr>celda_numero = k, celda_resaltada = (k = r),
     celda_etiqueta = (case find (\<lambda>m. numero m = k) ms of Some _ \<Rightarrow> js_nat_str k | None \<Rightarrow> js_lit ''-'')\<rparr>) [1..<41]"
proof -
  have "[1..<41] = map (\<lambda>i. i + 1) [0..<40]" by (simp add: map_Suc_upt del: upt_Suc)
  then show ?thesis by (simp add: SalaCroquis_def Let_def del: upt_Suc)
qed

lemma mesa_croquis_eq:
  "MesaCroquis u cs = map (\<lambda>num. \<lparr>asiento_num = num, asiento_angulo = (int num - 1) * 36 - 90,
     asiento_usuario = (num = u), asiento_titulo = titulo_asiento u cs num\<rparr>) [1..<11]"
  by (simp add: MesaCroquis_def map_Suc_upt del: upt_Suc)

lemma sala_croquis_resaltadas:
  "r \<in> {1..40} \<Longrightarrow> map celda_numero (filter celda_resaltada (SalaCroquis ms r)) = [r]"
  by (simp add: sala_croquis_eq filter_map comp_def filter_unico del: upt_Suc)

lemma mesa_croquis_usuario:
  "u \<in> {1..10} \<Longrightarrow> map asiento_num (filter asiento_usuario (MesaCroquis u cs)) = [u]"
  by (simp add: mesa_croquis_eq filter_map comp_def filter_unico del: upt_Suc)

text \<open>The seat circle always has seats 1 to 10, whatever the table's capacity.\<close>

lemma mesa_croquis_diez_asientos: "map asiento_num (MesaCroquis u cs) = [1..<11]"
  by (simp add: mesa_croquis_eq comp_def del: upt_Suc)

subsection \<open>Properties of the page\<close>

text \<open>C34 (invariant). In every state the page reaches, the submit button is
  disabled exactly while a search request is in flight, neither an old error
  nor an old result is shown while loading, and a result is never shown
  together with an error.\<close>

theorem pagina_coherente_alcanzable:
  assumes "pagina_alcanzable formato_ok p"
  shows "pagina_coherente p"
  using assms by (rule alcanzable_coherente)

theorem pagina_coherente_alcanzable_witness:
  "pagina_coherente (pagina_inicial\<lparr>campo_nombre := js_lit ''Ana'', campo_email := js_lit ''ana@x.es'',
      cargando := True, error_txt := [], resultado := None,
      en_vuelo := Some \<lparr>form_nombre = js_lit ''Ana'', form_email = js_lit ''ana@x.es''\<rparr>\<rparr>)"
proof -
  let ?p1 = "pagina_inicial\<lparr>campo_nombre := js_lit ''Ana''\<rparr>"
  let ?p2 = "?p1\<lparr>campo_email := js_lit ''ana@x.es''\<rparr>"
  have a2: "pagina_alcanzable (\<lambda>_. True) ?p2"
    by (rule alcanzable_paso [OF alcanzable_paso [OF alcanzable_inicial ev_nombre] ev_email])
  have "paso_pagina (\<lambda>_. True) ?p2 EvEnviar
      (?p2\<lparr>cargando := True, error_txt := [], resultado := None,
           en_vuelo := Some \<lparr>form_nombre = campo_nombre ?p2, form_email = campo_email ?p2\<rparr>\<rparr>)"
    by (rule ev_enviar) (simp_all add: pagina_inicial_def)
  then have "pagina_alcanzable (\<lambda>_. True)
      (?p2\<lparr>cargando := True, error_txt := [], resultado := None,
           en_vuelo := Some \<lparr>form_nombre = campo_nombre ?p2, form_email = campo_email ?p2\<rparr>\<rparr>)"
    by (rule alcanzable_paso [OF a2])
  from pagina_coherente_alcanzable [OF this] show ?thesis by simp
qed

text \<open>C35 (functional). What the page shows for a result: in the room diagram
  exactly the cell of the attendee's table is highlighted, in the table diagram
  exactly the attendee's seat is marked, and the tablemate cards come in seat
  order, for a table numbered 1 to 40 and a seat from 1 to 10.\<close>

theorem vista_resultado:
  assumes "resultado p = Some r" and "numero (ui_mesa r) \<in> {1..40}"
    and "asiento (ui_comensal r) = Some s" and "s \<in> {1..10}"
  shows "map celda_numero (filter celda_resaltada (vista_sala (vista_pagina p))) = [numero (ui_mesa r)] \<and>
    map asiento_num (filter asiento_usuario (vista_mesa (vista_pagina p))) = [s] \<and>
    vista_lista (vista_pagina p) = map tarjeta_de (sort_key clave_asiento (ui_companeros r))"
proof -
  have u: "(case asiento (ui_comensal r) of None \<Rightarrow> 1 | Some 0 \<Rightarrow> 1 | Some s \<Rightarrow> s) = s"
    using assms(3,4) by (cases s) simp_all
  show ?thesis
    using assms(1) sala_croquis_resaltadas [OF assms(2)] mesa_croquis_usuario [OF assms(4)]
    by (simp add: vista_pagina_def u CompanerosList_def ordenar_companeros_def)
qed

theorem vista_resultado_witness:
  "map celda_numero (filter celda_resaltada (vista_sala (vista_pagina (pagina_inicial\<lparr>resultado :=
      Some \<lparr>ui_comensal = nuevo_comensal (\<lambda>_. []) [] [] 1\<lparr>asiento := Some 3\<rparr>,
            ui_mesa = nueva_mesa 7, ui_companeros = [], ui_email_enviado = False\<rparr>\<rparr>)))) = [7]"
proof -
  let ?r = "\<lparr>ui_comensal = nuevo_comensal (\<lambda>_. []) [] [] 1\<lparr>asiento := Some 3\<rparr>,
            ui_mesa = nueva_mesa 7, ui_companeros = [], ui_email_enviado = False\<rparr>"
  have "numero (ui_mesa ?r) = 7" by (simp add: nueva_mesa_def)
  then show ?thesis
    using vista_resultado [of "pagina_inicial\<lparr>resultado := Some ?r\<rparr>" ?r 3] by simp
qed


text \<open>C36 (functional). The page and the search route agree: a request the
  page sends (from any state it reaches) never gets the 400 of a missing field,
  and the page takes every answer of \<open>POST /api/buscar\<close> to a coherent state
  that is no longer loading; an error shows the route's own message (never the
  fallback), a result shows the attendee, table, tablemates and tables the
  route returned.\<close>

theorem pagina_respuesta_buscar:
  assumes "pagina_alcanzable formato_ok p" and "en_vuelo p = Some f"
    and "buscar_post env rnd clk (cuerpo_de f) st = (r, st', envs)"
  shows "r \<noteq> RespError ErrRequeridos \<and>
    (\<exists>p'. paso_pagina formato_ok p (EvRespuesta r) p' \<and> pagina_coherente p' \<and> \<not> cargando p' \<and>
       (case r of
          RespError e \<Rightarrow> error_txt p' = mensaje_error e \<and> resultado p' = None
        | RespOk c m comps ms b \<Rightarrow> error_txt p' = [] \<and> mesas_vista p' = ms \<and>
            resultado p' = Some \<lparr>ui_comensal = c, ui_mesa = m, ui_companeros = comps, ui_email_enviado = b\<rparr>))"
proof -
  have coh: "pagina_coherente p" using assms(1) by (rule alcanzable_coherente)
  have ne: "form_nombre f \<noteq> [] \<and> form_email f \<noteq> []" using alcanzable_en_vuelo [OF assms(1,2)] .
  have vuelo: "en_vuelo p \<noteq> None" using assms(2) by simp
  have "r \<noteq> RespError ErrRequeridos"
    using buscar_post_no_requeridos [OF _ _ assms(3) [unfolded cuerpo_de_def]] ne by (simp add: js_falsy_def)
  moreover have "\<exists>p'. paso_pagina formato_ok p (EvRespuesta r) p' \<and> pagina_coherente p' \<and> \<not> cargando p' \<and>
       (case r of
          RespError e \<Rightarrow> error_txt p' = mensaje_error e \<and> resultado p' = None
        | RespOk c m comps ms b \<Rightarrow> error_txt p' = [] \<and> mesas_vista p' = ms \<and>
            resultado p' = Some \<lparr>ui_comensal = c, ui_mesa = m, ui_companeros = comps, ui_email_enviado = b\<rparr>)"
  proof (cases r)
    case (RespError e)
    have step: "paso_pagina formato_ok p (EvRespuesta (RespError e))
        (p\<lparr>error_txt := (if mensaje_error e = [] then js_lit ''Error al buscar'' else mensaje_error e),
           cargando := False, en_vuelo := None\<rparr>)"
      using vuelo by (rule ev_error)
    have c': "pagina_coherente (p\<lparr>error_txt := (if mensaje_error e = [] then js_lit ''Error al buscar'' else mensaje_error e),
           cargando := False, en_vuelo := None\<rparr>)"
      using step coh by (rule paso_pagina_coherente)
    from coh vuelo have "resultado p = None" by (simp add: pagina_coherente_def)
    with step c' RespError show ?thesis
      by (intro exI [of _ "p\<lparr>error_txt := (if mensaje_error e = [] then js_lit ''Error al buscar'' else mensaje_error e),
           cargando := False, en_vuelo := None\<rparr>"]) (simp add: mensaje_error_no_vacio)
  next
    case (RespOk c m comps ms b)
    have step: "paso_pagina formato_ok p (EvRespuesta (RespOk c m comps ms b))
        (p\<lparr>resultado := Some \<lparr>ui_comensal = c, ui_mesa = m, ui_companeros = comps, ui_email_enviado = b\<rparr>,
           mesas_vista := ms, cargando := False, en_vuelo := None\<rparr>)"
      using vuelo by (rule ev_ok)
    have c': "pagina_coherente (p\<lparr>resultado := Some \<lparr>ui_comensal = c, ui_mesa = m, ui_companeros = comps, ui_email_enviado = b\<rparr>,
           mesas_vista := ms, cargando := False, en_vuelo := None\<rparr>)"
      using step coh by (rule paso_pagina_coherente)
    from coh vuelo have "error_txt p = []" by (simp add: pagina_coherente_def)
    with step c' RespOk show ?thesis
      by (intro exI [of _ "p\<lparr>resultado := Some \<lparr>ui_comensal = c, ui_mesa = m, ui_companeros = comps, ui_email_enviado = b\<rparr>,
           mesas_vista := ms, cargando := False, en_vuelo := None\<rparr>"]) simp
  qed
  ultimately show ?thesis by blast
qed

theorem pagina_respuesta_buscar_witness:
  "\<exists>p'. paso_pagina (\<lambda>_. True)
      (pagina_inicial\<lparr>campo_nombre := js_lit ''Ana'', campo_email := js_lit ''ANA.GIL1@EMAIL.COM'',
         cargando := True, error_txt := [], resultado := None,
         en_vuelo := Some \<lparr>form_nombre = js_lit ''Ana'', form_email = js_lit ''ANA.GIL1@EMAIL.COM''\<rparr>\<rparr>)
      (EvRespuesta (RespOk ana_sentada (mesa_demo 1 10) [] [mesa_demo 1 10] False)) p' \<and>
    pagina_coherente p' \<and> mesas_vista p' = [mesa_demo 1 10]"
proof -
  let ?f = "\<lparr>form_nombre = js_lit ''Ana'', form_email = js_lit ''ANA.GIL1@EMAIL.COM''\<rparr>"
  let ?p1 = "pagina_inicial\<lparr>campo_nombre := js_lit ''Ana''\<rparr>"
  let ?p2 = "?p1\<lparr>campo_email := js_lit ''ANA.GIL1@EMAIL.COM''\<rparr>"
  let ?p3 = "?p2\<lparr>cargando := True, error_txt := [], resultado := None,
           en_vuelo := Some \<lparr>form_nombre = campo_nombre ?p2, form_email = campo_email ?p2\<rparr>\<rparr>"
  have a2: "pagina_alcanzable (\<lambda>_. True) ?p2"
    by (rule alcanzable_paso [OF alcanzable_paso [OF alcanzable_inicial ev_nombre] ev_email])
  have "paso_pagina (\<lambda>_. True) ?p2 EvEnviar ?p3"
    by (rule ev_enviar) (simp_all add: pagina_inicial_def)
  then have a3: "pagina_alcanzable (\<lambda>_. True) ?p3" by (rule alcanzable_paso [OF a2])
  let ?P = "pagina_inicial\<lparr>campo_nombre := js_lit ''Ana'', campo_email := js_lit ''ANA.GIL1@EMAIL.COM'',
         cargando := True, error_txt := [], resultado := None, en_vuelo := Some ?f\<rparr>"
  have eq: "?p3 = ?P" by simp
  have a: "pagina_alcanzable (\<lambda>_. True) ?P" using a3 by (simp only: eq)
  have v: "en_vuelo ?P = Some ?f" by simp
  have q: "buscar_post entorno_falla (\<lambda>_. 0) (\<lambda>_. []) (cuerpo_de ?f) directorio_sorteado =
     (RespOk ana_sentada (mesa_demo 1 10) [] [mesa_demo 1 10] False, directorio_sorteado,
      [correo_buscar ana_sentada (mesa_demo 1 10) []])"
    using buscar_ana_falla by (simp add: cuerpo_de_def consulta_ana_def)
  have "\<exists>p'. paso_pagina (\<lambda>_. True) ?P (EvRespuesta (RespOk ana_sentada (mesa_demo 1 10) [] [mesa_demo 1 10] False)) p' \<and>
      pagina_coherente p' \<and> \<not> cargando p' \<and>
      (case RespOk ana_sentada (mesa_demo 1 10) [] [mesa_demo 1 10] False of
          RespError e \<Rightarrow> error_txt p' = mensaje_error e \<and> resultado p' = None
        | RespOk c m comps ms b \<Rightarrow> error_txt p' = [] \<and> mesas_vista p' = ms \<and>
            resultado p' = Some \<lparr>ui_comensal = c, ui_mesa = m, ui_companeros = comps, ui_email_enviado = b\<rparr>)"
    using pagina_respuesta_buscar [OF a v q] by (rule conjunct2)
  then show ?thesis by (simp only: respuesta_buscar.case) (elim exE conjE, rule exI, intro conjI, assumption+)
qed

end
