(* ===== verification/Spec2Isabelle.thy ===== *)
theory Spec2Isabelle
  imports Api_Envios Concurrencia Interfaz
begin

text \<open>
  \<^bold>\<open>Verification development of the dinner seating service.\<close>
  The program (TypeScript, Next.js) seats 400 generated attendees at 40
  generated tables of 10 by a random draw, lets each attendee look up their
  table and tablemates through a web page, and emails each attendee their
  seat through Resend. The parts and how they interact:
  \<^item> \<open>src/src/types/index.ts\<close>: the five interfaces; theory \<open>Cena_Types\<close>
    (records \<open>comensal\<close>, \<open>mesa\<close>, \<open>asignacion_mesa\<close>,
    \<open>busqueda_form_data\<close>, \<open>sorteo_result\<close>).
  \<^item> \<open>src/src/lib/data.ts\<close>, the core. \<open>Js_Text\<close> models the string builtins
    it calls (\<open>toLowerCase\<close>, \<open>trim\<close>, \<open>normalize("NFD")\<close>, the
    mark-stripping \<open>replace\<close>, \<open>includes\<close>) and \<open>normalizarTexto\<close>.
    \<open>Catalog\<close> models \<open>generarComensales\<close> (the two nested loops with their
    counter guard, as \<open>gen_nombres\<close>/\<open>gen_apellidos\<close>) and \<open>generarMesas\<close>.
    \<open>Draw\<close> models \<open>realizarSorteo\<close>: the Fisher-Yates loop
    (\<open>fisher_yates\<close>, \<open>swap\<close>, \<open>fy_index\<close>) over an explicit \<open>Math.random\<close>
    source and the seating walk \<open>asignar\<close>, including the TypeError it throws
    past the last table. \<open>Directory\<close> models the module state (the attendee
    list, the table list and the ledger of sent emails) as the record
    \<open>directorio\<close> threaded through \<open>getComensales\<close>, \<open>getMesas\<close>,
    \<open>ejecutarSorteo\<close>, \<open>buscarComensal\<close>, \<open>getCompanerosMesa\<close>,
    \<open>marcarEmailEnviado\<close> and \<open>yaSeEnvioEmail\<close>.
  \<^item> \<open>src/config.ts\<close>: \<open>CONFIG_CENA\<close> with its environment overrides
    (theory \<open>Api_Envios\<close>).
  \<^item> The routes. \<open>Croquis\<close> models the ASCII room diagram the three email
    routes build with the same loops; \<open>Notificacion\<close> the Resend environment,
    the seat-sorted tablemate list and \<open>enviarEmailComensal\<close> of the search
    route; \<open>Api_Buscar\<close> the whole \<open>POST /api/buscar\<close> handler
    (\<open>buscar_post\<close>: validation, lazy draw, search, table lookup,
    tablemates, ledger-gated send, and the 500 of every throw with the store
    changes made before it); \<open>Api_Envios\<close> the routes \<open>POST /api/sorteo\<close>
    (\<open>sorteo_post\<close>), \<open>POST /api/enviar-email\<close> (\<open>enviar_email_post\<close>) and
    \<open>POST\<close>/\<open>GET /api/enviar-emails-masivo\<close> (\<open>masivo_post\<close>,
    \<open>masivo_bucle\<close>, \<open>masivo_paso\<close>, \<open>masivo_get\<close>).
  \<^item> \<open>Concurrencia\<close>: the search handler split at its only real \<open>await\<close>
    (the Resend send) into \<open>buscar_inicio\<close> and \<open>buscar_fin\<close>, and the
    inductive step relation \<open>paso_sistema\<close> interleaving the phases of any
    number of requests over the shared store, as the Node event loop does.
  \<^item> \<open>Interfaz\<close>: the page \<open>src/src/app/page.tsx\<close> (its React state as the
    record \<open>estado_pagina\<close>, its events as the inductive \<open>paso_pagina\<close>, its
    rendering as \<open>vista_pagina\<close>), the components \<open>CompanerosList\<close>,
    \<open>SalaCroquis\<close>, \<open>MesaCroquis\<close> and the shell \<open>layout.tsx\<close>. The page
    and the search route meet at \<open>cuerpo_de\<close> (the posted form) and
    \<open>respuesta_buscar\<close> (the answer the page steps on).

  \<^bold>\<open>Modelling choices.\<close> A JavaScript string is the list of its code points
  (\<open>jstr\<close>); numbers are naturals, which is exact since every id, seat and
  counter stays far below \<open>2^53\<close>. Effects are explicit: the store is passed
  and returned, \<open>Math.random\<close> is a function \<open>random_source\<close> from the call
  index to a real (assumed in \<open>[0,1)\<close> by \<open>math_random_ok\<close> where a theorem
  needs it), the clock is a function from the attendee counter to the
  \<open>created_at\<close> text, and Resend is the oracle \<open>despachador\<close> from a message
  to its outcome (accepted, rejected, or thrown). Every throw and early
  return is a value: \<open>js_error + _\<close> in the core, the response datatypes in
  the routes. HTML templates are lists of \<open>Texto\<close> interpolations and
  \<open>Marcado\<close> stretches of constant markup named by position. All loops are
  structural recursion except \<open>gen_mesas\<close> (a \<open>measure\<close> on the table
  counter); no fuel is needed. The interleaving of requests is an inductive
  relation whose properties are proved by rule induction over its traces
  (\<open>rtranclp\<close>).

  \<^bold>\<open>What is shown.\<close> \<open>Draw\<close>: the draw refines the abstract seating
  \<open>reparto\<close> (seats of the tables in order), fails exactly on overflow,
  permutes its input, keeps seats within capacity and distinct, and that a
  zero-capacity table after a full one receives an attendee at seat 1. \<open>Catalog\<close>: the generator enumerates the name pairs,
  yields 400 attendees with ids 1..400 and distinct, normalised emails, and
  the table layout. \<open>Directory\<close>: the ledger round trip, the well-formedness
  invariant of every reachable store, soundness and completeness of search,
  and the outcome of the stored draw. \<open>Api_Buscar\<close>: idempotent notification,
  no redraw once seated, no ledger entry on a failed send, and validation.
  \<open>Croquis\<close>: one marked cell at the table's layout position. \<open>Api_Envios\<close>:
  the bulk loop's accounting, that it ignores the ledger, its secret gate and
  default secret, that notify-one always sends, and that the draw route
  redraws every loaded store from the shuffle alone, ignoring current seats
  and notifications. \<open>Concurrencia\<close>: under every interleaving a stored draw is
  never replaced and the ledger only ever records accepted sends; for every
  found, seated, not yet notified attendee two concurrent searches both send. \<open>Interfaz\<close>: the page's
  coherence invariant, what a result shows, and that page and route agree
  (no missing-field error for a request the page sends, every answer handled
  with the route's own message). This theory: the reference
  draw of 400 attendees over 40 tables (\<open>sorteo_referencia\<close>) and the first
  search end to end on a fresh store (\<open>buscar_referencia\<close>).

  \<^bold>\<open>Not modelled.\<close> A send that never answers: the dispatcher is a
  total function, and the code sets no timeout on \<open>resend.emails.send\<close>, so a
  hung call would leave its request pending (recorded as a finding). The
  interleaving of the bulk route with other requests: its loop awaits every
  send and a 100 ms pause, both points where searches can run, and the model
  runs the loop in one piece. A search changes only the ledger, which the loop
  never reads, or makes the first draw, after which a loop that started on the
  unseated list still skips every attendee of its own copy; a concurrent
  \<open>POST /api/sorteo\<close>, whose new seating the loop's tablemate reads would
  see, is not covered. CSS classes,
  icons and animation; \<open>console.log\<close> output; the screen position of a seat
  in \<open>MesaCroquis\<close> (cosine and sine of the angle, a function of the modelled
  angle); the browser's email format check, which is the parameter
  \<open>formato_ok\<close>; the Resend service itself, which is the oracle; the outer
  \<open>catch\<close> of the bulk route, which nothing in its body can reach (every send
  exception is caught per attendee). Case mapping and decomposition are exact
  on Basic Latin, Latin-1 and the combining marks, and the identity elsewhere,
  which covers every character of the corpora.\<close>

abbreviation sorteo_ref :: "random_source \<Rightarrow> clock \<Rightarrow> comensal list" where
  "sorteo_ref rnd clk \<equiv> map2 sentar (mezclar rnd (generarComensales clk)) (plazas generarMesas)"

lemma sum_capacidad_generarMesas: "sum_list (map capacidad generarMesas) = 400"
  by (simp add: generarMesas_eq nueva_mesa_def comp_def sum_list_triv)

lemma distinct_ids_generarMesas: "distinct (map id_mesa generarMesas)"
  by (simp only: generarMesas_ids distinct_upt)

lemma length_plazas_ref: "length (plazas generarMesas) = 400"
  by (simp add: length_plazas sum_capacidad_generarMesas)

lemma sorteo_ref_run: "realizarSorteo rnd (generarComensales clk) generarMesas = Inr (sorteo_ref rnd clk)"
  by (rule realizarSorteo_success [OF capacidades_positivas_generarMesas])
     (simp add: generarComensales_length sum_capacidad_generarMesas)

lemma sorteo_ref_por_mesa:
  assumes "m \<in> set generarMesas"
  shows "length (filter (\<lambda>c. mesa_id c = Some (id_mesa m)) (sorteo_ref rnd clk)) = 10"
proof -
  let ?cs = "mezclar rnd (generarComensales clk)"
  have le: "length ?cs \<le> length (plazas generarMesas)" by (simp add: length_plazas_ref generarComensales_length)
  have take_all: "take (length ?cs) (plazas generarMesas) = plazas generarMesas"
    by (simp add: length_plazas_ref generarComensales_length)
  have "length (filter (\<lambda>c. mesa_id c = Some (id_mesa m)) (sorteo_ref rnd clk))
      = length (filter (\<lambda>p. fst p = id_mesa m) (plazas generarMesas))"
    using count_map2_sentar [OF le, of "id_mesa m"] take_all by simp
  also have "\<dots> = capacidad m" using distinct_ids_generarMesas assms by (rule count_plazas)
  finally show ?thesis using generarMesas_capacidad assms by simp
qed

lemma sorteo_ref_mset:
  assumes "math_random_ok rnd"
  shows "mset (map sin_asiento (sorteo_ref rnd clk)) = mset (map sin_asiento (generarComensales clk))"
  using asignar_sin_asiento [OF sorteo_ref_run [unfolded realizarSorteo_def]] mset_mezclar [OF assms]
  by (metis mset_map)


lemma sorteo_ref_miembro:
  assumes "math_random_ok rnd" and "c \<in> set (generarComensales clk)"
  obtains c' where "c' \<in> set (sorteo_ref rnd clk)" and "sin_asiento c' = sin_asiento c"
proof -
  have "set (map sin_asiento (sorteo_ref rnd clk)) = set (map sin_asiento (generarComensales clk))"
    by (rule mset_eq_setD [OF sorteo_ref_mset [OF assms(1)]])
  then have "sin_asiento c \<in> sin_asiento ` set (sorteo_ref rnd clk)"
    using assms(2) by (simp only: set_map) blast
  then obtain c' where "c' \<in> set (sorteo_ref rnd clk)" and "sin_asiento c = sin_asiento c'"
    by (rule imageE)
  then show ?thesis using that by simp
qed

lemma sorteo_ref_map_eq:
  assumes "math_random_ok rnd" and "\<And>c. f (sin_asiento c) = f c"
  shows "mset (map f (sorteo_ref rnd clk)) = mset (map f (generarComensales clk))"
proof -
  have "map f xs = map f (map sin_asiento xs)" for xs by (simp add: assms(2))
  then show ?thesis using arg_cong [OF sorteo_ref_mset [OF assms(1)], of "image_mset f"]
    by (metis mset_map)
qed

lemma sorteo_ref_distinct:
  assumes "math_random_ok rnd"
  shows "distinct (map email (sorteo_ref rnd clk))" and "distinct (map id_comensal (sorteo_ref rnd clk))"
  using sorteo_ref_map_eq [OF assms, of email] sorteo_ref_map_eq [OF assms, of id_comensal]
    generarComensales_emails_distinct [of clk] generarComensales_ids [of clk]
  by (metis mset_eq_imp_distinct_iff sin_asiento_fields distinct_upt)+

lemma sorteo_ref_normal:
  assumes "math_random_ok rnd"
  shows "list_all (\<lambda>c. normalizarTexto (email c) = email c) (sorteo_ref rnd clk)"
proof -
  have "set (map email (sorteo_ref rnd clk)) = set (map email (generarComensales clk))"
    using sorteo_ref_map_eq [OF assms, of email] by (metis mset_eq_setD sin_asiento_fields(2))
  then have "email ` set (sorteo_ref rnd clk) = email ` set (generarComensales clk)"
    by (simp only: set_map)
  then show ?thesis using generarComensales_emails_normal [of clk]
    unfolding list_all_iff by (metis (no_types, lifting) imageE imageI)
qed

lemma sorteo_ref_mesa:
  assumes "c \<in> set (sorteo_ref rnd clk)"
  obtains m where "m \<in> set generarMesas" and "mesa_id c = Some (id_mesa m)" and "id_mesa m \<noteq> 0"
proof -
  obtain p where p: "p \<in> set (plazas generarMesas)" and t: "mesa_id c = Some (fst p)"
    using realizarSorteo_seat_in_plazas [OF capacidades_positivas_generarMesas sorteo_ref_run assms] by blast
  obtain m where m: "m \<in> set generarMesas" and "fst p = id_mesa m" using p by (auto simp: set_plazas)
  moreover have "id_mesa m \<in> set (map id_mesa generarMesas)" using m by (simp only: set_map imageI)
  then have "id_mesa m \<noteq> 0" by (simp only: generarMesas_ids) simp
  ultimately show ?thesis using that t by simp
qed

text \<open>C37 (functional). The reference scenario of the spec: the 400 generated
  attendees drawn over the 40 generated tables. The draw succeeds, seats all
  400, fills every table with exactly 10, repeats no seat, and only moves the
  attendees around.\<close>

theorem sorteo_referencia:
  assumes "math_random_ok rnd"
  shows "\<exists>rs. realizarSorteo rnd (generarComensales clk) generarMesas = Inr rs \<and>
     length rs = 400 \<and>
     (\<forall>c\<in>set rs. mesa_id c \<noteq> None \<and> asiento c \<noteq> None) \<and>
     (\<forall>m\<in>set generarMesas. length (filter (\<lambda>c. mesa_id c = Some (id_mesa m)) rs) = 10) \<and>
     distinct (map (\<lambda>c. (mesa_id c, asiento c)) rs) \<and>
     mset (map sin_asiento rs) = mset (map sin_asiento (generarComensales clk))"
proof -
  let ?cs = "mezclar rnd (generarComensales clk)"
  let ?ps = "plazas generarMesas"
  let ?rs = "sorteo_ref rnd clk"
  have le: "length ?cs \<le> length ?ps" by (simp add: length_plazas_ref generarComensales_length)
  have take_all: "take (length ?cs) ?ps = ?ps" by (simp add: length_plazas_ref generarComensales_length)
  have seats: "map (\<lambda>c. (mesa_id c, asiento c)) ?rs = map (\<lambda>p. (Some (fst p), Some (snd p))) ?ps"
    using asientos_map2_sentar [OF le] take_all by simp
  have "length ?rs = 400" by (simp add: length_plazas_ref generarComensales_length)
  moreover have "\<forall>c\<in>set ?rs. mesa_id c \<noteq> None \<and> asiento c \<noteq> None"
    by (auto simp: sentar_def dest: set_zip_rightD)
  moreover have "\<forall>m\<in>set generarMesas. length (filter (\<lambda>c. mesa_id c = Some (id_mesa m)) ?rs) = 10"
    using sorteo_ref_por_mesa by blast
  moreover have "distinct (map (\<lambda>c. (mesa_id c, asiento c)) ?rs)"
    using distinct_plazas [OF distinct_ids_generarMesas]
    by (simp only: seats) (simp add: distinct_map inj_on_def prod_eq_iff)
  ultimately show ?thesis using sorteo_ref_run sorteo_ref_mset [OF assms] by blast
qed

theorem sorteo_referencia_witness:
  "math_random_ok (\<lambda>_. 0) \<and>
   (\<exists>rs. realizarSorteo (\<lambda>_. 0) (generarComensales (\<lambda>_. [])) generarMesas = Inr rs \<and>
     length rs = 400 \<and> distinct (map (\<lambda>c. (mesa_id c, asiento c)) rs) \<and>
     mset (map sin_asiento rs) = mset (map sin_asiento (generarComensales (\<lambda>_. []))))"
proof -
  have ok: "math_random_ok (\<lambda>_. 0)" by (simp add: math_random_ok_def)
  show ?thesis using ok sorteo_referencia [OF ok, of "\<lambda>_. []"] by blast
qed

text \<open>C38 (functional). End to end through the search route on the reference
  data: on a fresh store, the first \<open>POST /api/buscar\<close> of a generated attendee
  by its own name and email runs the draw, finds the attendee (seated, with its
  other fields unchanged), finds its table among the 40, and answers with the
  attendee's nine tablemates, whatever the dispatcher does.\<close>

theorem buscar_referencia:
  assumes ok: "math_random_ok rnd" and c: "c \<in> set (generarComensales clk)"
  shows "\<exists>c' m comps b st' envs.
     buscar_post env rnd clk (Some (Some (JStr (nombre c)), Some (JStr (email c)))) directorio_inicial
       = (RespOk c' m comps generarMesas b, st', envs) \<and>
     sin_asiento c' = sin_asiento c \<and> m \<in> set generarMesas \<and> mesa_id c' = Some (id_mesa m) \<and>
     length comps = 9"
proof -
  let ?cs = "generarComensales clk"
  let ?rs = "sorteo_ref rnd clk"
  let ?st1 = "directorio_inicial\<lparr>comensales_st := Some ?cs\<rparr>"
  let ?st2 = "?st1\<lparr>mesas_st := Some generarMesas, comensales_st := Some ?rs\<rparr>"
  obtain c' where c': "c' \<in> set ?rs" and sc: "sin_asiento c' = sin_asiento c"
    using sorteo_ref_miembro [OF ok c] .
  have campos: "nombre c' = nombre c" "email c' = email c"
    using arg_cong [OF sc, of nombre] arg_cong [OF sc, of email] by simp_all
  obtain m where m: "m \<in> set generarMesas" and t: "mesa_id c' = Some (id_mesa m)" and t0: "id_mesa m \<noteq> 0"
    using sorteo_ref_mesa [OF c'] .
  have g0: "getComensales clk directorio_inicial = (?cs, ?st1)"
    by (rule getComensales_None) (simp add: directorio_inicial_def)
  have libre: "\<not> list_ex (\<lambda>c. mesa_id c \<noteq> None) ?cs"
    using generarComensales_unseated by (auto simp: list_ex_iff)
  have g1: "getComensales clk ?st1 = (?cs, ?st1)" by simp
  have m1: "getMesas ?st1 = (generarMesas, ?st1\<lparr>mesas_st := Some generarMesas\<rparr>)"
    by (rule getMesas_None) (simp add: directorio_inicial_def)
  have sorteo: "ejecutarSorteo rnd clk ?st1 = (Inr ?rs, ?st2)"
    unfolding ejecutarSorteo_eq [OF g1 m1] sorteo_ref_run by simp
  have nf: "\<not> js_falsy (Some (JStr (nombre c)))" "\<not> js_falsy (Some (JStr (email c)))"
    using generarComensales_no_vacios [OF c] by (simp_all add: js_falsy_def)
  have post: "buscar_post env rnd clk (Some (Some (JStr (nombre c)), Some (JStr (email c)))) directorio_inicial
      = buscar_encontrar env clk (nombre c) (email c) ?st2"
    unfolding buscar_post_valido [OF nf g0] using libre sorteo
    by (simp add: buscar_tras_sorteo_def como_texto_def)
  have f: "find (coincide (normalizarTexto (nombre c)) (normalizarTexto (email c))) ?rs = Some c'"
    using find_coincide_unique [OF sorteo_ref_distinct(1) [OF ok] sorteo_ref_normal [OF ok] c'] campos
    by (simp only:)
  have fm: "find (\<lambda>m'. id_mesa m' = id_mesa m) generarMesas = Some m"
  proof (rule find_unique [OF m refl])
    show "\<forall>y\<in>set generarMesas. id_mesa y = id_mesa m \<longrightarrow> y = m"
      using distinct_ids_generarMesas m by (auto simp: distinct_map inj_on_def)
  qed
  let ?mesa = "filter (\<lambda>x. mesa_id x = Some (id_mesa m)) ?rs"
  have "filter (\<lambda>x. mesa_id x = Some (id_mesa m) \<and> id_comensal x \<noteq> id_comensal c') ?rs
      = filter (\<lambda>x. id_comensal x \<noteq> id_comensal c') ?mesa" by (simp only: filter_filter)
  also have "length \<dots> = length ?mesa - 1"
  proof (rule length_filter_otros)
    show "distinct (map id_comensal ?mesa)"
      using sorteo_ref_distinct(2) [OF ok] by (rule distinct_map_filter)
    show "c' \<in> set ?mesa" using c' t by (simp only: set_filter mem_Collect_eq simp_thms)
  qed
  finally have nueve: "length (filter (\<lambda>x. mesa_id x = Some (id_mesa m) \<and> id_comensal x \<noteq> id_comensal c') ?rs) = 9"
    by (simp only: sorteo_ref_por_mesa [OF m])
  have "\<exists>b comps' st' envs. buscar_encontrar env clk (nombre c) (email c) ?st2
         = (RespOk c' m comps' generarMesas b, st', envs) \<and>
      length comps' = length (filter (\<lambda>x. mesa_id x = Some (id_mesa m) \<and> id_comensal x \<noteq> id_comensal c') ?rs)"
    by (rule buscar_encontrar_hallado [OF _ _ f t t0 fm]) simp_all
  then obtain b comps' st' envs where
    r: "buscar_encontrar env clk (nombre c) (email c) ?st2 = (RespOk c' m comps' generarMesas b, st', envs)"
    and l: "length comps' = length (filter (\<lambda>x. mesa_id x = Some (id_mesa m) \<and> id_comensal x \<noteq> id_comensal c') ?rs)"
    by blast
  show ?thesis using post r l nueve sc m t by auto
qed

theorem buscar_referencia_witness:
  "math_random_ok (\<lambda>_. 0) \<and> hd (generarComensales (\<lambda>_. [])) \<in> set (generarComensales (\<lambda>_. [])) \<and>
   (\<exists>c' m comps b st' envs.
     buscar_post \<lparr>resend_api_key = None, despachador = \<lambda>_. EnvioOk\<rparr> (\<lambda>_. 0) (\<lambda>_. [])
       (Some (Some (JStr (nombre (hd (generarComensales (\<lambda>_. []))))),
             Some (JStr (email (hd (generarComensales (\<lambda>_. [])))))))
       directorio_inicial = (RespOk c' m comps generarMesas b, st', envs) \<and>
     sin_asiento c' = sin_asiento (hd (generarComensales (\<lambda>_. []))) \<and> m \<in> set generarMesas \<and>
     mesa_id c' = Some (id_mesa m) \<and> length comps = 9)"
proof -
  have ok: "math_random_ok (\<lambda>_. 0)" by (simp add: math_random_ok_def)
  have ne: "generarComensales (\<lambda>_. []) \<noteq> []"
    using generarComensales_length [of "\<lambda>_. []"] by auto
  have mem: "hd (generarComensales (\<lambda>_. [])) \<in> set (generarComensales (\<lambda>_. []))"
    using ne by (rule hd_in_set)
  show ?thesis
    using ok mem buscar_referencia [OF ok mem, of "\<lparr>resend_api_key = None, despachador = \<lambda>_. EnvioOk\<rparr>"]
    by blast
qed

end
